theory Spec2Isabelle
  imports Main "HOL-Library.AList"
begin

section \<open>Identifiers, values and schemas\<close>

text \<open>
  All identifiers of the device manager are QUuids.  A QUuid is modelled as a natural
  number; the null uuid (\<open>QUuid()\<close>, for which \<open>isNull()\<close> holds) is \<open>0\<close>.
\<close>

type_synonym QUuid = nat
type_synonym PluginId = QUuid
type_synonym VendorId = QUuid
type_synonym DeviceClassId = QUuid
type_synonym DeviceId = QUuid
type_synonym DeviceDescriptorId = QUuid
type_synonym StateTypeId = QUuid
type_synonym EventTypeId = QUuid
type_synonym PairingTransactionId = QUuid

definition isNullUuid :: "QUuid \<Rightarrow> bool" where
  "isNullUuid u = (u = 0)"

text \<open>
  A QVariant is a tagged value.  \<open>VInvalid\<close> is the default constructed \<open>QVariant()\<close>,
  the only value for which \<open>isValid()\<close> fails and \<open>isNull()\<close> holds in this model.
\<close>

datatype QVariant =
    VInvalid
  | VBool bool
  | VInt int
  | VUInt nat
  | VString string
  | VStringList "string list"
  | VUuid QUuid

datatype QVariantType = TBool | TInt | TUInt | TString | TStringList | TUuid

definition isNull :: "QVariant \<Rightarrow> bool" where
  "isNull v = (v = VInvalid)"

definition isValid :: "QVariant \<Rightarrow> bool" where
  "isValid v = (v \<noteq> VInvalid)"

text \<open>
  \<open>QVariant::canConvert\<close> and the ordering operators of QVariant belong to the Qt
  library, not to this repository.  They are parameters of the validator.
\<close>

record QVariantOps =
  canConvert :: "QVariant \<Rightarrow> QVariantType \<Rightarrow> bool"
  variantGreater :: "QVariant \<Rightarrow> QVariant \<Rightarrow> bool"
  variantLess :: "QVariant \<Rightarrow> QVariant \<Rightarrow> bool"

record ParamType =
  ptName :: string
  ptType :: QVariantType
  ptDefaultValue :: QVariant
  ptMinValue :: QVariant
  ptMaxValue :: QVariant
  ptAllowedValues :: "QVariant list"

record Param =
  paramName :: string
  paramValue :: QVariant

type_synonym ParamList = "Param list"

datatype DeviceError =
    DeviceErrorNoError
  | DeviceErrorPluginNotFound
  | DeviceErrorDeviceNotFound
  | DeviceErrorDeviceClassNotFound
  | DeviceErrorActionTypeNotFound
  | DeviceErrorStateTypeNotFound
  | DeviceErrorEventTypeNotFound
  | DeviceErrorDeviceDescriptorNotFound
  | DeviceErrorMissingParameter
  | DeviceErrorInvalidParameter
  | DeviceErrorSetupFailed
  | DeviceErrorDuplicateUuid
  | DeviceErrorCreationMethodNotSupported
  | DeviceErrorSetupMethodNotSupported
  | DeviceErrorHardwareNotAvailable
  | DeviceErrorHardwareFailure
  | DeviceErrorAsync
  | DeviceErrorDeviceInUse
  | DeviceErrorPairingTransactionIdNotFound

datatype DeviceSetupStatus =
    DeviceSetupStatusSuccess
  | DeviceSetupStatusFailure
  | DeviceSetupStatusAsync

datatype HardwareResource =
    HardwareResourceRadio433
  | HardwareResourceRadio868
  | HardwareResourceTimer
  | HardwareResourceUpnpDisovery

section \<open>Plugin metadata\<close>

text \<open>
  \<open>DeviceManager::verifyPluginMetadata\<close>.  The metadata is a QJsonObject, a map from
  keys to JSON values; \<open>data.contains(k)\<close> is \<open>data k \<noteq> None\<close>.  The loop runs over the
  three required fields, and its body tests the key \<open>"name"\<close> in every round.
\<close>

fun verifyPluginMetadata_loop :: "(string \<rightharpoonup> 'j) \<Rightarrow> string list \<Rightarrow> bool" where
  "verifyPluginMetadata_loop data [] = True"
| "verifyPluginMetadata_loop data (field # rest) =
     (if data ''name'' = None then False else verifyPluginMetadata_loop data rest)"

definition requiredFields :: "string list" where
  "requiredFields = [''name'', ''id'', ''vendors'']"

definition verifyPluginMetadata :: "(string \<rightharpoonup> 'j) \<Rightarrow> bool" where
  "verifyPluginMetadata data = verifyPluginMetadata_loop data requiredFields"

section \<open>Param validator\<close>

text \<open>\<open>DeviceManager::verifyParam(const ParamType &, const Param &)\<close>.\<close>

definition verifyParam1 :: "QVariantOps \<Rightarrow> ParamType \<Rightarrow> Param \<Rightarrow> DeviceError" where
  "verifyParam1 ops paramType param =
     (if ptName paramType = paramName param then
        (if \<not> canConvert ops (paramValue param) (ptType paramType) then
           DeviceErrorInvalidParameter
         else if isValid (ptMaxValue paramType)
                 \<and> variantGreater ops (paramValue param) (ptMaxValue paramType) then
           DeviceErrorInvalidParameter
         else if isValid (ptMinValue paramType)
                 \<and> variantLess ops (paramValue param) (ptMinValue paramType) then
           DeviceErrorInvalidParameter
         else if ptAllowedValues paramType \<noteq> []
                 \<and> paramValue param \<notin> set (ptAllowedValues paramType) then
           DeviceErrorInvalidParameter
         else DeviceErrorNoError)
      else DeviceErrorInvalidParameter)"

text \<open>\<open>DeviceManager::verifyParam(const QList<ParamType>, const Param &)\<close>: the first
  ParamType of that name decides.\<close>

fun verifyParam :: "QVariantOps \<Rightarrow> ParamType list \<Rightarrow> Param \<Rightarrow> DeviceError" where
  "verifyParam ops [] param = DeviceErrorInvalidParameter"
| "verifyParam ops (paramType # paramTypes) param =
     (if ptName paramType = paramName param then verifyParam1 ops paramType param
      else verifyParam ops paramTypes param)"

text \<open>First loop of \<open>verifyParams\<close>: every given param is checked, the first error is
  returned.\<close>

fun verifyParams_check :: "QVariantOps \<Rightarrow> ParamType list \<Rightarrow> ParamList \<Rightarrow> DeviceError" where
  "verifyParams_check ops paramTypes [] = DeviceErrorNoError"
| "verifyParams_check ops paramTypes (param # rest) =
     (let result = verifyParam ops paramTypes param
      in if result \<noteq> DeviceErrorNoError then result
         else verifyParams_check ops paramTypes rest)"

text \<open>
  Second loop of \<open>verifyParams\<close>, over the schema.  \<open>params\<close> is the in/out argument: it
  is searched for the name, and a ParamType whose default value is not null sets
  \<open>found\<close> and appends its default, whether or not the name was found.
\<close>

fun verifyParams_fill :: "ParamType list \<Rightarrow> ParamList \<Rightarrow> DeviceError \<times> ParamList" where
  "verifyParams_fill [] params = (DeviceErrorNoError, params)"
| "verifyParams_fill (paramType # paramTypes) params =
     (let found = list_ex (\<lambda>param. ptName paramType = paramName param) params;
          hasDefault = \<not> isNull (ptDefaultValue paramType);
          params' = (if hasDefault
                     then params @ [\<lparr>paramName = ptName paramType,
                                     paramValue = ptDefaultValue paramType\<rparr>]
                     else params)
      in if \<not> (found \<or> hasDefault) then (DeviceErrorMissingParameter, params')
         else verifyParams_fill paramTypes params')"

text \<open>\<open>DeviceManager::verifyParams\<close>: the result and the param list as the call leaves it.\<close>

definition verifyParams ::
  "QVariantOps \<Rightarrow> ParamType list \<Rightarrow> ParamList \<Rightarrow> bool \<Rightarrow> DeviceError \<times> ParamList" where
  "verifyParams ops paramTypes params requireAll =
     (let result = verifyParams_check ops paramTypes params
      in if result \<noteq> DeviceErrorNoError then (result, params)
         else if \<not> requireAll then (DeviceErrorNoError, params)
         else verifyParams_fill paramTypes params)"

section \<open>Catalog, devices and the state of the DeviceManager\<close>

datatype CreateMethod = CreateMethodUser | CreateMethodAuto | CreateMethodDiscovery

datatype SetupMethod =
    SetupMethodJustAdd
  | SetupMethodDisplayPin
  | SetupMethodEnterPin
  | SetupMethodPushButton

record StateType =
  stId :: StateTypeId
  stDefaultValue :: QVariant

record State =
  stateTypeId :: StateTypeId
  stateDeviceId :: DeviceId
  stateValue :: QVariant

record Event =
  eventTypeId :: EventTypeId
  eventDeviceId :: DeviceId
  eventParams :: ParamList
  isStateChangeEvent :: bool

text \<open>
  Modelled from the spec: \<open>DeviceClass::isValid()\<close> is declared outside the given
  sources; the spec only says that \<open>findDeviceClass\<close> "may return an invalid sentinel".
  The field \<open>dcValid\<close> stands for the result of \<open>isValid()\<close>; the default constructed
  \<open>DeviceClass()\<close> is invalid and has null ids.
\<close>

record DeviceClass =
  dcValid :: bool
  dcId :: DeviceClassId
  dcVendorId :: VendorId
  dcPluginId :: PluginId
  dcName :: string
  dcCreateMethods :: "CreateMethod set"
  dcSetupMethod :: SetupMethod
  dcParamTypes :: "ParamType list"
  dcDiscoveryParamTypes :: "ParamType list"
  dcStateTypes :: "StateType list"

definition defaultDeviceClass :: DeviceClass where
  "defaultDeviceClass =
     \<lparr>dcValid = False, dcId = 0, dcVendorId = 0, dcPluginId = 0, dcName = [],
      dcCreateMethods = {}, dcSetupMethod = SetupMethodJustAdd, dcParamTypes = [],
      dcDiscoveryParamTypes = [], dcStateTypes = []\<rparr>"

text \<open>
  Modelled from the spec: \<open>DeviceDescriptor::isValid()\<close> is declared outside the given
  sources.  The field \<open>ddValid\<close> stands for its result; the default constructed
  descriptor, which \<open>QHash::take\<close> and \<open>QHash::value\<close> return for an absent key, is
  invalid and has no params.
\<close>

record DeviceDescriptor =
  ddValid :: bool
  ddId :: DeviceDescriptorId
  ddDeviceClassId :: DeviceClassId
  ddTitle :: string
  ddParams :: ParamList

definition defaultDeviceDescriptor :: DeviceDescriptor where
  "defaultDeviceDescriptor =
     \<lparr>ddValid = False, ddId = 0, ddDeviceClassId = 0, ddTitle = [], ddParams = []\<rparr>"

record Device =
  deviceId :: DeviceId
  devicePluginId :: PluginId
  deviceClassId :: DeviceClassId
  deviceName :: string
  deviceParams :: ParamList
  deviceStates :: "State list"
  setupComplete :: bool

text \<open>\<open>Device(pluginId, id, deviceClassId, parent)\<close>.\<close>

definition Device_new :: "PluginId \<Rightarrow> DeviceId \<Rightarrow> DeviceClassId \<Rightarrow> Device" where
  "Device_new pluginId id' deviceClassId' =
     \<lparr>deviceId = id', devicePluginId = pluginId, deviceClassId = deviceClassId',
      deviceName = [], deviceParams = [], deviceStates = [], setupComplete = False\<rparr>"

text \<open>
  A plugin is its capability record.  The calls of the manager into a plugin that return
  a status are functions of their arguments; \<open>requiredHardware\<close> is the set of flags.
\<close>

record DevicePlugin =
  requiredHardware :: "HardwareResource set"
  pluginSetupDevice :: "Device \<Rightarrow> DeviceSetupStatus"
  pluginConfirmPairing ::
    "PairingTransactionId \<Rightarrow> DeviceClassId \<Rightarrow> ParamList \<Rightarrow> DeviceSetupStatus"
  pluginDiscoverDevices :: "DeviceClassId \<Rightarrow> ParamList \<Rightarrow> DeviceError"

text \<open>Devices are heap objects held by pointer in several lists; a pointer is an address.\<close>

type_synonym DevicePtr = nat

datatype Signal =
    SigDeviceSetupFinished DevicePtr DeviceError
  | SigPairingFinished PairingTransactionId DeviceError DeviceId
  | SigDeviceStateChanged DevicePtr StateTypeId QVariant
  | SigEventTriggered Event
  | SigDevicesDiscovered DeviceClassId "DeviceDescriptor list"

text \<open>One group of the persisted \<open>DeviceConfig\<close> settings; its subgroup \<open>Params\<close> is a
  list of keys with their values, each key once.\<close>

record StoredDevice =
  sdName :: string
  sdClassId :: DeviceClassId
  sdPluginId :: PluginId
  sdParams :: "(string \<times> QVariant) list"

text \<open>
  The members of the DeviceManager.  \<open>m_supportedDevices\<close> is a hash filled by
  \<open>insert(deviceClass.id(), deviceClass)\<close>, kept as an association list because
  \<open>findDeviceClass\<close> scans its values while other code looks a key up.
  \<open>m_devicePlugins\<close> is filled by \<open>insert(plugin->pluginId(), plugin)\<close>: a plugin
  pointer is represented by that key, and \<open>plugin->pluginId()\<close> is the key.
  \<open>heap\<close> holds the Device objects allocated with \<open>new\<close>; \<open>emitted\<close> is the sequence
  of signals emitted so far; \<open>pendingTimerShots\<close> counts the queued
  \<open>QTimer::singleShot(0, this, SLOT(timerEvent()))\<close> calls; \<open>stateConnections\<close> are the
  devices whose \<open>stateValueChanged\<close> signal is connected to the manager, one entry
  per connection; \<open>deleteLaterQueue\<close> are the devices handed to \<open>deleteLater()\<close> that
  the event loop has not deleted yet; \<open>settings\<close> is the group \<open>DeviceConfig\<close> of the settings file, one entry per device
  id.
\<close>

record DeviceManager =
  supportedDevices :: "(DeviceClassId \<times> DeviceClass) list"
  devicePlugins :: "PluginId \<rightharpoonup> DevicePlugin"
  heap :: "DevicePtr \<rightharpoonup> Device"
  nextPtr :: DevicePtr
  configuredDevices :: "DevicePtr list"
  discoveredDevices :: "DeviceDescriptorId \<rightharpoonup> DeviceDescriptor"
  pairingsJustAdd :: "PairingTransactionId \<rightharpoonup> (DeviceClassId \<times> ParamList)"
  pairingsDiscovery :: "PairingTransactionId \<rightharpoonup> (DeviceClassId \<times> DeviceDescriptorId)"
  discoveringPlugins :: "PluginId list"
  pluginTimerUsers :: "DevicePtr list"
  pluginTimerInterval :: nat
  pluginTimerActive :: bool
  pendingTimerShots :: nat
  stateConnections :: "DevicePtr list"
  deleteLaterQueue :: "DevicePtr list"
  settings :: "(DeviceId \<times> StoredDevice) list"
  emitted :: "Signal list"

text \<open>The manager after its constructor and \<open>loadPlugins\<close>: the catalog and the plugins
  are given, the timer has its interval of 15000 ms and is not started.\<close>

definition DeviceManager_init ::
  "(DeviceClassId \<times> DeviceClass) list \<Rightarrow> (PluginId \<rightharpoonup> DevicePlugin)
     \<Rightarrow> (DeviceId \<times> StoredDevice) list \<Rightarrow> DeviceManager" where
  "DeviceManager_init classes plugins stored =
     \<lparr>supportedDevices = classes, devicePlugins = plugins, heap = Map.empty, nextPtr = 1,
      configuredDevices = [], discoveredDevices = Map.empty, pairingsJustAdd = Map.empty,
      pairingsDiscovery = Map.empty, discoveringPlugins = [], pluginTimerUsers = [],
      pluginTimerInterval = 15000, pluginTimerActive = False, pendingTimerShots = 0,
      stateConnections = [], deleteLaterQueue = [], settings = stored, emitted = []\<rparr>"

definition emit :: "Signal \<Rightarrow> DeviceManager \<Rightarrow> DeviceManager" where
  "emit sig s = s\<lparr>emitted := emitted s @ [sig]\<rparr>"

text \<open>\<open>new Device(...)\<close>: the object is placed at a fresh address.\<close>

definition allocDevice :: "Device \<Rightarrow> DeviceManager \<Rightarrow> DevicePtr \<times> DeviceManager" where
  "allocDevice device s =
     (nextPtr s, s\<lparr>heap := (heap s)(nextPtr s \<mapsto> device), nextPtr := Suc (nextPtr s)\<rparr>)"

text \<open>\<open>delete device\<close>; a deleted Device also loses its signal connections.\<close>

definition deleteDevice :: "DevicePtr \<Rightarrow> DeviceManager \<Rightarrow> DeviceManager" where
  "deleteDevice ptr s =
     s\<lparr>heap := (heap s)(ptr := None),
       stateConnections := removeAll ptr (stateConnections s)\<rparr>"

text \<open>
  \<open>device->deleteLater()\<close>: the object is scheduled for deletion and stays alive, with
  its connections, until control returns to the event loop; the event loop then deletes
  every scheduled object.
\<close>

definition deleteLater :: "DevicePtr \<Rightarrow> DeviceManager \<Rightarrow> DeviceManager" where
  "deleteLater ptr s = s\<lparr>deleteLaterQueue := deleteLaterQueue s @ [ptr]\<rparr>"

definition returnToEventLoop :: "DeviceManager \<Rightarrow> DeviceManager" where
  "returnToEventLoop s = (fold deleteDevice (deleteLaterQueue s) s)\<lparr>deleteLaterQueue := []\<rparr>"

text \<open>\<open>DeviceManager::findDeviceClass\<close>: scan of the values for a matching id.\<close>

definition findDeviceClass :: "DeviceManager \<Rightarrow> DeviceClassId \<Rightarrow> DeviceClass" where
  "findDeviceClass s deviceClassId' =
     (case find (\<lambda>deviceClass. dcId deviceClass = deviceClassId')
                (map snd (supportedDevices s)) of
        Some deviceClass \<Rightarrow> deviceClass
      | None \<Rightarrow> defaultDeviceClass)"

text \<open>\<open>m_supportedDevices.value(id)\<close>: lookup by key, default constructed if absent.\<close>

definition supportedDevices_value :: "DeviceManager \<Rightarrow> DeviceClassId \<Rightarrow> DeviceClass" where
  "supportedDevices_value s deviceClassId' =
     (case map_of (supportedDevices s) deviceClassId' of
        Some deviceClass \<Rightarrow> deviceClass
      | None \<Rightarrow> defaultDeviceClass)"

definition discoveredDevices_value ::
  "DeviceManager \<Rightarrow> DeviceDescriptorId \<Rightarrow> DeviceDescriptor" where
  "discoveredDevices_value s deviceDescriptorId =
     (case discoveredDevices s deviceDescriptorId of
        Some descriptor \<Rightarrow> descriptor
      | None \<Rightarrow> defaultDeviceDescriptor)"

section \<open>Device setup and persistence\<close>

text \<open>
  Functions that dereference a Device pointer, or a plugin pointer the code does not
  test, return an option: \<open>None\<close> is the undefined behaviour of a null or dangling
  dereference (the process crashes), \<open>Some\<close> is a normal return.
\<close>

definition timerRegister :: "DevicePtr \<Rightarrow> DeviceManager \<Rightarrow> DeviceManager" where
  "timerRegister ptr s =
     (let s1 = (if \<not> pluginTimerActive s
                then s\<lparr>pluginTimerActive := True,
                       pendingTimerShots := Suc (pendingTimerShots s)\<rparr>
                else s)
      in s1\<lparr>pluginTimerUsers := pluginTimerUsers s1 @ [ptr]\<rparr>)"

definition connectStateValueChanged :: "DevicePtr \<Rightarrow> DeviceManager \<Rightarrow> DeviceManager" where
  "connectStateValueChanged ptr s = s\<lparr>stateConnections := stateConnections s @ [ptr]\<rparr>"

definition initialStates :: "DeviceClass \<Rightarrow> Device \<Rightarrow> State list" where
  "initialStates deviceClass device =
     map (\<lambda>stateType. \<lparr>stateTypeId = stId stateType, stateDeviceId = deviceId device,
                        stateValue = stDefaultValue stateType\<rparr>)
         (dcStateTypes deviceClass)"

text \<open>\<open>DeviceManager::setupDevice\<close>.\<close>

definition setupDevice ::
  "DeviceManager \<Rightarrow> DevicePtr \<Rightarrow> (DeviceSetupStatus \<times> DeviceManager) option" where
  "setupDevice s ptr =
     (case heap s ptr of
        None \<Rightarrow> None
      | Some device \<Rightarrow>
          (let deviceClass = findDeviceClass s (deviceClassId device)
           in case devicePlugins s (dcPluginId deviceClass) of
                None \<Rightarrow> Some (DeviceSetupStatusFailure, s)
              | Some plugin \<Rightarrow>
                  (let device1 = device\<lparr>deviceStates := initialStates deviceClass device\<rparr>;
                       s1 = s\<lparr>heap := (heap s)(ptr \<mapsto> device1)\<rparr>;
                       status = pluginSetupDevice plugin device1
                   in if status \<noteq> DeviceSetupStatusSuccess then Some (status, s1)
                      else
                        (let s2 = (if HardwareResourceTimer \<in> requiredHardware plugin
                                   then timerRegister ptr s1 else s1);
                             s3 = connectStateValueChanged ptr s2;
                             s4 = s3\<lparr>heap := (heap s3)(ptr \<mapsto> device1\<lparr>setupComplete := True\<rparr>)\<rparr>
                         in Some (status, s4)))))"

text \<open>\<open>DeviceManager::storeConfiguredDevices\<close>: every configured device writes its group;
  \<open>setValue\<close> overwrites a key and leaves the other keys of the group.\<close>

definition storeDevice ::
  "Device \<Rightarrow> (DeviceId \<times> StoredDevice) list \<Rightarrow> (DeviceId \<times> StoredDevice) list" where
  "storeDevice device st =
     AList.update (deviceId device)
       \<lparr>sdName = deviceName device, sdClassId = deviceClassId device,
        sdPluginId = devicePluginId device,
        sdParams = fold (\<lambda>param. AList.update (paramName param) (paramValue param))
                        (deviceParams device)
                        (case map_of st (deviceId device) of
                           None \<Rightarrow> [] | Some old \<Rightarrow> sdParams old)\<rparr>
       st"

fun storeDevices ::
  "(DevicePtr \<rightharpoonup> Device) \<Rightarrow> DevicePtr list \<Rightarrow> (DeviceId \<times> StoredDevice) list
     \<Rightarrow> (DeviceId \<times> StoredDevice) list option" where
  "storeDevices h [] st = Some st"
| "storeDevices h (ptr # ptrs) st =
     (case h ptr of
        None \<Rightarrow> None
      | Some device \<Rightarrow> storeDevices h ptrs (storeDevice device st))"

definition storeConfiguredDevices :: "DeviceManager \<Rightarrow> DeviceManager option" where
  "storeConfiguredDevices s =
     (case storeDevices (heap s) (configuredDevices s) (settings s) of
        None \<Rightarrow> None
      | Some st \<Rightarrow> Some (s\<lparr>settings := st\<rparr>))"

section \<open>Adding configured devices\<close>

text \<open>The loop of \<open>addConfiguredDeviceInternal\<close> over \<open>m_configuredDevices\<close> that looks
  for a device with the given id.\<close>

fun deviceIdInUse :: "(DevicePtr \<rightharpoonup> Device) \<Rightarrow> DevicePtr list \<Rightarrow> DeviceId \<Rightarrow> bool option" where
  "deviceIdInUse h [] id' = Some False"
| "deviceIdInUse h (ptr # ptrs) id' =
     (case h ptr of
        None \<Rightarrow> None
      | Some device \<Rightarrow> if deviceId device = id' then Some True else deviceIdInUse h ptrs id')"

text \<open>
  Modelled from the spec: the default value of the parameter \<open>requireAll\<close> of
  \<open>verifyParams\<close> is declared in the header, which is not among the sources.  The spec
  says that \<open>addConfiguredDevice\<close> validates with requireAll=true.
\<close>

definition requireAll_default :: bool where
  "requireAll_default = True"

text \<open>\<open>DeviceManager::addConfiguredDeviceInternal\<close>.\<close>

definition addConfiguredDeviceInternal ::
  "QVariantOps \<Rightarrow> DeviceManager \<Rightarrow> DeviceClassId \<Rightarrow> ParamList \<Rightarrow> DeviceId
     \<Rightarrow> (DeviceError \<times> DeviceManager) option" where
  "addConfiguredDeviceInternal ops s deviceClassId' params id' =
     (let deviceClass = findDeviceClass s deviceClassId'
      in if isNullUuid (dcId deviceClass) then Some (DeviceErrorDeviceClassNotFound, s)
         else if dcSetupMethod deviceClass \<noteq> SetupMethodJustAdd
           then Some (DeviceErrorCreationMethodNotSupported, s)
         else
           (case verifyParams ops (dcParamTypes deviceClass) params requireAll_default of
              (result, effectiveParams) \<Rightarrow>
                if result \<noteq> DeviceErrorNoError then Some (result, s)
                else
                  (case deviceIdInUse (heap s) (configuredDevices s) id' of
                     None \<Rightarrow> None
                   | Some inUse \<Rightarrow>
                       if inUse then Some (DeviceErrorDuplicateUuid, s)
                       else
                         (case devicePlugins s (dcPluginId deviceClass) of
                            None \<Rightarrow> Some (DeviceErrorPluginNotFound, s)
                          | Some plugin \<Rightarrow>
                              (case allocDevice
                                      ((Device_new (dcPluginId deviceClass) id' deviceClassId')
                                         \<lparr>deviceName := dcName deviceClass,
                                          deviceParams := effectiveParams\<rparr>) s of
                                 (ptr, s1) \<Rightarrow>
                                   (case setupDevice s1 ptr of
                                      None \<Rightarrow> None
                                    | Some (status, s2) \<Rightarrow>
                                        (case status of
                                           DeviceSetupStatusFailure \<Rightarrow>
                                             Some (DeviceErrorSetupFailed, deleteDevice ptr s2)
                                         | DeviceSetupStatusAsync \<Rightarrow>
                                             Some (DeviceErrorAsync, s2)
                                         | DeviceSetupStatusSuccess \<Rightarrow>
                                             (case storeConfiguredDevices
                                                     (s2\<lparr>configuredDevices :=
                                                           configuredDevices s2 @ [ptr]\<rparr>) of
                                                None \<Rightarrow> None
                                              | Some s3 \<Rightarrow>
                                                  Some (DeviceErrorNoError, s3)))))))))"

text \<open>\<open>DeviceManager::addConfiguredDevice(deviceClassId, params, id)\<close>.\<close>

definition addConfiguredDevice ::
  "QVariantOps \<Rightarrow> DeviceManager \<Rightarrow> DeviceClassId \<Rightarrow> ParamList \<Rightarrow> DeviceId
     \<Rightarrow> (DeviceError \<times> DeviceManager) option" where
  "addConfiguredDevice ops s deviceClassId' params id' =
     (let deviceClass = findDeviceClass s deviceClassId'
      in if \<not> dcValid deviceClass then Some (DeviceErrorDeviceClassNotFound, s)
         else if CreateMethodUser \<in> dcCreateMethods deviceClass
           then addConfiguredDeviceInternal ops s deviceClassId' params id'
         else Some (DeviceErrorCreationMethodNotSupported, s))"

text \<open>\<open>DeviceManager::addConfiguredDevice(deviceClassId, deviceDescriptorId, deviceId)\<close>:
  \<open>m_discoveredDevices.take\<close> removes the entry and returns it.\<close>

definition addConfiguredDevice_descriptor ::
  "QVariantOps \<Rightarrow> DeviceManager \<Rightarrow> DeviceClassId \<Rightarrow> DeviceDescriptorId \<Rightarrow> DeviceId
     \<Rightarrow> (DeviceError \<times> DeviceManager) option" where
  "addConfiguredDevice_descriptor ops s deviceClassId' deviceDescriptorId deviceId' =
     (let deviceClass = findDeviceClass s deviceClassId'
      in if \<not> dcValid deviceClass then Some (DeviceErrorDeviceClassNotFound, s)
         else if CreateMethodDiscovery \<notin> dcCreateMethods deviceClass
           then Some (DeviceErrorCreationMethodNotSupported, s)
         else
           (let descriptor = discoveredDevices_value s deviceDescriptorId;
                s1 = s\<lparr>discoveredDevices := (discoveredDevices s)(deviceDescriptorId := None)\<rparr>
            in if \<not> ddValid descriptor then Some (DeviceErrorDeviceDescriptorNotFound, s1)
               else addConfiguredDeviceInternal ops s1 deviceClassId' (ddParams descriptor)
                      deviceId'))"

section \<open>Pairing\<close>

text \<open>\<open>DeviceManager::pairDevice(pairingTransactionId, deviceClassId, params)\<close>: every
  setup method is answered by an error, nothing is recorded.\<close>

definition pairDevice_params ::
  "DeviceManager \<Rightarrow> PairingTransactionId \<Rightarrow> DeviceClassId \<Rightarrow> ParamList
     \<Rightarrow> DeviceError \<times> DeviceManager" where
  "pairDevice_params s pairingTransactionId deviceClassId' params =
     (let deviceClass = findDeviceClass s deviceClassId'
      in if isNullUuid (dcId deviceClass) then (DeviceErrorDeviceClassNotFound, s)
         else
           (case dcSetupMethod deviceClass of
              SetupMethodJustAdd \<Rightarrow> (DeviceErrorSetupMethodNotSupported, s)
            | SetupMethodDisplayPin \<Rightarrow> (DeviceErrorSetupFailed, s)
            | SetupMethodEnterPin \<Rightarrow> (DeviceErrorSetupFailed, s)
            | SetupMethodPushButton \<Rightarrow> (DeviceErrorSetupFailed, s)))"

text \<open>\<open>DeviceManager::pairDevice(pairingTransactionId, deviceClassId, deviceDescriptorId)\<close>.\<close>

definition pairDevice ::
  "DeviceManager \<Rightarrow> PairingTransactionId \<Rightarrow> DeviceClassId \<Rightarrow> DeviceDescriptorId
     \<Rightarrow> DeviceError \<times> DeviceManager" where
  "pairDevice s pairingTransactionId deviceClassId' deviceDescriptorId =
     (let deviceClass = findDeviceClass s deviceClassId'
      in if isNullUuid (dcId deviceClass) then (DeviceErrorDeviceClassNotFound, s)
         else if dcSetupMethod deviceClass = SetupMethodJustAdd
           then (DeviceErrorCreationMethodNotSupported, s)
         else if discoveredDevices s deviceDescriptorId = None
           then (DeviceErrorDeviceDescriptorNotFound, s)
         else
           (let s1 = s\<lparr>pairingsDiscovery :=
                        (pairingsDiscovery s)(pairingTransactionId \<mapsto>
                                                (deviceClassId', deviceDescriptorId))\<rparr>
            in if dcSetupMethod deviceClass = SetupMethodDisplayPin
               then (DeviceErrorSetupFailed, s1)
               else (DeviceErrorNoError, s1)))"

text \<open>\<open>DeviceManager::confirmPairing\<close>; the secret is unused.\<close>

definition confirmPairing ::
  "DeviceManager \<Rightarrow> PairingTransactionId \<Rightarrow> string \<Rightarrow> DeviceError \<times> DeviceManager" where
  "confirmPairing s pairingTransactionId secret =
     (if pairingsJustAdd s pairingTransactionId \<noteq> None
      then (DeviceErrorSetupFailed,
            s\<lparr>pairingsJustAdd := (pairingsJustAdd s)(pairingTransactionId := None)\<rparr>)
      else
        (case pairingsDiscovery s pairingTransactionId of
           Some (deviceClassId', deviceDescriptorId) \<Rightarrow>
             (let deviceDescriptor = discoveredDevices_value s deviceDescriptorId
              in case devicePlugins s (dcPluginId (supportedDevices_value s deviceClassId')) of
                   None \<Rightarrow> (DeviceErrorPluginNotFound, s)
                 | Some plugin \<Rightarrow>
                     (case pluginConfirmPairing plugin pairingTransactionId deviceClassId'
                             (ddParams deviceDescriptor) of
                        DeviceSetupStatusSuccess \<Rightarrow>
                          (DeviceErrorNoError,
                           s\<lparr>pairingsDiscovery :=
                                (pairingsDiscovery s)(pairingTransactionId := None)\<rparr>)
                      | DeviceSetupStatusFailure \<Rightarrow>
                          (DeviceErrorSetupFailed,
                           s\<lparr>pairingsDiscovery :=
                                (pairingsDiscovery s)(pairingTransactionId := None)\<rparr>)
                      | DeviceSetupStatusAsync \<Rightarrow> (DeviceErrorAsync, s)))
         | None \<Rightarrow> (DeviceErrorPairingTransactionIdNotFound, s)))"

text \<open>
  \<open>DeviceManager::slotPairingFinished\<close>, first part: the transaction is taken out of both
  hashes (and the descriptor out of the pool); the result is the state, the class id and
  the params of the transaction.
\<close>

definition takePairing ::
  "DeviceManager \<Rightarrow> PairingTransactionId \<Rightarrow> DeviceManager \<times> DeviceClassId \<times> ParamList" where
  "takePairing s pairingTransactionId =
     (case (case pairingsJustAdd s pairingTransactionId of
              Some (deviceClassId', params) \<Rightarrow>
                (s\<lparr>pairingsJustAdd := (pairingsJustAdd s)(pairingTransactionId := None)\<rparr>,
                 deviceClassId', params)
            | None \<Rightarrow> (s, 0, [])) of
        (s1, deviceClassId1, params1) \<Rightarrow>
          (case pairingsDiscovery s1 pairingTransactionId of
             Some (deviceClassId', deviceDescriptorId) \<Rightarrow>
               (s1\<lparr>pairingsDiscovery := (pairingsDiscovery s1)(pairingTransactionId := None),
                   discoveredDevices := (discoveredDevices s1)(deviceDescriptorId := None)\<rparr>,
                deviceClassId', ddParams (discoveredDevices_value s1 deviceDescriptorId))
           | None \<Rightarrow> (s1, deviceClassId1, params1)))"

text \<open>
  \<open>DeviceManager::slotPairingFinished\<close>.  \<open>newId\<close> is the value that
  \<open>DeviceId::createDeviceId()\<close> returns.  In the branch of a failed setup the code
  deletes the device and leaves the switch with \<open>break\<close>, so the deleted device is
  appended and stored as in the branch of a successful setup.
\<close>

definition slotPairingFinished ::
  "DeviceManager \<Rightarrow> PairingTransactionId \<Rightarrow> DeviceSetupStatus \<Rightarrow> DeviceId
     \<Rightarrow> DeviceManager option" where
  "slotPairingFinished s pairingTransactionId status newId =
     (if pairingsJustAdd s pairingTransactionId = None
         \<and> pairingsDiscovery s pairingTransactionId = None
      then Some s
      else
        (case takePairing s pairingTransactionId of
           (s1, deviceClassId', params) \<Rightarrow>
             if status \<noteq> DeviceSetupStatusSuccess
             then Some (emit (SigPairingFinished pairingTransactionId DeviceErrorSetupFailed 0) s1)
             else
               (let deviceClass = findDeviceClass s1 deviceClassId'
                in case devicePlugins s1 (dcPluginId deviceClass) of
                     None \<Rightarrow>
                       Some (emit (SigPairingFinished pairingTransactionId
                                     DeviceErrorPluginNotFound (dcPluginId deviceClass)) s1)
                   | Some plugin \<Rightarrow>
                       (case allocDevice
                               ((Device_new (dcPluginId deviceClass) newId deviceClassId')
                                  \<lparr>deviceName := dcName deviceClass, deviceParams := params\<rparr>)
                               (emit (SigPairingFinished pairingTransactionId
                                        DeviceErrorNoError newId) s1) of
                          (ptr, s2) \<Rightarrow>
                            (case setupDevice s2 ptr of
                               None \<Rightarrow> None
                             | Some (setupStatus, s3) \<Rightarrow>
                                 (case setupStatus of
                                    DeviceSetupStatusAsync \<Rightarrow> Some s3
                                  | _ \<Rightarrow>
                                      (case storeConfiguredDevices
                                              ((if setupStatus = DeviceSetupStatusFailure
                                                then deleteDevice ptr
                                                       (emit (SigDeviceSetupFinished ptr
                                                                DeviceErrorSetupFailed) s3)
                                                else s3)
                                               \<lparr>configuredDevices :=
                                                   configuredDevices s3 @ [ptr]\<rparr>) of
                                         None \<Rightarrow> None
                                       | Some s4 \<Rightarrow>
                                           Some (emit (SigDeviceSetupFinished ptr
                                                         DeviceErrorNoError) s4))))))))"

section \<open>Removing devices, asynchronous setup, stored devices\<close>

text \<open>\<open>DeviceManager::findConfiguredDevice\<close>: the first configured device with the id, or
  the null pointer (\<open>Some None\<close>).\<close>

fun findConfiguredDevice ::
  "(DevicePtr \<rightharpoonup> Device) \<Rightarrow> DevicePtr list \<Rightarrow> DeviceId \<Rightarrow> DevicePtr option option" where
  "findConfiguredDevice h [] id' = Some None"
| "findConfiguredDevice h (ptr # ptrs) id' =
     (case h ptr of
        None \<Rightarrow> None
      | Some device \<Rightarrow>
          if deviceId device = id' then Some (Some ptr) else findConfiguredDevice h ptrs id')"

text \<open>\<open>DeviceManager::removeConfiguredDevice\<close>.  The plugin pointer found under the
  device's plugin id is dereferenced without a test.  The device is not deleted in the
  call: \<open>deleteLater()\<close> leaves that to the event loop.\<close>

definition removeConfiguredDevice ::
  "DeviceManager \<Rightarrow> DeviceId \<Rightarrow> (DeviceError \<times> DeviceManager) option" where
  "removeConfiguredDevice s deviceId' =
     (case findConfiguredDevice (heap s) (configuredDevices s) deviceId' of
        None \<Rightarrow> None
      | Some None \<Rightarrow> Some (DeviceErrorDeviceNotFound, s)
      | Some (Some ptr) \<Rightarrow>
          (case heap s ptr of
             None \<Rightarrow> None
           | Some device \<Rightarrow>
               (case devicePlugins s (devicePluginId device) of
                  None \<Rightarrow> None
                | Some plugin \<Rightarrow>
                    (let s1 = s\<lparr>configuredDevices := removeAll ptr (configuredDevices s)\<rparr>;
                         s2 = s1\<lparr>pluginTimerUsers := removeAll ptr (pluginTimerUsers s1)\<rparr>;
                         s3 = (if pluginTimerUsers s2 = []
                               then s2\<lparr>pluginTimerActive := False\<rparr> else s2);
                         s4 = deleteLater ptr s3
                     in Some (DeviceErrorNoError,
                              s4\<lparr>settings := AList.delete deviceId' (settings s4)\<rparr>)))))"

text \<open>\<open>DeviceManager::slotDeviceSetupFinished\<close>, with the assertions compiled out.\<close>

definition slotDeviceSetupFinished ::
  "DeviceManager \<Rightarrow> DevicePtr option \<Rightarrow> DeviceSetupStatus \<Rightarrow> DeviceManager option" where
  "slotDeviceSetupFinished s device' status =
     (case device' of
        None \<Rightarrow> Some s
      | Some ptr \<Rightarrow>
          (case heap s ptr of
             None \<Rightarrow> None
           | Some device \<Rightarrow>
               if setupComplete device then Some s
               else if status = DeviceSetupStatusAsync then Some s
               else if status = DeviceSetupStatusFailure
                 then Some (emit (SigDeviceSetupFinished ptr DeviceErrorSetupFailed) s)
               else
                 (case (if ptr \<notin> set (configuredDevices s)
                        then storeConfiguredDevices
                               (s\<lparr>configuredDevices := configuredDevices s @ [ptr]\<rparr>)
                        else Some s) of
                    None \<Rightarrow> None
                  | Some s1 \<Rightarrow>
                      (case devicePlugins s1 (devicePluginId device) of
                         None \<Rightarrow> None
                       | Some plugin \<Rightarrow>
                           (let s2 = (if HardwareResourceTimer \<in> requiredHardware plugin
                                      then timerRegister ptr s1 else s1);
                                s3 = connectStateValueChanged ptr s2;
                                s4 = s3\<lparr>heap := (heap s3)(ptr \<mapsto>
                                                     device\<lparr>setupComplete := True\<rparr>)\<rparr>
                            in Some (emit (SigDeviceSetupFinished ptr DeviceErrorNoError) s4))))))"

text \<open>\<open>DeviceManager::loadConfiguredDevices\<close>: every stored device is created, passed
  through \<open>setupDevice\<close> (the status is ignored) and appended.\<close>

definition storedParams :: "StoredDevice \<Rightarrow> ParamList" where
  "storedParams sd = map (\<lambda>(k, v). \<lparr>paramName = k, paramValue = v\<rparr>) (sdParams sd)"

fun loadConfiguredDevices_loop ::
  "(DeviceId \<times> StoredDevice) list \<Rightarrow> DeviceManager \<Rightarrow> DeviceManager option" where
  "loadConfiguredDevices_loop [] s = Some s"
| "loadConfiguredDevices_loop ((id', sd) # rest) s =
     (case allocDevice ((Device_new (sdPluginId sd) id' (sdClassId sd))
                          \<lparr>deviceName := sdName sd, deviceParams := storedParams sd\<rparr>) s of
        (ptr, s1) \<Rightarrow>
          (case setupDevice s1 ptr of
             None \<Rightarrow> None
           | Some (status, s2) \<Rightarrow>
               loadConfiguredDevices_loop rest
                 (s2\<lparr>configuredDevices := configuredDevices s2 @ [ptr]\<rparr>)))"

definition loadConfiguredDevices :: "DeviceManager \<Rightarrow> DeviceManager option" where
  "loadConfiguredDevices s = loadConfiguredDevices_loop (settings s) s"

section \<open>Hardware bus and state changes\<close>

text \<open>The calls into plugins that the bus makes.\<close>

datatype PluginCall = GuhTimer PluginId | RadioData PluginId "int list"

text \<open>\<open>DeviceManager::timerEvent\<close>: the calls made, in order.\<close>

fun timerEvent_loop :: "DeviceManager \<Rightarrow> DevicePtr list \<Rightarrow> PluginCall list option" where
  "timerEvent_loop s [] = Some []"
| "timerEvent_loop s (ptr # ptrs) =
     (case heap s ptr of
        None \<Rightarrow> None
      | Some device \<Rightarrow>
          (let pluginId = dcPluginId (supportedDevices_value s (deviceClassId device))
           in case timerEvent_loop s ptrs of
                None \<Rightarrow> None
              | Some calls \<Rightarrow>
                  (case devicePlugins s pluginId of
                     None \<Rightarrow> Some calls
                   | Some plugin \<Rightarrow>
                       if HardwareResourceTimer \<in> requiredHardware plugin
                       then Some (GuhTimer pluginId # calls) else Some calls)))"

definition timerEvent :: "DeviceManager \<Rightarrow> PluginCall list option" where
  "timerEvent s = timerEvent_loop s (configuredDevices s)"

text \<open>\<open>DeviceManager::radio433SignalReceived\<close>: the two loops that collect
  \<open>targetPlugins\<close>; the plugin pointer is dereferenced without a test.\<close>

fun radio433_configured ::
  "DeviceManager \<Rightarrow> DevicePtr list \<Rightarrow> PluginId list \<Rightarrow> PluginId list option" where
  "radio433_configured s [] targetPlugins = Some targetPlugins"
| "radio433_configured s (ptr # ptrs) targetPlugins =
     (case heap s ptr of
        None \<Rightarrow> None
      | Some device \<Rightarrow>
          (let pluginId = dcPluginId (supportedDevices_value s (deviceClassId device))
           in case devicePlugins s pluginId of
                None \<Rightarrow> None
              | Some plugin \<Rightarrow>
                  radio433_configured s ptrs
                    (if HardwareResourceRadio433 \<in> requiredHardware plugin
                        \<and> pluginId \<notin> set targetPlugins
                     then targetPlugins @ [pluginId] else targetPlugins)))"

fun radio433_discovering ::
  "DeviceManager \<Rightarrow> PluginId list \<Rightarrow> PluginId list \<Rightarrow> PluginId list option" where
  "radio433_discovering s [] targetPlugins = Some targetPlugins"
| "radio433_discovering s (pluginId # pluginIds) targetPlugins =
     (case devicePlugins s pluginId of
        None \<Rightarrow> None
      | Some plugin \<Rightarrow>
          radio433_discovering s pluginIds
            (if HardwareResourceRadio433 \<in> requiredHardware plugin
                \<and> pluginId \<notin> set targetPlugins
             then targetPlugins @ [pluginId] else targetPlugins))"

definition radio433SignalReceived :: "DeviceManager \<Rightarrow> int list \<Rightarrow> PluginCall list option" where
  "radio433SignalReceived s rawData =
     (case radio433_configured s (configuredDevices s) [] of
        None \<Rightarrow> None
      | Some targets1 \<Rightarrow>
          (case radio433_discovering s (discoveringPlugins s) targets1 of
             None \<Rightarrow> None
           | Some targetPlugins \<Rightarrow>
               Some (map (\<lambda>pluginId. RadioData pluginId rawData) targetPlugins)))"

text \<open>
  \<open>DeviceManager::slotDeviceStateValueChanged\<close>.  The sender is the Device that emitted
  \<open>stateValueChanged\<close>, or no Device.  \<open>EventTypeId(stateTypeId.toString())\<close> is the same
  uuid.
\<close>

definition slotDeviceStateValueChanged ::
  "DeviceManager \<Rightarrow> DevicePtr option \<Rightarrow> StateTypeId \<Rightarrow> QVariant \<Rightarrow> DeviceManager option" where
  "slotDeviceStateValueChanged s sender stateTypeId' value' =
     (case sender of
        None \<Rightarrow> Some s
      | Some ptr \<Rightarrow>
          (case heap s ptr of
             None \<Rightarrow> None
           | Some device \<Rightarrow>
               Some (emit (SigEventTriggered
                             \<lparr>eventTypeId = stateTypeId', eventDeviceId = deviceId device,
                              eventParams = [\<lparr>paramName = ''value'', paramValue = value'\<rparr>],
                              isStateChangeEvent = True\<rparr>)
                       (emit (SigDeviceStateChanged ptr stateTypeId' value') s))))"

text \<open>
  Modelled from the spec: the Device class is not among the sources.  A state value change
  of a device makes the Device emit \<open>stateValueChanged(stateTypeId, value)\<close> (spec 4.6).
  The signal runs \<open>slotDeviceStateValueChanged\<close> with the device as sender once for every
  connection that \<open>setupDevice\<close> or \<open>slotDeviceSetupFinished\<close> has made for the device;
  a device that is not connected reaches no slot.
\<close>

fun deliverStateValueChanged ::
  "DevicePtr list \<Rightarrow> DevicePtr \<Rightarrow> StateTypeId \<Rightarrow> QVariant \<Rightarrow> DeviceManager
     \<Rightarrow> DeviceManager option" where
  "deliverStateValueChanged [] ptr stateTypeId' value' s = Some s"
| "deliverStateValueChanged (c # connections) ptr stateTypeId' value' s =
     (if c = ptr
      then (case slotDeviceStateValueChanged s (Some ptr) stateTypeId' value' of
              None \<Rightarrow> None
            | Some s1 \<Rightarrow> deliverStateValueChanged connections ptr stateTypeId' value' s1)
      else deliverStateValueChanged connections ptr stateTypeId' value' s)"

definition Device_stateValueChanged ::
  "DeviceManager \<Rightarrow> DevicePtr \<Rightarrow> StateTypeId \<Rightarrow> QVariant \<Rightarrow> DeviceManager option" where
  "Device_stateValueChanged s ptr stateTypeId' value' =
     deliverStateValueChanged (stateConnections s) ptr stateTypeId' value' s"

section \<open>Discovery and auto devices\<close>

text \<open>\<open>DeviceManager::discoverDevices\<close>.\<close>

definition discoverDevices ::
  "QVariantOps \<Rightarrow> DeviceManager \<Rightarrow> DeviceClassId \<Rightarrow> ParamList
     \<Rightarrow> DeviceError \<times> DeviceManager" where
  "discoverDevices ops s deviceClassId' params =
     (let deviceClass = findDeviceClass s deviceClassId'
      in if \<not> dcValid deviceClass then (DeviceErrorDeviceClassNotFound, s)
         else if CreateMethodDiscovery \<notin> dcCreateMethods deviceClass
           then (DeviceErrorCreationMethodNotSupported, s)
         else
           (case verifyParams ops (dcDiscoveryParamTypes deviceClass) params
                   requireAll_default of
              (result, effectiveParams) \<Rightarrow>
                if result \<noteq> DeviceErrorNoError then (result, s)
                else
                  (case devicePlugins s (dcPluginId deviceClass) of
                     None \<Rightarrow> (DeviceErrorPluginNotFound, s)
                   | Some plugin \<Rightarrow>
                       (let s1 = s\<lparr>discoveringPlugins :=
                                     discoveringPlugins s @ [dcPluginId deviceClass]\<rparr>;
                            ret = pluginDiscoverDevices plugin deviceClassId' effectiveParams
                        in if ret \<noteq> DeviceErrorAsync
                           then (ret, s1\<lparr>discoveringPlugins :=
                                          remove1 (dcPluginId deviceClass)
                                                  (discoveringPlugins s1)\<rparr>)
                           else (ret, s1)))))"

text \<open>\<open>DeviceManager::slotDevicesDiscovered\<close>; the sender is the discovering plugin.\<close>

definition slotDevicesDiscovered ::
  "DeviceManager \<Rightarrow> PluginId \<Rightarrow> DeviceClassId \<Rightarrow> DeviceDescriptor list \<Rightarrow> DeviceManager" where
  "slotDevicesDiscovered s sender deviceClassId' deviceDescriptors =
     emit (SigDevicesDiscovered deviceClassId' deviceDescriptors)
       (s\<lparr>discoveringPlugins := remove1 sender (discoveringPlugins s),
          discoveredDevices :=
            fold (\<lambda>descriptor m. m(ddId descriptor \<mapsto> descriptor)) deviceDescriptors
                 (discoveredDevices s)\<rparr>)"

text \<open>\<open>DeviceManager::autoDevicesAppeared\<close>.  Each descriptor comes with the id that the
  constructor \<open>Device(pluginId, deviceClassId, parent)\<close> creates for its device.\<close>

fun autoDevicesAppeared_loop ::
  "DeviceClass \<Rightarrow> DeviceClassId \<Rightarrow> (DeviceDescriptor \<times> DeviceId) list \<Rightarrow> DeviceManager
     \<Rightarrow> DeviceManager option" where
  "autoDevicesAppeared_loop deviceClass deviceClassId' [] s = Some s"
| "autoDevicesAppeared_loop deviceClass deviceClassId' ((deviceDescriptor, newId) # rest) s =
     (case allocDevice ((Device_new (dcPluginId deviceClass) newId deviceClassId')
                          \<lparr>deviceName := dcName deviceClass,
                           deviceParams := ddParams deviceDescriptor\<rparr>) s of
        (ptr, s1) \<Rightarrow>
          (case setupDevice s1 ptr of
             None \<Rightarrow> None
           | Some (setupStatus, s2) \<Rightarrow>
               (case setupStatus of
                  DeviceSetupStatusFailure \<Rightarrow>
                    autoDevicesAppeared_loop deviceClass deviceClassId' rest
                      (deleteDevice ptr
                         (emit (SigDeviceSetupFinished ptr DeviceErrorSetupFailed) s2))
                | DeviceSetupStatusAsync \<Rightarrow>
                    autoDevicesAppeared_loop deviceClass deviceClassId' rest s2
                | DeviceSetupStatusSuccess \<Rightarrow>
                    (case storeConfiguredDevices
                            ((emit (SigDeviceSetupFinished ptr DeviceErrorNoError) s2)
                               \<lparr>configuredDevices := configuredDevices s2 @ [ptr]\<rparr>) of
                       None \<Rightarrow> None
                     | Some s3 \<Rightarrow>
                         autoDevicesAppeared_loop deviceClass deviceClassId' rest s3))))"

definition autoDevicesAppeared ::
  "DeviceManager \<Rightarrow> DeviceClassId \<Rightarrow> (DeviceDescriptor \<times> DeviceId) list
     \<Rightarrow> DeviceManager option" where
  "autoDevicesAppeared s deviceClassId' deviceDescriptors =
     (let deviceClass = findDeviceClass s deviceClassId'
      in if \<not> dcValid deviceClass then Some s
         else
           (case devicePlugins s (dcPluginId deviceClass) of
              None \<Rightarrow> Some s
            | Some plugin \<Rightarrow>
                autoDevicesAppeared_loop deviceClass deviceClassId' deviceDescriptors s))"

section \<open>Runs of the DeviceManager\<close>

text \<open>
  One step of the manager: a call of its interface or a slot that returns to the event
  loop, a device announcing a state value change, or the event loop delivering a queued
  single shot of the timer.  \<open>removeConfiguredDevice\<close> is the one call that schedules a
  deletion; the event loop carries it out when the call has returned.  A call that ends
  in undefined behaviour is no step.  \<open>reachable ops s0 s\<close>: a run of steps leads from
  \<open>s0\<close> to \<open>s\<close>; the runs of interest start from the constructed manager.
\<close>

inductive step :: "QVariantOps \<Rightarrow> DeviceManager \<Rightarrow> DeviceManager \<Rightarrow> bool"
  for ops :: QVariantOps where
  step_loadConfiguredDevices:
    "loadConfiguredDevices s = Some s' \<Longrightarrow> step ops s s'"
| step_addConfiguredDevice:
    "addConfiguredDevice ops s deviceClassId' params id' = Some (err, s') \<Longrightarrow> step ops s s'"
| step_addConfiguredDevice_descriptor:
    "addConfiguredDevice_descriptor ops s deviceClassId' deviceDescriptorId id' = Some (err, s')
       \<Longrightarrow> step ops s s'"
| step_removeConfiguredDevice:
    "removeConfiguredDevice s id' = Some (err, s1) \<Longrightarrow> step ops s (returnToEventLoop s1)"
| step_discoverDevices:
    "discoverDevices ops s deviceClassId' params = (err, s') \<Longrightarrow> step ops s s'"
| step_slotDevicesDiscovered:
    "slotDevicesDiscovered s sender deviceClassId' deviceDescriptors = s' \<Longrightarrow> step ops s s'"
| step_pairDevice_params:
    "pairDevice_params s tx deviceClassId' params = (err, s') \<Longrightarrow> step ops s s'"
| step_pairDevice:
    "pairDevice s tx deviceClassId' deviceDescriptorId = (err, s') \<Longrightarrow> step ops s s'"
| step_confirmPairing:
    "confirmPairing s tx secret = (err, s') \<Longrightarrow> step ops s s'"
| step_slotPairingFinished:
    "slotPairingFinished s tx status newId = Some s' \<Longrightarrow> step ops s s'"
| step_slotDeviceSetupFinished:
    "slotDeviceSetupFinished s device' status = Some s' \<Longrightarrow> step ops s s'"
| step_autoDevicesAppeared:
    "autoDevicesAppeared s deviceClassId' deviceDescriptors = Some s' \<Longrightarrow> step ops s s'"
| step_slotDeviceStateValueChanged:
    "slotDeviceStateValueChanged s sender' stateTypeId' value' = Some s' \<Longrightarrow> step ops s s'"
| step_Device_stateValueChanged:
    "Device_stateValueChanged s ptr stateTypeId' value' = Some s' \<Longrightarrow> step ops s s'"
| step_timerShot:
    "pendingTimerShots s = Suc n \<Longrightarrow> step ops s (s\<lparr>pendingTimerShots := n\<rparr>)"

inductive reachable :: "QVariantOps \<Rightarrow> DeviceManager \<Rightarrow> DeviceManager \<Rightarrow> bool"
  for ops :: QVariantOps and s0 :: DeviceManager where
  reachable_start: "reachable ops s0 s0"
| reachable_step: "reachable ops s0 s \<Longrightarrow> step ops s s' \<Longrightarrow> reachable ops s0 s'"

section \<open>Auxiliary notions\<close>

text \<open>Every pointer in \<open>m_configuredDevices\<close> points to a live Device.\<close>

definition allLive :: "DeviceManager \<Rightarrow> bool" where
  "allLive s = list_all (\<lambda>ptr. heap s ptr \<noteq> None) (configuredDevices s)"

text \<open>The DeviceClass passes the checks that precede the validation in
  \<open>addConfiguredDevice(deviceClassId, params, id)\<close> and \<open>addConfiguredDeviceInternal\<close>.\<close>

definition userCreatable :: "DeviceManager \<Rightarrow> DeviceClassId \<Rightarrow> bool" where
  "userCreatable s cid =
     (dcValid (findDeviceClass s cid)
      \<and> CreateMethodUser \<in> dcCreateMethods (findDeviceClass s cid)
      \<and> \<not> isNullUuid (dcId (findDeviceClass s cid))
      \<and> dcSetupMethod (findDeviceClass s cid) = SetupMethodJustAdd)"

text \<open>The DeviceClass passes the checks that precede the pool lookup in
  \<open>addConfiguredDevice(deviceClassId, deviceDescriptorId, deviceId)\<close>.\<close>

definition discoveryCreatable :: "DeviceManager \<Rightarrow> DeviceClassId \<Rightarrow> bool" where
  "discoveryCreatable s cid =
     (dcValid (findDeviceClass s cid)
      \<and> CreateMethodDiscovery \<in> dcCreateMethods (findDeviceClass s cid))"

text \<open>The plugin that the bus looks up for a configured device: the plugin id of the
  device's class in \<open>m_supportedDevices\<close>.\<close>

definition ownerPlugin :: "DeviceManager \<Rightarrow> DevicePtr \<Rightarrow> PluginId option" where
  "ownerPlugin s ptr =
     map_option (\<lambda>device. dcPluginId (supportedDevices_value s (deviceClassId device)))
                (heap s ptr)"

definition devicesOfPlugin :: "DeviceManager \<Rightarrow> PluginId \<Rightarrow> DevicePtr list" where
  "devicesOfPlugin s pluginId =
     filter (\<lambda>ptr. ownerPlugin s ptr = Some pluginId) (configuredDevices s)"

text \<open>The plugin with this id is loaded and its \<open>requiredHardware()\<close> has the flag.\<close>

definition requiresHardware :: "DeviceManager \<Rightarrow> PluginId \<Rightarrow> HardwareResource \<Rightarrow> bool" where
  "requiresHardware s pluginId hw =
     (case devicePlugins s pluginId of
        None \<Rightarrow> False
      | Some plugin \<Rightarrow> hw \<in> requiredHardware plugin)"

text \<open>The plugin pointers that \<open>radio433SignalReceived\<close> dereferences are not null.\<close>

definition pluginsResolved :: "DeviceManager \<Rightarrow> bool" where
  "pluginsResolved s =
     (list_all (\<lambda>ptr. case ownerPlugin s ptr of
                         None \<Rightarrow> False
                       | Some pluginId \<Rightarrow> devicePlugins s pluginId \<noteq> None)
               (configuredDevices s)
      \<and> list_all (\<lambda>pluginId. devicePlugins s pluginId \<noteq> None) (discoveringPlugins s))"

section \<open>The timer and its users\<close>

text \<open>The Device behind the pointer is live and its setup is complete.\<close>

definition setupDone :: "DeviceManager \<Rightarrow> DevicePtr \<Rightarrow> bool" where
  "setupDone s ptr = (case heap s ptr of None \<Rightarrow> False | Some device \<Rightarrow> setupComplete device)"

text \<open>
  The plugin of a device requires the timer.  \<open>setupDevice\<close> asks the plugin of the
  device's class, \<open>slotDeviceSetupFinished\<close> the plugin whose id the device holds; for a
  device created by the manager the two are the same plugin, for a stored device they
  are what the settings say.
\<close>

definition classPluginTimer :: "DeviceManager \<Rightarrow> DevicePtr \<Rightarrow> bool" where
  "classPluginTimer s ptr =
     (case heap s ptr of
        None \<Rightarrow> False
      | Some device \<Rightarrow>
          requiresHardware s (dcPluginId (findDeviceClass s (deviceClassId device)))
            HardwareResourceTimer)"

definition devicePluginTimer :: "DeviceManager \<Rightarrow> DevicePtr \<Rightarrow> bool" where
  "devicePluginTimer s ptr =
     (case heap s ptr of
        None \<Rightarrow> False
      | Some device \<Rightarrow> requiresHardware s (devicePluginId device) HardwareResourceTimer)"

text \<open>
  The invariant of the timer: the interval is 15000 ms; the timer is active exactly when
  \<open>m_pluginTimerUsers\<close> is not empty; every timer user is a configured device whose setup
  is complete and whose plugin requires the timer; every configured device whose setup is
  complete and whose plugin requires the timer is a timer user.
\<close>

definition timerInv :: "DeviceManager \<Rightarrow> bool" where
  "timerInv s =
     (pluginTimerInterval s = 15000
      \<and> pluginTimerActive s = (pluginTimerUsers s \<noteq> [])
      \<and> (\<forall>ptr \<in> set (pluginTimerUsers s).
            ptr \<in> set (configuredDevices s) \<and> setupDone s ptr
            \<and> (classPluginTimer s ptr \<or> devicePluginTimer s ptr))
      \<and> (\<forall>ptr \<in> set (configuredDevices s).
            setupDone s ptr \<and> classPluginTimer s ptr \<and> devicePluginTimer s ptr
            \<longrightarrow> ptr \<in> set (pluginTimerUsers s)))"

text \<open>Addresses in use are below the next address to be allocated.\<close>

definition ptrsFresh :: "DeviceManager \<Rightarrow> bool" where
  "ptrsFresh s =
     ((\<forall>ptr. heap s ptr \<noteq> None \<longrightarrow> ptr < nextPtr s)
      \<and> (\<forall>ptr \<in> set (configuredDevices s). ptr < nextPtr s))"

text \<open>How a step that can only start the timer changes it: a single shot is queued
  exactly when the timer goes from stopped to running.\<close>

definition timerStarted :: "DeviceManager \<Rightarrow> DeviceManager \<Rightarrow> bool" where
  "timerStarted s s' =
     ((pluginTimerActive s \<longrightarrow> pluginTimerActive s')
      \<and> pendingTimerShots s' =
          pendingTimerShots s + (if \<not> pluginTimerActive s \<and> pluginTimerActive s' then 1 else 0))"

text \<open>Two states agree on everything the timer invariant speaks about; two states agree
  on the running timer and its queued single shots.\<close>

definition sameCore :: "DeviceManager \<Rightarrow> DeviceManager \<Rightarrow> bool" where
  "sameCore s s' =
     (supportedDevices s' = supportedDevices s \<and> devicePlugins s' = devicePlugins s
      \<and> heap s' = heap s \<and> nextPtr s' = nextPtr s
      \<and> configuredDevices s' = configuredDevices s
      \<and> pluginTimerUsers s' = pluginTimerUsers s
      \<and> pluginTimerInterval s' = pluginTimerInterval s
      \<and> pluginTimerActive s' = pluginTimerActive s
      \<and> stateConnections s' = stateConnections s
      \<and> deleteLaterQueue s' = deleteLaterQueue s
      \<and> settings s' = settings s)"

definition sameTimer :: "DeviceManager \<Rightarrow> DeviceManager \<Rightarrow> bool" where
  "sameTimer s s' =
     (pluginTimerActive s' = pluginTimerActive s \<and> pendingTimerShots s' = pendingTimerShots s)"

text \<open>The \<open>stateValueChanged\<close> signal of a device is connected once if the setup of the
  device is complete, and not at all otherwise.\<close>

definition connInv :: "DeviceManager \<Rightarrow> bool" where
  "connInv s =
     (\<forall>ptr. count_list (stateConnections s) ptr = (if setupDone s ptr then 1 else 0))"

text \<open>The invariant carried through all runs; between two steps nothing is scheduled for
  deletion.\<close>

definition Inv0 :: "DeviceManager \<Rightarrow> bool" where
  "Inv0 s = (timerInv s \<and> ptrsFresh s \<and> allLive s \<and> connInv s \<and> deleteLaterQueue s = [])"

text \<open>
  The plugin id that a device, or a stored device, holds is the plugin id of its
  DeviceClass in the catalog.  The manager creates and stores its devices so; the settings
  file it starts from may say otherwise.
\<close>

definition pluginIdAgrees :: "DeviceManager \<Rightarrow> PluginId \<Rightarrow> DeviceClassId \<Rightarrow> bool" where
  "pluginIdAgrees s pluginId deviceClassId' =
     (pluginId = dcPluginId (findDeviceClass s deviceClassId'))"

definition heapAgrees :: "DeviceManager \<Rightarrow> bool" where
  "heapAgrees s =
     (\<forall>ptr device. heap s ptr = Some device
         \<longrightarrow> pluginIdAgrees s (devicePluginId device) (deviceClassId device))"

definition settingsAgree :: "DeviceManager \<Rightarrow> bool" where
  "settingsAgree s =
     list_all (\<lambda>(id', sd). pluginIdAgrees s (sdPluginId sd) (sdClassId sd)) (settings s)"

definition pluginsAgree :: "DeviceManager \<Rightarrow> bool" where
  "pluginsAgree s = (heapAgrees s \<and> settingsAgree s)"

text \<open>Some configured device has completed its setup and its plugin requires the timer.\<close>

definition timerNeeded :: "DeviceManager \<Rightarrow> bool" where
  "timerNeeded s =
     list_ex (\<lambda>ptr. setupDone s ptr \<and> devicePluginTimer s ptr) (configuredDevices s)"

text \<open>Some configured device has the id: what the loop \<open>deviceIdInUse\<close> looks for.\<close>

definition deviceIdUsed :: "DeviceManager \<Rightarrow> DeviceId \<Rightarrow> bool" where
  "deviceIdUsed s id' =
     list_ex (\<lambda>ptr. case heap s ptr of None \<Rightarrow> False | Some device \<Rightarrow> deviceId device = id')
             (configuredDevices s)"

text \<open>The Device that \<open>addConfiguredDeviceInternal\<close> creates and the Device as
  \<open>setupDevice\<close> passes it to the plugin, with the states of its class.\<close>

definition newDevice :: "DeviceManager \<Rightarrow> DeviceClassId \<Rightarrow> ParamList \<Rightarrow> DeviceId \<Rightarrow> Device" where
  "newDevice s deviceClassId' params id' =
     (Device_new (dcPluginId (findDeviceClass s deviceClassId')) id' deviceClassId')
        \<lparr>deviceName := dcName (findDeviceClass s deviceClassId'), deviceParams := params\<rparr>"

definition deviceForSetup :: "DeviceManager \<Rightarrow> Device \<Rightarrow> Device" where
  "deviceForSetup s device =
     device\<lparr>deviceStates := initialStates (findDeviceClass s (deviceClassId device)) device\<rparr>"

section \<open>Sample data\<close>

text \<open>An instance of the Qt operations for integer values, used to run the validator:
  everything converts, and two \<open>VInt\<close> values compare as integers.\<close>

definition intOps :: QVariantOps where
  "intOps = \<lparr>canConvert = (\<lambda>v t. True),
            variantGreater = (\<lambda>a b. case (a, b) of (VInt x, VInt y) \<Rightarrow> x > y | _ \<Rightarrow> False),
            variantLess = (\<lambda>a b. case (a, b) of (VInt x, VInt y) \<Rightarrow> x < y | _ \<Rightarrow> False)\<rparr>"

text \<open>The schema of the mock class of the spec: one Int param \<open>n\<close> in 0..10, default 3.\<close>

definition paramTypeN :: ParamType where
  "paramTypeN = \<lparr>ptName = ''n'', ptType = TInt, ptDefaultValue = VInt 3,
                 ptMinValue = VInt 0, ptMaxValue = VInt 10, ptAllowedValues = []\<rparr>"

text \<open>The mock plugin of the spec's scenarios: class 10 of plugin 30 with the param n,
  created by the user or from a discovery and just added; the plugin requires the timer.\<close>

definition mockClass :: DeviceClass where
  "mockClass =
     \<lparr>dcValid = True, dcId = 10, dcVendorId = 20, dcPluginId = 30, dcName = ''mock'',
      dcCreateMethods = {CreateMethodUser, CreateMethodDiscovery},
      dcSetupMethod = SetupMethodJustAdd, dcParamTypes = [paramTypeN],
      dcDiscoveryParamTypes = [], dcStateTypes = []\<rparr>"

definition mockPlugin :: DevicePlugin where
  "mockPlugin =
     \<lparr>requiredHardware = {HardwareResourceTimer},
      pluginSetupDevice = (\<lambda>device. DeviceSetupStatusSuccess),
      pluginConfirmPairing = (\<lambda>tx deviceClassId' params. DeviceSetupStatusSuccess),
      pluginDiscoverDevices = (\<lambda>deviceClassId' params. DeviceErrorAsync)\<rparr>"

definition mockManager :: DeviceManager where
  "mockManager = DeviceManager_init [(10, mockClass)] [30 \<mapsto> mockPlugin] []"

definition descriptorD1 :: DeviceDescriptor where
  "descriptorD1 =
     \<lparr>ddValid = True, ddId = 41, ddDeviceClassId = 10, ddTitle = ''d1'',
      ddParams = [\<lparr>paramName = ''n'', paramValue = VInt 42\<rparr>]\<rparr>"

definition mockDiscovered :: DeviceManager where
  "mockDiscovered = mockManager\<lparr>discoveredDevices := [41 \<mapsto> descriptorD1]\<rparr>"

text \<open>Sample data for pairing: class 11 of plugin 31 is set up by push button; the
  plugin answers \<open>confirmPairing\<close> with the given status.\<close>

definition pairClass :: DeviceClass where
  "pairClass =
     \<lparr>dcValid = True, dcId = 11, dcVendorId = 20, dcPluginId = 31, dcName = ''paired'',
      dcCreateMethods = {CreateMethodDiscovery}, dcSetupMethod = SetupMethodPushButton,
      dcParamTypes = [], dcDiscoveryParamTypes = [], dcStateTypes = []\<rparr>"

definition pairPlugin :: "DeviceSetupStatus \<Rightarrow> DevicePlugin" where
  "pairPlugin status =
     \<lparr>requiredHardware = {},
      pluginSetupDevice = (\<lambda>device. DeviceSetupStatusSuccess),
      pluginConfirmPairing = (\<lambda>tx deviceClassId' params. status),
      pluginDiscoverDevices = (\<lambda>deviceClassId' params. DeviceErrorAsync)\<rparr>"

definition descriptorD2 :: DeviceDescriptor where
  "descriptorD2 =
     \<lparr>ddValid = True, ddId = 42, ddDeviceClassId = 11, ddTitle = ''d2'', ddParams = []\<rparr>"

definition pairingManager :: "DeviceSetupStatus \<Rightarrow> DeviceManager" where
  "pairingManager status =
     (DeviceManager_init [(11, pairClass)] [31 \<mapsto> pairPlugin status] [])
       \<lparr>discoveredDevices := [42 \<mapsto> descriptorD2]\<rparr>"

text \<open>The state in which transaction 5 for class 11 and descriptor 42 is recorded.\<close>

definition pairingRecorded :: "DeviceSetupStatus \<Rightarrow> DeviceManager" where
  "pairingRecorded status = (pairingManager status)\<lparr>pairingsDiscovery := [5 \<mapsto> (11, 42)]\<rparr>"

text \<open>Two loaded plugins that require the timer, 30 and 32; class 10 belongs to 30.  One
  device, then a second one, is added by the user.\<close>

definition timerManager0 :: DeviceManager where
  "timerManager0 =
     DeviceManager_init [(10, mockClass)] [30 \<mapsto> mockPlugin, 32 \<mapsto> mockPlugin] []"

definition stateAfter :: "(DeviceError \<times> DeviceManager) option \<Rightarrow> DeviceManager \<Rightarrow> DeviceManager" where
  "stateAfter r s = (case r of Some (err, s') \<Rightarrow> s' | None \<Rightarrow> s)"

definition timerManager1 :: DeviceManager where
  "timerManager1 = stateAfter (addConfiguredDevice intOps timerManager0 10 [] 7) timerManager0"

definition timerManager2 :: DeviceManager where
  "timerManager2 = stateAfter (addConfiguredDevice intOps timerManager1 10 [] 8) timerManager1"

text \<open>A plugin that requires the 433 MHz radio, and the settings of two stored devices:
  device 7 of a class and plugin that are no longer installed, device 8 of class 10.\<close>

definition radioPlugin :: DevicePlugin where
  "radioPlugin = mockPlugin\<lparr>requiredHardware := {HardwareResourceRadio433}\<rparr>"

definition staleManager :: DeviceManager where
  "staleManager =
     DeviceManager_init [(10, mockClass)] [30 \<mapsto> radioPlugin]
       [(7, \<lparr>sdName = ''gone'', sdClassId = 99, sdPluginId = 39, sdParams = []\<rparr>),
        (8, \<lparr>sdName = ''mock'', sdClassId = 10, sdPluginId = 30,
             sdParams = [(''n'', VInt 3)]\<rparr>)]"

text \<open>A stored device of class 10 whose plugin requires the timer and fails the setup.\<close>

definition failingPlugin :: DevicePlugin where
  "failingPlugin = mockPlugin\<lparr>pluginSetupDevice := (\<lambda>device. DeviceSetupStatusFailure)\<rparr>"

definition failingManager :: DeviceManager where
  "failingManager =
     DeviceManager_init [(10, mockClass)] [30 \<mapsto> failingPlugin]
       [(8, \<lparr>sdName = ''mock'', sdClassId = 10, sdPluginId = 30,
             sdParams = [(''n'', VInt 3)]\<rparr>)]"

text \<open>The catalog of the mock class with a plugin that fails every setup, and no stored
  device.\<close>

definition failingSetupManager :: DeviceManager where
  "failingSetupManager = DeviceManager_init [(10, mockClass)] [30 \<mapsto> failingPlugin] []"

section \<open>Properties\<close>

subsection \<open>Plugin metadata\<close>

lemma verifyPluginMetadata_loop_name:
  "verifyPluginMetadata_loop data fs = (fs = [] \<or> data ''name'' \<noteq> None)"
  by (induction fs) auto

lemma verifyPluginMetadata_iff_name:
  "verifyPluginMetadata data = (data ''name'' \<noteq> None)"
  by (simp add: verifyPluginMetadata_def requiredFields_def verifyPluginMetadata_loop_name)

text \<open>
  C5.  Plugin metadata verification should accept a metadata object exactly when it has
  the keys name, id and vendors.  The code accepts the object that has only the key
  name: neither id nor vendors is present, yet the result is true.
\<close>

theorem C5_verifyPluginMetadata_accepts_name_only:
  "verifyPluginMetadata [''name'' \<mapsto> ''mock''] = True
   \<and> [''name'' \<mapsto> ''mock''] ''id'' = None
   \<and> [''name'' \<mapsto> ''mock''] ''vendors'' = None"
  by (simp add: verifyPluginMetadata_def requiredFields_def)

subsection \<open>Param validator\<close>

text \<open>
  C1.  With requireAll, a successful verification should leave exactly one param per
  declared ParamType, the default being filled in only when the param is absent.  For
  the schema with the single ParamType n (default 3) and the param list [n = 5],
  the code succeeds and returns the list [n = 5, n = 3]: two params for n.
\<close>

theorem C1_verifyParams_default_duplicates_given_param:
  "verifyParams intOps [paramTypeN] [\<lparr>paramName = ''n'', paramValue = VInt 5\<rparr>] True
     = (DeviceErrorNoError,
        [\<lparr>paramName = ''n'', paramValue = VInt 5\<rparr>, \<lparr>paramName = ''n'', paramValue = VInt 3\<rparr>])"
  by (simp add: verifyParams_def verifyParam1_def intOps_def paramTypeN_def isNull_def isValid_def)

text \<open>The duplicate is not harmless: when the device is stored, the default written last
  replaces the given value, so the settings of device 7 hold n = 3 although the caller
  gave n = 5.\<close>

lemma addConfiguredDevice_stores_default_over_given_value:
  "\<exists>s'. addConfiguredDevice intOps timerManager0 10
             [\<lparr>paramName = ''n'', paramValue = VInt 5\<rparr>] 7 = Some (DeviceErrorNoError, s')
      \<and> map_option deviceParams (heap s' 1)
          = Some [\<lparr>paramName = ''n'', paramValue = VInt 5\<rparr>,
                  \<lparr>paramName = ''n'', paramValue = VInt 3\<rparr>]
      \<and> map_option sdParams (map_of (settings s') 7) = Some [(''n'', VInt 3)]"
  by (simp add: timerManager0_def DeviceManager_init_def
                addConfiguredDevice_def addConfiguredDeviceInternal_def findDeviceClass_def
                mockClass_def mockPlugin_def isNullUuid_def requireAll_default_def
                verifyParams_def verifyParam1_def intOps_def paramTypeN_def isNull_def
                isValid_def allocDevice_def Device_new_def
                setupDevice_def initialStates_def timerRegister_def
                connectStateValueChanged_def storeConfiguredDevices_def storeDevice_def
                Let_def)

subsection \<open>Adding a configured device\<close>

lemma setupDevice_frame:
  "setupDevice s ptr = Some (st, s') \<Longrightarrow>
     configuredDevices s' = configuredDevices s \<and> settings s' = settings s
     \<and> supportedDevices s' = supportedDevices s \<and> devicePlugins s' = devicePlugins s
     \<and> discoveredDevices s' = discoveredDevices s \<and> emitted s' = emitted s
     \<and> pairingsDiscovery s' = pairingsDiscovery s \<and> pairingsJustAdd s' = pairingsJustAdd s
     \<and> nextPtr s' = nextPtr s \<and> discoveringPlugins s' = discoveringPlugins s"
  by (auto simp: setupDevice_def Let_def timerRegister_def connectStateValueChanged_def
           split: option.splits if_splits)

lemma setupDevice_returns:
  "heap s ptr \<noteq> None \<Longrightarrow> \<exists>st s'. setupDevice s ptr = Some (st, s')"
  by (auto simp: setupDevice_def Let_def split: option.splits)

lemma setupDevice_heap:
  "setupDevice s ptr = Some (st, s') \<Longrightarrow> p \<noteq> ptr \<Longrightarrow> heap s' p = heap s p"
  by (auto simp: setupDevice_def Let_def timerRegister_def connectStateValueChanged_def
           split: option.splits if_splits)

lemma setupDevice_device:
  "setupDevice s ptr = Some (st, s') \<Longrightarrow> heap s ptr = Some d \<Longrightarrow>
     \<exists>d'. heap s' ptr = Some d' \<and> deviceId d' = deviceId d \<and> deviceParams d' = deviceParams d
       \<and> deviceClassId d' = deviceClassId d \<and> devicePluginId d' = devicePluginId d
       \<and> deviceName d' = deviceName d"
  by (auto simp: setupDevice_def Let_def timerRegister_def connectStateValueChanged_def
           split: option.splits if_splits)

lemma deviceIdInUse_returns:
  "list_all (\<lambda>p. h p \<noteq> None) ptrs \<Longrightarrow> \<exists>b. deviceIdInUse h ptrs i = Some b"
  by (induction ptrs) (auto split: option.splits)

lemma storeDevices_returns:
  "list_all (\<lambda>p. h p \<noteq> None) ptrs \<Longrightarrow> \<exists>st'. storeDevices h ptrs st = Some st'"
  by (induction ptrs arbitrary: st) (auto split: option.splits)

lemma storeConfiguredDevices_returns:
  "list_all (\<lambda>p. heap s p \<noteq> None) (configuredDevices s) \<Longrightarrow>
     \<exists>st'. storeConfiguredDevices s = Some (s\<lparr>settings := st'\<rparr>)"
  using storeDevices_returns [of "heap s" "configuredDevices s" "settings s"]
  by (auto simp: storeConfiguredDevices_def)

lemma storeConfiguredDevices_frame:
  "storeConfiguredDevices s = Some s' \<Longrightarrow> \<exists>st'. s' = s\<lparr>settings := st'\<rparr>"
  by (auto simp: storeConfiguredDevices_def split: option.splits)


lemma addInternal_returns:
  assumes "allLive s"
  shows "\<exists>err s'. addConfiguredDeviceInternal ops s cid params i = Some (err, s')"
proof -
  obtain b where b: "deviceIdInUse (heap s) (configuredDevices s) i = Some b"
    using deviceIdInUse_returns assms unfolding allLive_def by blast
  obtain res eff where v: "verifyParams ops (dcParamTypes (findDeviceClass s cid)) params requireAll_default = (res, eff)"
    by (cases "verifyParams ops (dcParamTypes (findDeviceClass s cid)) params requireAll_default")
  show ?thesis
  proof (cases "devicePlugins s (dcPluginId (findDeviceClass s cid))")
    case None
    then show ?thesis using b v
      by (cases b) (auto simp: addConfiguredDeviceInternal_def Let_def)
  next
    case (Some plugin)
    define dev where "dev = (Device_new (dcPluginId (findDeviceClass s cid)) i cid)
                               \<lparr>deviceName := dcName (findDeviceClass s cid), deviceParams := eff\<rparr>"
    define s1 where "s1 = snd (allocDevice dev s)"
    have a: "allocDevice dev s = (nextPtr s, s1)" by (simp add: s1_def allocDevice_def)
    have h1: "heap s1 (nextPtr s) = Some dev" by (simp add: s1_def allocDevice_def)
    obtain st s2 where su: "setupDevice s1 (nextPtr s) = Some (st, s2)"
      using setupDevice_returns [of s1 "nextPtr s"] h1 by auto
    have live2: "list_all (\<lambda>p. heap s2 p \<noteq> None) (configuredDevices s2 @ [nextPtr s])"
    proof -
      have c: "configuredDevices s2 = configuredDevices s"
        using setupDevice_frame [OF su] by (simp add: s1_def allocDevice_def)
      have "heap s2 p \<noteq> None" if "heap s p \<noteq> None \<or> p = nextPtr s" for p
      proof (cases "p = nextPtr s")
        case True
        then show ?thesis using setupDevice_device [OF su h1] by auto
      next
        case False
        then have "heap s2 p = heap s1 p" using setupDevice_heap [OF su] by simp
        then show ?thesis using that False by (simp add: s1_def allocDevice_def)
      qed
      then show ?thesis using assms c by (auto simp: allLive_def list_all_iff)
    qed
    obtain st' where sto: "storeConfiguredDevices (s2\<lparr>configuredDevices := configuredDevices s2 @ [nextPtr s]\<rparr>)
         = Some (s2\<lparr>configuredDevices := configuredDevices s2 @ [nextPtr s], settings := st'\<rparr>)"
      using storeConfiguredDevices_returns [of "s2\<lparr>configuredDevices := configuredDevices s2 @ [nextPtr s]\<rparr>"] live2
      by auto
    show ?thesis using b v Some a su sto unfolding dev_def [symmetric]
      by (cases b; cases st) (auto simp: addConfiguredDeviceInternal_def Let_def dev_def [symmetric])
  qed
qed



lemma addInternal_error_frame:
  assumes "addConfiguredDeviceInternal ops s cid params i = Some (err, s')"
    and "err \<noteq> DeviceErrorNoError"
  shows "configuredDevices s' = configuredDevices s \<and> settings s' = settings s"
proof -
  have fr: "configuredDevices s2 = configuredDevices s \<and> settings s2 = settings s"
    if "setupDevice (s\<lparr>heap := (heap s)(nextPtr s \<mapsto> dev), nextPtr := Suc (nextPtr s)\<rparr>) (nextPtr s) = Some (st, s2)" for dev st s2
    using setupDevice_frame [OF that] by simp
  show ?thesis using assms
    by (auto simp: addConfiguredDeviceInternal_def Let_def deleteDevice_def allocDevice_def
             split: if_splits option.splits prod.splits DeviceSetupStatus.splits
             dest!: fr)
qed

lemma addInternal_success:
  assumes "addConfiguredDeviceInternal ops s cid params i = Some (DeviceErrorNoError, s')"
  shows "fst (verifyParams ops (dcParamTypes (findDeviceClass s cid)) params requireAll_default)
           = DeviceErrorNoError
       \<and> deviceIdInUse (heap s) (configuredDevices s) i = Some False
       \<and> configuredDevices s' = configuredDevices s @ [nextPtr s]
       \<and> (\<exists>d. heap s' (nextPtr s) = Some d \<and> deviceId d = i
              \<and> deviceParams d = snd (verifyParams ops (dcParamTypes (findDeviceClass s cid))
                                         params requireAll_default))"
proof -
  have fr: "configuredDevices s2 = configuredDevices s
       \<and> (\<exists>d. heap s2 (nextPtr s) = Some d \<and> deviceId d = deviceId dev \<and> deviceParams d = deviceParams dev)"
    if "setupDevice (s\<lparr>heap := (heap s)(nextPtr s \<mapsto> dev), nextPtr := Suc (nextPtr s)\<rparr>) (nextPtr s) = Some (st, s2)" for dev st s2
    using setupDevice_frame [OF that] setupDevice_device [OF that, of dev] by auto
  show ?thesis using assms
    by (auto simp: addConfiguredDeviceInternal_def Let_def deleteDevice_def allocDevice_def Device_new_def
             split: if_splits option.splits prod.splits DeviceSetupStatus.splits
             dest!: fr storeConfiguredDevices_frame)
qed

lemma addInternal_invalid:
  assumes "\<not> isNullUuid (dcId (findDeviceClass s cid))"
    and "dcSetupMethod (findDeviceClass s cid) = SetupMethodJustAdd"
    and "fst (verifyParams ops (dcParamTypes (findDeviceClass s cid)) params requireAll_default) = e"
    and "e \<noteq> DeviceErrorNoError"
  shows "addConfiguredDeviceInternal ops s cid params i = Some (e, s)"
  using assms by (auto simp: addConfiguredDeviceInternal_def Let_def split: prod.splits)

lemma verifyParam_result:
  "verifyParam ops pts p \<in> {DeviceErrorNoError, DeviceErrorInvalidParameter}"
  by (induction pts) (auto simp: verifyParam1_def)

lemma verifyParams_check_result:
  "verifyParams_check ops pts ps \<in> {DeviceErrorNoError, DeviceErrorInvalidParameter}"
  using verifyParam_result by (induction ps) (auto simp: Let_def)

lemma verifyParams_fill_result:
  "fst (verifyParams_fill pts ps) \<in> {DeviceErrorNoError, DeviceErrorMissingParameter}"
  by (induction pts ps rule: verifyParams_fill.induct) (auto simp: Let_def)

lemma verifyParams_result:
  "fst (verifyParams ops pts ps r)
     \<in> {DeviceErrorNoError, DeviceErrorInvalidParameter, DeviceErrorMissingParameter}"
  using verifyParams_check_result [of ops pts ps] verifyParams_fill_result [of pts ps]
  by (auto simp: verifyParams_def Let_def)

lemma addInternal_duplicate:
  assumes "deviceIdInUse (heap s) (configuredDevices s) i = Some True"
    and "addConfiguredDeviceInternal ops s cid params i = Some (err, s')"
  shows "err \<noteq> DeviceErrorNoError \<and> err \<noteq> DeviceErrorAsync
       \<and> (\<not> isNullUuid (dcId (findDeviceClass s cid))
          \<and> dcSetupMethod (findDeviceClass s cid) = SetupMethodJustAdd
          \<and> fst (verifyParams ops (dcParamTypes (findDeviceClass s cid)) params requireAll_default) = DeviceErrorNoError
          \<longrightarrow> err = DeviceErrorDuplicateUuid)"
  using assms verifyParams_result [of ops "dcParamTypes (findDeviceClass s cid)" params requireAll_default]
  by (auto simp: addConfiguredDeviceInternal_def Let_def split: prod.splits if_splits)

lemma deviceIdInUse_meaning:
  "list_all (\<lambda>p. h p \<noteq> None) ptrs \<Longrightarrow>
     deviceIdInUse h ptrs i
       = Some (list_ex (\<lambda>ptr. case h ptr of None \<Rightarrow> False
                               | Some device \<Rightarrow> deviceId device = i) ptrs)"
  by (induction ptrs) (auto split: option.splits)

lemma deviceIdInUse_used:
  "allLive s \<Longrightarrow> deviceIdInUse (heap s) (configuredDevices s) i = Some (deviceIdUsed s i)"
  using deviceIdInUse_meaning [of "heap s" "configuredDevices s" i]
  by (simp add: allLive_def deviceIdUsed_def)

lemma setupDevice_eval:
  assumes "heap s ptr = Some d"
    and "devicePlugins s (dcPluginId (findDeviceClass s (deviceClassId d))) = Some plugin"
  shows "\<exists>s'. setupDevice s ptr = Some (pluginSetupDevice plugin (deviceForSetup s d), s')
            \<and> heap s' ptr =
                Some (if pluginSetupDevice plugin (deviceForSetup s d) = DeviceSetupStatusSuccess
                      then (deviceForSetup s d)\<lparr>setupComplete := True\<rparr>
                      else deviceForSetup s d)"
  using assms
  by (simp add: setupDevice_def Let_def deviceForSetup_def connectStateValueChanged_def
                timerRegister_def)

lemma storeDevices_snoc:
  "storeDevices h (ptrs @ [p]) st =
     (case storeDevices h ptrs st of
        None \<Rightarrow> None
      | Some st1 \<Rightarrow> (case h p of None \<Rightarrow> None | Some d \<Rightarrow> Some (storeDevice d st1)))"
  by (induction ptrs arbitrary: st) (auto split: option.splits)

lemma storeDevice_entry:
  "\<exists>sd. map_of (storeDevice d st) (deviceId d) = Some sd
        \<and> sdClassId sd = deviceClassId d \<and> sdPluginId sd = devicePluginId d"
  by (simp add: storeDevice_def update_conv')

lemma storeConfiguredDevices_last:
  assumes "storeConfiguredDevices (s\<lparr>configuredDevices := ptrs @ [p]\<rparr>) = Some s'"
    and "heap s p = Some d"
  shows "\<exists>sd. map_of (settings s') (deviceId d) = Some sd
        \<and> sdClassId sd = deviceClassId d \<and> sdPluginId sd = devicePluginId d"
  using assms storeDevice_entry [of d]
  by (auto simp: storeConfiguredDevices_def storeDevices_snoc split: option.splits)

text \<open>The result of \<open>addConfiguredDeviceInternal\<close> once the class checks, the validation
  and the search for the id have passed and the plugin is loaded: it is decided by the
  status that the plugin's \<open>setupDevice\<close> returns for the new device.\<close>

lemma addInternal_setup:
  assumes live: "allLive s"
    and cls: "\<not> isNullUuid (dcId (findDeviceClass s cid))"
      "dcSetupMethod (findDeviceClass s cid) = SetupMethodJustAdd"
    and v: "verifyParams ops (dcParamTypes (findDeviceClass s cid)) params requireAll_default
              = (DeviceErrorNoError, eff)"
    and unused: "\<not> deviceIdUsed s i"
    and pl: "devicePlugins s (dcPluginId (findDeviceClass s cid)) = Some plugin"
    and r: "addConfiguredDeviceInternal ops s cid params i = Some (err, s')"
  shows "case pluginSetupDevice plugin (deviceForSetup s (newDevice s cid eff i)) of
           DeviceSetupStatusFailure \<Rightarrow>
             err = DeviceErrorSetupFailed \<and> heap s' (nextPtr s) = None
         | DeviceSetupStatusAsync \<Rightarrow>
             err = DeviceErrorAsync
             \<and> heap s' (nextPtr s) = Some (deviceForSetup s (newDevice s cid eff i))
         | DeviceSetupStatusSuccess \<Rightarrow>
             err = DeviceErrorNoError
             \<and> configuredDevices s' = configuredDevices s @ [nextPtr s]
             \<and> heap s' (nextPtr s)
                 = Some ((deviceForSetup s (newDevice s cid eff i))\<lparr>setupComplete := True\<rparr>)
             \<and> (\<exists>sd. map_of (settings s') i = Some sd \<and> sdClassId sd = cid
                      \<and> sdPluginId sd = dcPluginId (findDeviceClass s cid))"
proof -
  define dev where "dev = newDevice s cid eff i"
  define s1 where "s1 = s\<lparr>heap := (heap s)(nextPtr s \<mapsto> dev), nextPtr := Suc (nextPtr s)\<rparr>"
  define status where "status = pluginSetupDevice plugin (deviceForSetup s dev)"
  have al: "allocDevice dev s = (nextPtr s, s1)" by (simp add: allocDevice_def s1_def)
  have dv: "deviceClassId dev = cid" "deviceId dev = i"
    "devicePluginId dev = dcPluginId (findDeviceClass s cid)"
    by (simp_all add: dev_def newDevice_def Device_new_def)
  have fd: "findDeviceClass s1 = findDeviceClass s"
    by (intro ext) (simp add: findDeviceClass_def s1_def)
  have dfs: "deviceForSetup s1 dev = deviceForSetup s dev"
    by (simp add: deviceForSetup_def fd)
  have h1: "heap s1 (nextPtr s) = Some dev" by (simp add: s1_def)
  have pl1: "devicePlugins s1 (dcPluginId (findDeviceClass s1 (deviceClassId dev))) = Some plugin"
    using pl by (simp add: fd dv) (simp add: s1_def)
  from setupDevice_eval [OF h1 pl1] obtain s2 where
    su: "setupDevice s1 (nextPtr s) = Some (status, s2)"
    and h2: "heap s2 (nextPtr s) =
               Some (if status = DeviceSetupStatusSuccess
                     then (deviceForSetup s dev)\<lparr>setupComplete := True\<rparr>
                     else deviceForSetup s dev)"
    unfolding dfs status_def by blast
  have c2: "configuredDevices s2 = configuredDevices s"
    using setupDevice_frame [OF su] by (simp add: s1_def)
  have iu: "deviceIdInUse (heap s) (configuredDevices s) i = Some False"
    using deviceIdInUse_used [OF live] unused by simp
  have r': "(case status of
               DeviceSetupStatusSuccess \<Rightarrow>
                 (case storeConfiguredDevices
                         (s2\<lparr>configuredDevices := configuredDevices s2 @ [nextPtr s]\<rparr>) of
                    None \<Rightarrow> None | Some s3 \<Rightarrow> Some (DeviceErrorNoError, s3))
             | DeviceSetupStatusFailure \<Rightarrow>
                 Some (DeviceErrorSetupFailed, deleteDevice (nextPtr s) s2)
             | DeviceSetupStatusAsync \<Rightarrow> Some (DeviceErrorAsync, s2)) = Some (err, s')"
    using r cls v iu pl al su
    by (simp add: addConfiguredDeviceInternal_def Let_def dev_def newDevice_def)
  show ?thesis
  proof (cases status)
    case DeviceSetupStatusSuccess
    then obtain s3 where
      sto: "storeConfiguredDevices (s2\<lparr>configuredDevices := configuredDevices s2 @ [nextPtr s]\<rparr>)
              = Some s3"
      and e: "err = DeviceErrorNoError" "s' = s3"
      using r' by (auto split: option.splits)
    from storeConfiguredDevices_frame [OF sto] obtain st' where
      s3: "s3 = s2\<lparr>configuredDevices := configuredDevices s2 @ [nextPtr s], settings := st'\<rparr>"
      by auto
    have hd: "heap s2 (nextPtr s) = Some ((deviceForSetup s dev)\<lparr>setupComplete := True\<rparr>)"
      using h2 DeviceSetupStatusSuccess by simp
    have "\<exists>sd. map_of (settings s3) i = Some sd \<and> sdClassId sd = cid
                      \<and> sdPluginId sd = dcPluginId (findDeviceClass s cid)"
      using storeConfiguredDevices_last [OF sto, of "(deviceForSetup s dev)\<lparr>setupComplete := True\<rparr>"]
        hd dv
      by (simp add: deviceForSetup_def)
    then show ?thesis
      using e hd c2 DeviceSetupStatusSuccess
      unfolding status_def dev_def by (simp add: s3)
  next
    case DeviceSetupStatusFailure
    then have "err = DeviceErrorSetupFailed" "s' = deleteDevice (nextPtr s) s2"
      using r' by simp_all
    then show ?thesis
      using DeviceSetupStatusFailure unfolding status_def dev_def
      by (simp add: deleteDevice_def)
  next
    case DeviceSetupStatusAsync
    then have "err = DeviceErrorAsync" "s' = s2" using r' by simp_all
    then show ?thesis
      using DeviceSetupStatusAsync h2 unfolding status_def dev_def by simp
  qed
qed

lemma addInternal_no_plugin:
  assumes "allLive s"
    and "\<not> isNullUuid (dcId (findDeviceClass s cid))"
      "dcSetupMethod (findDeviceClass s cid) = SetupMethodJustAdd"
    and "fst (verifyParams ops (dcParamTypes (findDeviceClass s cid)) params requireAll_default)
           = DeviceErrorNoError"
    and "\<not> deviceIdUsed s i"
    and "devicePlugins s (dcPluginId (findDeviceClass s cid)) = None"
  shows "addConfiguredDeviceInternal ops s cid params i = Some (DeviceErrorPluginNotFound, s)"
  using assms deviceIdInUse_used [OF assms(1), of i]
  by (auto simp: addConfiguredDeviceInternal_def Let_def split: prod.splits)

lemma addInternal_used:
  assumes "allLive s"
    and "\<not> isNullUuid (dcId (findDeviceClass s cid))"
      "dcSetupMethod (findDeviceClass s cid) = SetupMethodJustAdd"
    and "fst (verifyParams ops (dcParamTypes (findDeviceClass s cid)) params requireAll_default)
           = DeviceErrorNoError"
    and "deviceIdUsed s i"
  shows "addConfiguredDeviceInternal ops s cid params i = Some (DeviceErrorDuplicateUuid, s)"
  using assms deviceIdInUse_used [OF assms(1), of i]
  by (auto simp: addConfiguredDeviceInternal_def Let_def split: prod.splits)

text \<open>
  C2.  \<open>addConfiguredDevice(deviceClassId, params, id)\<close>, called in a state whose
  configured devices are live objects, returns; whenever its result is not NoError the
  list of configured devices and the persisted settings are as before the call.  A
  DeviceClass that fails the class checks is rejected and the state is unchanged.  For a
  DeviceClass that passes them, the params are validated against the class's paramTypes
  with requireAll = true and a failing validation is the result of the call; then a
  DeviceId that some configured device has is rejected with DuplicateUuid (the loop over
  the configured devices finds exactly such an id); then a missing plugin gives
  PluginNotFound; in these cases the state is unchanged.  Otherwise the status that the
  plugin's \<open>setupDevice\<close> returns for the new device decides: Failure gives SetupFailed and
  the device is deleted, Async gives Async, and Success gives NoError, the device with
  the given id, the effective params and its setup complete is appended to the
  configured devices and its entry is in the persisted settings.
\<close>

theorem C2_addConfiguredDevice:
  assumes "allLive s"
  shows "\<exists>err s'. addConfiguredDevice ops s cid params i = Some (err, s')
     \<and> (err \<noteq> DeviceErrorNoError
          \<longrightarrow> configuredDevices s' = configuredDevices s \<and> settings s' = settings s)
     \<and> deviceIdInUse (heap s) (configuredDevices s) i = Some (deviceIdUsed s i)
     \<and> (deviceIdUsed s i \<longrightarrow> err \<noteq> DeviceErrorNoError \<and> err \<noteq> DeviceErrorAsync)
     \<and> (\<not> userCreatable s cid
          \<longrightarrow> (err = DeviceErrorDeviceClassNotFound
                 \<or> err = DeviceErrorCreationMethodNotSupported) \<and> s' = s)
     \<and> (userCreatable s cid
          \<longrightarrow> (if fst (verifyParams ops (dcParamTypes (findDeviceClass s cid)) params True)
                     \<noteq> DeviceErrorNoError
                then err = fst (verifyParams ops (dcParamTypes (findDeviceClass s cid))
                                   params True)
                     \<and> s' = s
                else if deviceIdUsed s i then err = DeviceErrorDuplicateUuid \<and> s' = s
                else
                  (case devicePlugins s (dcPluginId (findDeviceClass s cid)) of
                     None \<Rightarrow> err = DeviceErrorPluginNotFound \<and> s' = s
                   | Some plugin \<Rightarrow>
                       (case pluginSetupDevice plugin
                               (deviceForSetup s
                                  (newDevice s cid
                                     (snd (verifyParams ops
                                             (dcParamTypes (findDeviceClass s cid))
                                             params True)) i)) of
                          DeviceSetupStatusFailure \<Rightarrow>
                            err = DeviceErrorSetupFailed \<and> heap s' (nextPtr s) = None
                        | DeviceSetupStatusAsync \<Rightarrow>
                            err = DeviceErrorAsync
                            \<and> heap s' (nextPtr s)
                                = Some (deviceForSetup s
                                          (newDevice s cid
                                             (snd (verifyParams ops
                                                     (dcParamTypes (findDeviceClass s cid))
                                                     params True)) i))
                        | DeviceSetupStatusSuccess \<Rightarrow>
                            err = DeviceErrorNoError
                            \<and> configuredDevices s' = configuredDevices s @ [nextPtr s]
                            \<and> heap s' (nextPtr s)
                                = Some ((deviceForSetup s
                                           (newDevice s cid
                                              (snd (verifyParams ops
                                                      (dcParamTypes (findDeviceClass s cid))
                                                      params True)) i))
                                        \<lparr>setupComplete := True\<rparr>)
                            \<and> (\<exists>sd. map_of (settings s') i = Some sd \<and> sdClassId sd = cid
                                    \<and> sdPluginId sd
                                        = dcPluginId (findDeviceClass s cid))))))"
proof (cases "dcValid (findDeviceClass s cid) \<and> CreateMethodUser \<in> dcCreateMethods (findDeviceClass s cid)")
  case False
  then have "addConfiguredDevice ops s cid params i = Some (DeviceErrorDeviceClassNotFound, s)
           \<or> addConfiguredDevice ops s cid params i = Some (DeviceErrorCreationMethodNotSupported, s)"
    by (auto simp: addConfiguredDevice_def Let_def)
  then show ?thesis using False deviceIdInUse_used [OF assms, of i]
    by (auto simp: userCreatable_def)
next
  case True
  then have eq: "addConfiguredDevice ops s cid params i = addConfiguredDeviceInternal ops s cid params i"
    by (simp add: addConfiguredDevice_def Let_def)
  obtain err s' where r: "addConfiguredDeviceInternal ops s cid params i = Some (err, s')"
    using addInternal_returns [OF assms] by blast
  obtain res eff where
    v: "verifyParams ops (dcParamTypes (findDeviceClass s cid)) params True = (res, eff)"
    by (cases "verifyParams ops (dcParamTypes (findDeviceClass s cid)) params True")
  have a: "err \<noteq> DeviceErrorNoError
          \<longrightarrow> configuredDevices s' = configuredDevices s \<and> settings s' = settings s"
    using addInternal_error_frame [OF r] by blast
  have f: "deviceIdInUse (heap s) (configuredDevices s) i = Some (deviceIdUsed s i)"
    using deviceIdInUse_used [OF assms] .
  have c: "deviceIdUsed s i \<longrightarrow> err \<noteq> DeviceErrorNoError \<and> err \<noteq> DeviceErrorAsync"
    using addInternal_duplicate [OF _ r] f by simp
  have e: "\<not> userCreatable s cid
          \<longrightarrow> (err = DeviceErrorDeviceClassNotFound
                 \<or> err = DeviceErrorCreationMethodNotSupported) \<and> s' = s"
    using r True
    by (auto simp: userCreatable_def addConfiguredDeviceInternal_def Let_def split: if_splits)
  have g: "if res \<noteq> DeviceErrorNoError then err = res \<and> s' = s
           else if deviceIdUsed s i then err = DeviceErrorDuplicateUuid \<and> s' = s
           else
             (case devicePlugins s (dcPluginId (findDeviceClass s cid)) of
                None \<Rightarrow> err = DeviceErrorPluginNotFound \<and> s' = s
              | Some plugin \<Rightarrow>
                  (case pluginSetupDevice plugin (deviceForSetup s (newDevice s cid eff i)) of
                     DeviceSetupStatusFailure \<Rightarrow>
                       err = DeviceErrorSetupFailed \<and> heap s' (nextPtr s) = None
                   | DeviceSetupStatusAsync \<Rightarrow>
                       err = DeviceErrorAsync
                       \<and> heap s' (nextPtr s) = Some (deviceForSetup s (newDevice s cid eff i))
                   | DeviceSetupStatusSuccess \<Rightarrow>
                       err = DeviceErrorNoError
                       \<and> configuredDevices s' = configuredDevices s @ [nextPtr s]
                       \<and> heap s' (nextPtr s)
                           = Some ((deviceForSetup s (newDevice s cid eff i))
                                   \<lparr>setupComplete := True\<rparr>)
                       \<and> (\<exists>sd. map_of (settings s') i = Some sd \<and> sdClassId sd = cid
                               \<and> sdPluginId sd = dcPluginId (findDeviceClass s cid))))"
    if uc: "userCreatable s cid"
  proof -
    have cls: "\<not> isNullUuid (dcId (findDeviceClass s cid))"
      "dcSetupMethod (findDeviceClass s cid) = SetupMethodJustAdd"
      using uc by (simp_all add: userCreatable_def)
    have v': "verifyParams ops (dcParamTypes (findDeviceClass s cid)) params requireAll_default
                = (res, eff)"
      using v by (simp add: requireAll_default_def)
    show ?thesis
    proof (cases "res \<noteq> DeviceErrorNoError")
      case True
      then show ?thesis
        using addInternal_invalid [OF cls, of ops params res i] v' r by simp
    next
      case ok: False
      show ?thesis
      proof (cases "deviceIdUsed s i")
        case True
        then show ?thesis
          using addInternal_used [OF assms cls, of ops params i] v' r ok by simp
      next
        case unused: False
        show ?thesis
        proof (cases "devicePlugins s (dcPluginId (findDeviceClass s cid))")
          case None
          then show ?thesis
            using addInternal_no_plugin [OF assms cls, of ops params i] v' r ok unused by simp
        next
          case (Some plugin)
          have v'': "verifyParams ops (dcParamTypes (findDeviceClass s cid)) params
                       requireAll_default = (DeviceErrorNoError, eff)"
            using v' ok by simp
          show ?thesis
            using addInternal_setup [OF assms cls v'' unused Some r] ok unused Some by simp
        qed
      qed
    qed
  qed
  have g': "userCreatable s cid
          \<longrightarrow> (if fst (verifyParams ops (dcParamTypes (findDeviceClass s cid)) params True)
                     \<noteq> DeviceErrorNoError
                then err = fst (verifyParams ops (dcParamTypes (findDeviceClass s cid))
                                   params True)
                     \<and> s' = s
                else if deviceIdUsed s i then err = DeviceErrorDuplicateUuid \<and> s' = s
                else
                  (case devicePlugins s (dcPluginId (findDeviceClass s cid)) of
                     None \<Rightarrow> err = DeviceErrorPluginNotFound \<and> s' = s
                   | Some plugin \<Rightarrow>
                       (case pluginSetupDevice plugin
                               (deviceForSetup s
                                  (newDevice s cid
                                     (snd (verifyParams ops
                                             (dcParamTypes (findDeviceClass s cid))
                                             params True)) i)) of
                          DeviceSetupStatusFailure \<Rightarrow>
                            err = DeviceErrorSetupFailed \<and> heap s' (nextPtr s) = None
                        | DeviceSetupStatusAsync \<Rightarrow>
                            err = DeviceErrorAsync
                            \<and> heap s' (nextPtr s)
                                = Some (deviceForSetup s
                                          (newDevice s cid
                                             (snd (verifyParams ops
                                                     (dcParamTypes (findDeviceClass s cid))
                                                     params True)) i))
                        | DeviceSetupStatusSuccess \<Rightarrow>
                            err = DeviceErrorNoError
                            \<and> configuredDevices s' = configuredDevices s @ [nextPtr s]
                            \<and> heap s' (nextPtr s)
                                = Some ((deviceForSetup s
                                           (newDevice s cid
                                              (snd (verifyParams ops
                                                      (dcParamTypes (findDeviceClass s cid))
                                                      params True)) i))
                                        \<lparr>setupComplete := True\<rparr>)
                            \<and> (\<exists>sd. map_of (settings s') i = Some sd \<and> sdClassId sd = cid
                                    \<and> sdPluginId sd
                                        = dcPluginId (findDeviceClass s cid)))))"
  proof (rule impI)
    assume "userCreatable s cid"
    from g [OF this] show "if fst (verifyParams ops (dcParamTypes (findDeviceClass s cid)) params True)
                     \<noteq> DeviceErrorNoError
                then err = fst (verifyParams ops (dcParamTypes (findDeviceClass s cid))
                                   params True)
                     \<and> s' = s
                else if deviceIdUsed s i then err = DeviceErrorDuplicateUuid \<and> s' = s
                else
                  (case devicePlugins s (dcPluginId (findDeviceClass s cid)) of
                     None \<Rightarrow> err = DeviceErrorPluginNotFound \<and> s' = s
                   | Some plugin \<Rightarrow>
                       (case pluginSetupDevice plugin
                               (deviceForSetup s
                                  (newDevice s cid
                                     (snd (verifyParams ops
                                             (dcParamTypes (findDeviceClass s cid))
                                             params True)) i)) of
                          DeviceSetupStatusFailure \<Rightarrow>
                            err = DeviceErrorSetupFailed \<and> heap s' (nextPtr s) = None
                        | DeviceSetupStatusAsync \<Rightarrow>
                            err = DeviceErrorAsync
                            \<and> heap s' (nextPtr s)
                                = Some (deviceForSetup s
                                          (newDevice s cid
                                             (snd (verifyParams ops
                                                     (dcParamTypes (findDeviceClass s cid))
                                                     params True)) i))
                        | DeviceSetupStatusSuccess \<Rightarrow>
                            err = DeviceErrorNoError
                            \<and> configuredDevices s' = configuredDevices s @ [nextPtr s]
                            \<and> heap s' (nextPtr s)
                                = Some ((deviceForSetup s
                                           (newDevice s cid
                                              (snd (verifyParams ops
                                                      (dcParamTypes (findDeviceClass s cid))
                                                      params True)) i))
                                        \<lparr>setupComplete := True\<rparr>)
                            \<and> (\<exists>sd. map_of (settings s') i = Some sd \<and> sdClassId sd = cid
                                    \<and> sdPluginId sd
                                        = dcPluginId (findDeviceClass s cid))))"
      unfolding v fst_conv snd_conv .
  qed
  show ?thesis
    unfolding eq using r a f c e g'
    by - (rule exI [of _ err], rule exI [of _ s'], intro conjI, assumption+)
qed

lemma findDeviceClass_mock [simp]:
  "findDeviceClass mockManager 10 = mockClass"
  "findDeviceClass mockDiscovered 10 = mockClass"
  by (simp_all add: findDeviceClass_def mockManager_def mockDiscovered_def
                    DeviceManager_init_def mockClass_def)

lemma verifyParams_n42:
  "verifyParams intOps [paramTypeN] [\<lparr>paramName = ''n'', paramValue = VInt 42\<rparr>] True
     = (DeviceErrorInvalidParameter, [\<lparr>paramName = ''n'', paramValue = VInt 42\<rparr>])"
  by (simp add: verifyParams_def verifyParam1_def intOps_def paramTypeN_def isValid_def)

lemma timerManager1_eval:
  "timerManager1 =
     timerManager0
       \<lparr>heap := [1 \<mapsto> \<lparr>deviceId = 7, devicePluginId = 30, deviceClassId = 10,
                       deviceName = ''mock'',
                       deviceParams = [\<lparr>paramName = ''n'', paramValue = VInt 3\<rparr>],
                       deviceStates = [], setupComplete = True\<rparr>],
        nextPtr := 2, configuredDevices := [1], pluginTimerUsers := [1],
        pluginTimerActive := True, pendingTimerShots := 1, stateConnections := [1],
        settings := [(7, \<lparr>sdName = ''mock'', sdClassId = 10, sdPluginId = 30,
                          sdParams = [(''n'', VInt 3)]\<rparr>)]\<rparr>"
  by (simp add: timerManager1_def stateAfter_def timerManager0_def DeviceManager_init_def
                addConfiguredDevice_def addConfiguredDeviceInternal_def findDeviceClass_def
                mockClass_def mockPlugin_def isNullUuid_def requireAll_default_def
                verifyParams_def paramTypeN_def isNull_def allocDevice_def Device_new_def
                setupDevice_def initialStates_def timerRegister_def
                connectStateValueChanged_def storeConfiguredDevices_def storeDevice_def
                Let_def)

lemma timerManager0_add:
  "addConfiguredDevice intOps timerManager0 10 [] 7 = Some (DeviceErrorNoError, timerManager1)"
  unfolding timerManager1_eval
  by (simp add: timerManager0_def DeviceManager_init_def
                addConfiguredDevice_def addConfiguredDeviceInternal_def findDeviceClass_def
                mockClass_def mockPlugin_def isNullUuid_def requireAll_default_def
                verifyParams_def paramTypeN_def isNull_def allocDevice_def Device_new_def
                setupDevice_def initialStates_def timerRegister_def
                connectStateValueChanged_def storeConfiguredDevices_def storeDevice_def
                Let_def)

theorem C2_witness:
  "allLive mockManager
   \<and> (\<exists>err s'. addConfiguredDevice intOps mockManager 10
                  [\<lparr>paramName = ''n'', paramValue = VInt 42\<rparr>] 7 = Some (err, s')
        \<and> err = DeviceErrorInvalidParameter
        \<and> configuredDevices s' = configuredDevices mockManager
        \<and> settings s' = settings mockManager)
   \<and> allLive timerManager0
   \<and> (\<exists>s'. addConfiguredDevice intOps timerManager0 10 [] 7 = Some (DeviceErrorNoError, s')
        \<and> configuredDevices s' = [1]
        \<and> map_option deviceId (heap s' 1) = Some 7
        \<and> map_option deviceParams (heap s' 1)
            = Some [\<lparr>paramName = ''n'', paramValue = VInt 3\<rparr>]
        \<and> map_option sdClassId (map_of (settings s') 7) = Some 10)
   \<and> allLive timerManager1
   \<and> deviceIdUsed timerManager1 7
   \<and> (\<exists>s'. addConfiguredDevice intOps timerManager1 10 [] 7 = Some (DeviceErrorDuplicateUuid, s')
        \<and> configuredDevices s' = configuredDevices timerManager1
        \<and> settings s' = settings timerManager1)
   \<and> allLive failingSetupManager
   \<and> (\<exists>s'. addConfiguredDevice intOps failingSetupManager 10 [] 7
               = Some (DeviceErrorSetupFailed, s')
        \<and> configuredDevices s' = [] \<and> settings s' = [] \<and> heap s' 1 = None)"
proof -
  have live: "allLive mockManager"
    by (simp add: allLive_def mockManager_def DeviceManager_init_def)
  have uc: "userCreatable mockManager 10"
    by (simp add: userCreatable_def mockClass_def isNullUuid_def)
  have pt: "dcParamTypes mockClass = [paramTypeN]" "dcPluginId mockClass = 30"
    by (simp_all add: mockClass_def)
  have a: "\<exists>err s'. addConfiguredDevice intOps mockManager 10
                  [\<lparr>paramName = ''n'', paramValue = VInt 42\<rparr>] 7 = Some (err, s')
        \<and> err = DeviceErrorInvalidParameter
        \<and> configuredDevices s' = configuredDevices mockManager
        \<and> settings s' = settings mockManager"
    using uc verifyParams_n42
      C2_addConfiguredDevice [OF live, of intOps 10 "[\<lparr>paramName = ''n'', paramValue = VInt 42\<rparr>]" 7]
    by (auto simp: pt)
  have live0: "allLive timerManager0"
    by (simp add: allLive_def timerManager0_def DeviceManager_init_def)
  have fd: "findDeviceClass timerManager0 10 = mockClass"
    "findDeviceClass timerManager1 10 = mockClass"
    "findDeviceClass failingSetupManager 10 = mockClass"
    by (simp_all add: findDeviceClass_def timerManager1_eval timerManager0_def
                      failingSetupManager_def DeviceManager_init_def mockClass_def)
  have v0: "verifyParams intOps [paramTypeN] [] True
              = (DeviceErrorNoError, [\<lparr>paramName = ''n'', paramValue = VInt 3\<rparr>])"
    by (simp add: verifyParams_def paramTypeN_def isNull_def)
  have np0: "nextPtr timerManager0 = 1" "configuredDevices timerManager0 = []"
    "devicePlugins timerManager0 30 = Some mockPlugin" "\<not> deviceIdUsed timerManager0 7"
    by (simp_all add: timerManager0_def DeviceManager_init_def deviceIdUsed_def)
  have uc0: "userCreatable timerManager0 10"
    by (simp add: userCreatable_def fd) (simp add: mockClass_def isNullUuid_def)
  have sp: "pluginSetupDevice mockPlugin d = DeviceSetupStatusSuccess"
    "pluginSetupDevice failingPlugin d = DeviceSetupStatusFailure" for d
    by (simp_all add: mockPlugin_def failingPlugin_def)
  have b: "\<exists>s'. addConfiguredDevice intOps timerManager0 10 [] 7 = Some (DeviceErrorNoError, s')
        \<and> configuredDevices s' = [1]
        \<and> map_option deviceId (heap s' 1) = Some 7
        \<and> map_option deviceParams (heap s' 1)
            = Some [\<lparr>paramName = ''n'', paramValue = VInt 3\<rparr>]
        \<and> map_option sdClassId (map_of (settings s') 7) = Some 10"
    using uc0 C2_addConfiguredDevice [OF live0, of intOps 10 "[]" 7]
    by (auto simp: fd pt v0 np0 sp deviceForSetup_def newDevice_def Device_new_def)
  have live1: "allLive timerManager1"
    by (simp add: allLive_def timerManager1_eval)
  have uc1: "userCreatable timerManager1 10"
    by (simp add: userCreatable_def fd) (simp add: mockClass_def isNullUuid_def)
  have du: "deviceIdUsed timerManager1 7"
    by (simp add: timerManager1_eval deviceIdUsed_def)
  have c: "\<exists>s'. addConfiguredDevice intOps timerManager1 10 [] 7 = Some (DeviceErrorDuplicateUuid, s')
        \<and> configuredDevices s' = configuredDevices timerManager1
        \<and> settings s' = settings timerManager1"
    using uc1 du C2_addConfiguredDevice [OF live1, of intOps 10 "[]" 7]
    by (auto simp: fd pt v0)
  have livef: "allLive failingSetupManager"
    by (simp add: allLive_def failingSetupManager_def DeviceManager_init_def)
  have ucf: "userCreatable failingSetupManager 10"
    by (simp add: userCreatable_def fd) (simp add: mockClass_def isNullUuid_def)
  have npf: "nextPtr failingSetupManager = 1" "configuredDevices failingSetupManager = []"
    "settings failingSetupManager = []"
    "devicePlugins failingSetupManager 30 = Some failingPlugin"
    "\<not> deviceIdUsed failingSetupManager 7"
    by (simp_all add: failingSetupManager_def DeviceManager_init_def deviceIdUsed_def)
  have d: "\<exists>s'. addConfiguredDevice intOps failingSetupManager 10 [] 7
               = Some (DeviceErrorSetupFailed, s')
        \<and> configuredDevices s' = [] \<and> settings s' = [] \<and> heap s' 1 = None"
    using ucf C2_addConfiguredDevice [OF livef, of intOps 10 "[]" 7]
    by (auto simp: fd pt v0 npf sp)
  show ?thesis using live a live0 b live1 du c livef d by blast
qed

subsection \<open>Adding a device from a descriptor\<close>

lemma addInternal_frame:
  assumes "addConfiguredDeviceInternal ops s cid params i = Some (err, s')"
  shows "supportedDevices s' = supportedDevices s \<and> discoveredDevices s' = discoveredDevices s"
proof -
  have fr: "supportedDevices s2 = supportedDevices s \<and> discoveredDevices s2 = discoveredDevices s"
    if "setupDevice (s\<lparr>heap := (heap s)(nextPtr s \<mapsto> dev), nextPtr := Suc (nextPtr s)\<rparr>) (nextPtr s) = Some (st, s2)" for dev st s2
    using setupDevice_frame [OF that] by simp
  show ?thesis using assms
    by (auto simp: addConfiguredDeviceInternal_def Let_def deleteDevice_def allocDevice_def
             split: if_splits option.splits prod.splits DeviceSetupStatus.splits
             dest!: fr storeConfiguredDevices_frame)
qed

lemma findDeviceClass_cong:
  "supportedDevices s' = supportedDevices s \<Longrightarrow> findDeviceClass s' cid = findDeviceClass s cid"
  by (simp add: findDeviceClass_def)


text \<open>
  C10 (as amended).  \<open>addConfiguredDevice(deviceClassId, deviceDescriptorId, deviceId)\<close>,
  called in a state whose configured devices are live objects, returns.  When the
  deviceClassId resolves to a valid DeviceClass that supports CreateMethodDiscovery, the
  descriptor is no longer in the discovery pool after the call, whatever its result, and
  a second call with the same deviceClassId and deviceDescriptorId returns
  DeviceDescriptorNotFound.  Otherwise the call returns DeviceClassNotFound (no valid
  DeviceClass) or CreationMethodNotSupported (no CreateMethodDiscovery) and the state,
  with the pool, is unchanged.
\<close>

theorem C10_descriptor_taken:
  assumes "allLive s"
  shows "\<exists>err s'. addConfiguredDevice_descriptor ops s cid did i = Some (err, s')
           \<and> (discoveryCreatable s cid
                \<longrightarrow> discoveredDevices s' did = None
                    \<and> addConfiguredDevice_descriptor ops s' cid did i2
                        = Some (DeviceErrorDeviceDescriptorNotFound, s'))
           \<and> (\<not> discoveryCreatable s cid
                \<longrightarrow> s' = s
                    \<and> err = (if \<not> dcValid (findDeviceClass s cid)
                             then DeviceErrorDeviceClassNotFound
                             else DeviceErrorCreationMethodNotSupported))"
proof (cases "discoveryCreatable s cid")
  case False
  then have "addConfiguredDevice_descriptor ops s cid did i
               = Some (if \<not> dcValid (findDeviceClass s cid)
                       then DeviceErrorDeviceClassNotFound
                       else DeviceErrorCreationMethodNotSupported, s)"
    by (auto simp: addConfiguredDevice_descriptor_def discoveryCreatable_def Let_def)
  then show ?thesis using False by simp
next
  case dc: True
  define s1 where "s1 = s\<lparr>discoveredDevices := (discoveredDevices s)(did := None)\<rparr>"
  have second: "addConfiguredDevice_descriptor ops s' cid did i2
               = Some (DeviceErrorDeviceDescriptorNotFound, s')"
    if "supportedDevices s' = supportedDevices s" and "discoveredDevices s' did = None" for s'
  proof -
    have "s'\<lparr>discoveredDevices := (discoveredDevices s')(did := None)\<rparr> = s'"
      using that(2) by (simp add: fun_upd_idem)
    then show ?thesis
      using dc that findDeviceClass_cong [OF that(1)]
      by (simp add: addConfiguredDevice_descriptor_def discoveryCreatable_def Let_def
                    discoveredDevices_value_def defaultDeviceDescriptor_def)
  qed
  show ?thesis
  proof (cases "ddValid (discoveredDevices_value s did)")
    case False
    then have "addConfiguredDevice_descriptor ops s cid did i
                 = Some (DeviceErrorDeviceDescriptorNotFound, s1)"
      using dc
      by (simp add: addConfiguredDevice_descriptor_def discoveryCreatable_def Let_def s1_def)
    moreover have "supportedDevices s1 = supportedDevices s" "discoveredDevices s1 did = None"
      by (simp_all add: s1_def)
    ultimately show ?thesis using second dc by simp
  next
    case True
    then have eq: "addConfiguredDevice_descriptor ops s cid did i
                 = addConfiguredDeviceInternal ops s1 cid (ddParams (discoveredDevices_value s did)) i"
      using dc
      by (simp add: addConfiguredDevice_descriptor_def discoveryCreatable_def Let_def s1_def)
    have "allLive s1" using assms(1) by (simp add: allLive_def s1_def)
    then obtain err s' where
      r: "addConfiguredDeviceInternal ops s1 cid (ddParams (discoveredDevices_value s did)) i = Some (err, s')"
      using addInternal_returns by blast
    have "supportedDevices s' = supportedDevices s" "discoveredDevices s' did = None"
      using addInternal_frame [OF r] by (simp_all add: s1_def)
    then show ?thesis using eq r second dc by simp
  qed
qed

theorem C10_witness:
  "allLive mockDiscovered \<and> discoveryCreatable mockDiscovered 10
   \<and> discoveredDevices mockDiscovered 41 = Some descriptorD1
   \<and> (\<exists>s'. addConfiguredDevice_descriptor intOps mockDiscovered 10 41 7
              = Some (DeviceErrorInvalidParameter, s')
        \<and> discoveredDevices s' 41 = None
        \<and> addConfiguredDevice_descriptor intOps s' 10 41 8
               = Some (DeviceErrorDeviceDescriptorNotFound, s'))
   \<and> allLive (pairingManager DeviceSetupStatusSuccess)
   \<and> discoveryCreatable (pairingManager DeviceSetupStatusSuccess) 11
   \<and> discoveredDevices (pairingManager DeviceSetupStatusSuccess) 42 = Some descriptorD2
   \<and> (\<exists>s'. addConfiguredDevice_descriptor intOps (pairingManager DeviceSetupStatusSuccess)
               11 42 7
              = Some (DeviceErrorCreationMethodNotSupported, s')
        \<and> discoveredDevices s' 42 = None
        \<and> addConfiguredDevice_descriptor intOps s' 11 42 8
               = Some (DeviceErrorDeviceDescriptorNotFound, s'))
   \<and> \<not> discoveryCreatable mockDiscovered 99
   \<and> addConfiguredDevice_descriptor intOps mockDiscovered 99 41 7
       = Some (DeviceErrorDeviceClassNotFound, mockDiscovered)"
proof -
  have live: "allLive mockDiscovered"
    by (simp add: allLive_def mockDiscovered_def mockManager_def DeviceManager_init_def)
  have dc: "discoveryCreatable mockDiscovered 10"
    by (simp add: discoveryCreatable_def mockClass_def)
  have pool: "discoveredDevices mockDiscovered 41 = Some descriptorD1"
    by (simp add: mockDiscovered_def)
  have r: "fst (the (addConfiguredDevice_descriptor intOps mockDiscovered 10 41 7))
             = DeviceErrorInvalidParameter"
    using verifyParams_n42
    by (simp add: addConfiguredDevice_descriptor_def addConfiguredDeviceInternal_def Let_def
                  discoveredDevices_value_def descriptorD1_def mockClass_def isNullUuid_def
                  requireAll_default_def findDeviceClass_def mockDiscovered_def mockManager_def
                  DeviceManager_init_def)
  have a: "\<exists>s'. addConfiguredDevice_descriptor intOps mockDiscovered 10 41 7
              = Some (DeviceErrorInvalidParameter, s')
        \<and> discoveredDevices s' 41 = None
        \<and> addConfiguredDevice_descriptor intOps s' 10 41 8
               = Some (DeviceErrorDeviceDescriptorNotFound, s')"
    using dc r C10_descriptor_taken [OF live, of intOps 10 41 7 8] by auto
  have fp: "findDeviceClass (pairingManager DeviceSetupStatusSuccess) 11 = pairClass"
    by (simp add: findDeviceClass_def pairingManager_def DeviceManager_init_def pairClass_def)
  have livep: "allLive (pairingManager DeviceSetupStatusSuccess)"
    by (simp add: allLive_def pairingManager_def DeviceManager_init_def)
  have dcp: "discoveryCreatable (pairingManager DeviceSetupStatusSuccess) 11"
    by (simp add: discoveryCreatable_def fp) (simp add: pairClass_def)
  have poolp: "discoveredDevices (pairingManager DeviceSetupStatusSuccess) 42 = Some descriptorD2"
    by (simp add: pairingManager_def)
  have rp: "fst (the (addConfiguredDevice_descriptor intOps
                        (pairingManager DeviceSetupStatusSuccess) 11 42 7))
             = DeviceErrorCreationMethodNotSupported"
    by (simp add: addConfiguredDevice_descriptor_def addConfiguredDeviceInternal_def Let_def
                  discoveredDevices_value_def descriptorD2_def pairClass_def isNullUuid_def
                  findDeviceClass_def pairingManager_def DeviceManager_init_def)
  have b: "\<exists>s'. addConfiguredDevice_descriptor intOps (pairingManager DeviceSetupStatusSuccess)
               11 42 7
              = Some (DeviceErrorCreationMethodNotSupported, s')
        \<and> discoveredDevices s' 42 = None
        \<and> addConfiguredDevice_descriptor intOps s' 11 42 8
               = Some (DeviceErrorDeviceDescriptorNotFound, s')"
    using dcp rp
      C10_descriptor_taken [OF livep, of intOps 11 42 7 8]
    by auto
  have f99: "findDeviceClass mockDiscovered 99 = defaultDeviceClass"
    by (simp add: findDeviceClass_def mockDiscovered_def mockManager_def
                  DeviceManager_init_def mockClass_def)
  have ndc: "\<not> discoveryCreatable mockDiscovered 99"
    by (simp add: discoveryCreatable_def f99 defaultDeviceClass_def)
  have c: "addConfiguredDevice_descriptor intOps mockDiscovered 99 41 7
       = Some (DeviceErrorDeviceClassNotFound, mockDiscovered)"
    using ndc C10_descriptor_taken [OF live, of intOps 99 41 7 8]
    by (auto simp: f99 defaultDeviceClass_def)
  show ?thesis using live dc pool a livep dcp poolp b ndc c by blast
qed

text \<open>
  C10 as stated fails when the class checks reject the call: with the unknown class id 99
  the call returns DeviceClassNotFound, the descriptor stays in the pool, and a second
  call does not return DeviceDescriptorNotFound.
\<close>

theorem C10_counterexample:
  "discoveredDevices mockDiscovered 41 = Some descriptorD1
   \<and> addConfiguredDevice_descriptor intOps mockDiscovered 99 41 7
       = Some (DeviceErrorDeviceClassNotFound, mockDiscovered)
   \<and> addConfiguredDevice_descriptor intOps mockDiscovered 99 41 8
       \<noteq> Some (DeviceErrorDeviceDescriptorNotFound, mockDiscovered)"
  by (simp add: addConfiguredDevice_descriptor_def findDeviceClass_def mockDiscovered_def
                mockManager_def DeviceManager_init_def mockClass_def defaultDeviceClass_def)

subsection \<open>Pairing\<close>

lemma pairDevice_recorded:
  "pairDevice (pairingManager status) 5 11 42 = (DeviceErrorNoError, pairingRecorded status)"
  by (simp add: pairDevice_def pairingManager_def pairingRecorded_def DeviceManager_init_def
                findDeviceClass_def pairClass_def isNullUuid_def)

text \<open>
  C3.  After a recorded pairing transaction, a pairing confirmation that the plugin
  answers with Success should issue a fresh DeviceId, report it with
  pairingFinished(tx, NoError, deviceId) and pass the device through setup, whether the
  answer is synchronous or comes later.  With the synchronous answer the code only
  forgets the transaction and returns NoError: no signal is emitted, no Device exists,
  nothing is configured, and a later pairingFinished of the plugin for this transaction
  is ignored.
\<close>

theorem C3_confirmPairing_sync_success_creates_nothing:
  "pairDevice (pairingManager DeviceSetupStatusSuccess) 5 11 42
     = (DeviceErrorNoError, pairingRecorded DeviceSetupStatusSuccess)
   \<and> confirmPairing (pairingRecorded DeviceSetupStatusSuccess) 5 ''1234''
     = (DeviceErrorNoError, pairingManager DeviceSetupStatusSuccess)
   \<and> emitted (pairingManager DeviceSetupStatusSuccess) = []
   \<and> heap (pairingManager DeviceSetupStatusSuccess) = Map.empty
   \<and> configuredDevices (pairingManager DeviceSetupStatusSuccess) = []
   \<and> slotPairingFinished (pairingManager DeviceSetupStatusSuccess) 5 DeviceSetupStatusSuccess 77
     = Some (pairingManager DeviceSetupStatusSuccess)"
  by (simp add: pairDevice_recorded)
     (simp add: confirmPairing_def slotPairingFinished_def pairingManager_def pairingRecorded_def
                DeviceManager_init_def supportedDevices_value_def pairClass_def pairPlugin_def
                discoveredDevices_value_def)

text \<open>The asynchronous path does what the synchronous one misses: the answer Async keeps
  the transaction, and the later Success emits pairingFinished(5, NoError, 77) and sets
  up and configures the device 77.\<close>

lemma slotPairingFinished_async_success_example:
  "confirmPairing (pairingRecorded DeviceSetupStatusAsync) 5 ''1234''
     = (DeviceErrorAsync, pairingRecorded DeviceSetupStatusAsync)
   \<and> (\<exists>s'. slotPairingFinished (pairingRecorded DeviceSetupStatusAsync) 5
               DeviceSetupStatusSuccess 77 = Some s'
          \<and> emitted s' = [SigPairingFinished 5 DeviceErrorNoError 77,
                           SigDeviceSetupFinished 1 DeviceErrorNoError]
          \<and> configuredDevices s' = [1]
          \<and> map_option deviceId (heap s' 1) = Some 77
          \<and> map_option setupComplete (heap s' 1) = Some True)"
  by (simp add: confirmPairing_def slotPairingFinished_def pairingManager_def pairingRecorded_def
                DeviceManager_init_def supportedDevices_value_def pairClass_def pairPlugin_def
                discoveredDevices_value_def takePairing_def findDeviceClass_def emit_def
                allocDevice_def setupDevice_def Device_new_def initialStates_def Let_def
                connectStateValueChanged_def storeConfiguredDevices_def descriptorD2_def)

lemma pairDevice_NoError:
  assumes "pairDevice s tx cid did = (DeviceErrorNoError, s1)"
  shows "s1 = s\<lparr>pairingsDiscovery := (pairingsDiscovery s)(tx \<mapsto> (cid, did))\<rparr>"
  using assms by (auto simp: pairDevice_def Let_def split: if_splits)

lemma confirmPairing_unknown:
  "pairingsJustAdd s tx = None \<Longrightarrow> pairingsDiscovery s tx = None \<Longrightarrow>
     confirmPairing s tx secret = (DeviceErrorPairingTransactionIdNotFound, s)"
  by (simp add: confirmPairing_def)

text \<open>
  C4 (as amended).  After a successful pairDevice(tx, classId, descriptorId), for a
  transaction id not among the just-add pairings and a loaded plugin of the class:
  when the plugin answers confirmPairing with Failure, confirmPairing returns SetupFailed
  and emits nothing; when the plugin answers Async and later reports Failure,
  pairingFinished(tx, SetupFailed) is emitted.  In both cases no device is created and a
  subsequent confirmPairing(tx, _) returns PairingTransactionIdNotFound.
\<close>

theorem C4_pairing_failure:
  assumes "pairDevice s tx cid did = (DeviceErrorNoError, s1)"
    and "pairingsJustAdd s tx = None"
    and "devicePlugins s (dcPluginId (supportedDevices_value s cid)) = Some plugin"
  shows "(pluginConfirmPairing plugin tx cid (ddParams (discoveredDevices_value s did))
            = DeviceSetupStatusFailure
          \<longrightarrow> (\<exists>s2. confirmPairing s1 tx secret = (DeviceErrorSetupFailed, s2)
                 \<and> emitted s2 = emitted s \<and> heap s2 = heap s
                 \<and> configuredDevices s2 = configuredDevices s
                 \<and> fst (confirmPairing s2 tx secret') = DeviceErrorPairingTransactionIdNotFound))
       \<and> (pluginConfirmPairing plugin tx cid (ddParams (discoveredDevices_value s did))
            = DeviceSetupStatusAsync
          \<longrightarrow> confirmPairing s1 tx secret = (DeviceErrorAsync, s1)
              \<and> (\<exists>s3. slotPairingFinished s1 tx DeviceSetupStatusFailure newId = Some s3
                 \<and> emitted s3 = emitted s @ [SigPairingFinished tx DeviceErrorSetupFailed 0]
                 \<and> heap s3 = heap s \<and> configuredDevices s3 = configuredDevices s
                 \<and> fst (confirmPairing s3 tx secret') = DeviceErrorPairingTransactionIdNotFound))"
proof -
  have s1: "s1 = s\<lparr>pairingsDiscovery := (pairingsDiscovery s)(tx \<mapsto> (cid, did))\<rparr>"
    using pairDevice_NoError [OF assms(1)] .
  have sync: "\<exists>s2. confirmPairing s1 tx secret = (DeviceErrorSetupFailed, s2)
                 \<and> emitted s2 = emitted s \<and> heap s2 = heap s
                 \<and> configuredDevices s2 = configuredDevices s
                 \<and> fst (confirmPairing s2 tx secret') = DeviceErrorPairingTransactionIdNotFound"
    if "pluginConfirmPairing plugin tx cid (ddParams (discoveredDevices_value s did))
            = DeviceSetupStatusFailure"
    using that assms(2,3)
    by (simp add: s1 confirmPairing_def supportedDevices_value_def discoveredDevices_value_def)
  have async1: "confirmPairing s1 tx secret = (DeviceErrorAsync, s1)"
    if "pluginConfirmPairing plugin tx cid (ddParams (discoveredDevices_value s did))
            = DeviceSetupStatusAsync"
    using that assms(2,3)
    by (simp add: s1 confirmPairing_def supportedDevices_value_def discoveredDevices_value_def)
  have async2: "\<exists>s3. slotPairingFinished s1 tx DeviceSetupStatusFailure newId = Some s3
                 \<and> emitted s3 = emitted s @ [SigPairingFinished tx DeviceErrorSetupFailed 0]
                 \<and> heap s3 = heap s \<and> configuredDevices s3 = configuredDevices s
                 \<and> fst (confirmPairing s3 tx secret') = DeviceErrorPairingTransactionIdNotFound"
    using assms(2)
    by (simp add: s1 slotPairingFinished_def takePairing_def emit_def confirmPairing_def)
  show ?thesis using sync async1 async2 by blast
qed

theorem C4_witness:
  "pairDevice (pairingManager DeviceSetupStatusFailure) 5 11 42
     = (DeviceErrorNoError, pairingRecorded DeviceSetupStatusFailure)
   \<and> (\<exists>s2. confirmPairing (pairingRecorded DeviceSetupStatusFailure) 5 ''bad''
             = (DeviceErrorSetupFailed, s2)
        \<and> emitted s2 = [] \<and> configuredDevices s2 = []
        \<and> fst (confirmPairing s2 5 ''bad'') = DeviceErrorPairingTransactionIdNotFound)
   \<and> pairDevice (pairingManager DeviceSetupStatusAsync) 5 11 42
     = (DeviceErrorNoError, pairingRecorded DeviceSetupStatusAsync)
   \<and> confirmPairing (pairingRecorded DeviceSetupStatusAsync) 5 ''bad''
     = (DeviceErrorAsync, pairingRecorded DeviceSetupStatusAsync)
   \<and> (\<exists>s3. slotPairingFinished (pairingRecorded DeviceSetupStatusAsync) 5
               DeviceSetupStatusFailure 77 = Some s3
        \<and> emitted s3 = [SigPairingFinished 5 DeviceErrorSetupFailed 0]
        \<and> configuredDevices s3 = []
        \<and> fst (confirmPairing s3 5 ''bad'') = DeviceErrorPairingTransactionIdNotFound)"
proof -
  have ja: "pairingsJustAdd (pairingManager st) 5 = None" for st
    by (simp add: pairingManager_def DeviceManager_init_def)
  have pl: "devicePlugins (pairingManager st) (dcPluginId (supportedDevices_value (pairingManager st) 11))
              = Some (pairPlugin st)" for st
    by (simp add: pairingManager_def DeviceManager_init_def supportedDevices_value_def pairClass_def)
  have ev: "emitted (pairingManager st) = []" "configuredDevices (pairingManager st) = []" for st
    by (simp_all add: pairingManager_def DeviceManager_init_def)
  have cp: "pluginConfirmPairing (pairPlugin st) a b c = st" for st a b c
    by (simp add: pairPlugin_def)
  show ?thesis
    using C4_pairing_failure [OF pairDevice_recorded ja pl, of DeviceSetupStatusFailure "''bad''" "''bad''" 77]
          C4_pairing_failure [OF pairDevice_recorded ja pl, of DeviceSetupStatusAsync "''bad''" "''bad''" 77]
    by (auto simp add: pairDevice_recorded ev cp)
qed

text \<open>
  C4 as stated fails for the synchronous answer: after pairDevice and a confirmPairing
  that the plugin answers with Failure, no signal at all has been emitted.
\<close>

theorem C4_counterexample:
  "pairDevice (pairingManager DeviceSetupStatusFailure) 5 11 42
     = (DeviceErrorNoError, pairingRecorded DeviceSetupStatusFailure)
   \<and> confirmPairing (pairingRecorded DeviceSetupStatusFailure) 5 ''bad''
     = (DeviceErrorSetupFailed, pairingManager DeviceSetupStatusFailure)
   \<and> emitted (pairingManager DeviceSetupStatusFailure) = []"
  by (simp add: pairDevice_recorded)
     (simp add: confirmPairing_def pairingManager_def pairingRecorded_def
                DeviceManager_init_def supportedDevices_value_def pairClass_def pairPlugin_def
                discoveredDevices_value_def)

subsection \<open>Timer ticks\<close>

lemma timerEvent_loop_count:
  assumes "list_all (\<lambda>ptr. heap s ptr \<noteq> None) ptrs"
  shows "\<exists>calls. timerEvent_loop s ptrs = Some calls
           \<and> (\<forall>pluginId. count_list calls (GuhTimer pluginId)
                 = (if requiresHardware s pluginId HardwareResourceTimer
                    then length (filter (\<lambda>ptr. ownerPlugin s ptr = Some pluginId) ptrs)
                    else 0))
           \<and> (\<forall>c \<in> set calls. \<exists>pluginId. c = GuhTimer pluginId)"
  using assms
proof (induction ptrs)
  case Nil
  then show ?case by simp
next
  case (Cons ptr ptrs)
  then obtain calls where
    c: "timerEvent_loop s ptrs = Some calls"
       "\<forall>pluginId. count_list calls (GuhTimer pluginId)
                 = (if requiresHardware s pluginId HardwareResourceTimer
                    then length (filter (\<lambda>ptr. ownerPlugin s ptr = Some pluginId) ptrs)
                    else 0)"
       "\<forall>c \<in> set calls. \<exists>pluginId. c = GuhTimer pluginId"
    by auto
  from Cons.prems obtain device where d: "heap s ptr = Some device" by auto
  show ?case using c d
    by (auto simp: Let_def requiresHardware_def ownerPlugin_def split: option.splits)
qed

text \<open>
  C7 (as amended).  On a timer tick, in a state whose configured devices are live
  objects, \<open>timerEvent\<close> calls guhTimer, and nothing else, on exactly the loaded plugins
  that require the Timer resource and own at least one configured device (a device whose
  DeviceClass belongs to the plugin); a plugin that owns exactly one configured device
  is called exactly once.
\<close>

theorem C7_timerEvent:
  assumes "allLive s"
  shows "\<exists>calls. timerEvent s = Some calls
           \<and> (\<forall>pluginId. (GuhTimer pluginId \<in> set calls)
                 = (requiresHardware s pluginId HardwareResourceTimer
                    \<and> devicesOfPlugin s pluginId \<noteq> []))
           \<and> (\<forall>pluginId. requiresHardware s pluginId HardwareResourceTimer
                 \<and> length (devicesOfPlugin s pluginId) = 1
                 \<longrightarrow> count_list calls (GuhTimer pluginId) = 1)
           \<and> (\<forall>c \<in> set calls. \<exists>pluginId. c = GuhTimer pluginId)"
proof -
  obtain calls where
    c: "timerEvent s = Some calls"
       "\<forall>pluginId. count_list calls (GuhTimer pluginId)
                 = (if requiresHardware s pluginId HardwareResourceTimer
                    then length (devicesOfPlugin s pluginId) else 0)"
       "\<forall>c \<in> set calls. \<exists>pluginId. c = GuhTimer pluginId"
    using timerEvent_loop_count [of s "configuredDevices s"] assms
    unfolding allLive_def timerEvent_def devicesOfPlugin_def by blast
  have "(GuhTimer pluginId \<in> set calls)
          = (requiresHardware s pluginId HardwareResourceTimer \<and> devicesOfPlugin s pluginId \<noteq> [])"
    for pluginId
    using c(2) [rule_format, of pluginId] count_list_0_iff [of calls "GuhTimer pluginId"]
    by (auto split: if_splits)
  then show ?thesis using c by auto
qed

lemma timerEvent_timerManager1:
  "timerEvent timerManager1 = Some [GuhTimer 30]"
  by (simp add: timerManager1_eval timerEvent_def timerManager0_def DeviceManager_init_def
                supportedDevices_value_def mockClass_def mockPlugin_def)

theorem C7_witness:
  "allLive timerManager1
   \<and> requiresHardware timerManager1 30 HardwareResourceTimer
   \<and> length (devicesOfPlugin timerManager1 30) = 1
   \<and> (\<exists>calls. timerEvent timerManager1 = Some calls
         \<and> GuhTimer 30 \<in> set calls \<and> count_list calls (GuhTimer 30) = 1
         \<and> GuhTimer 32 \<notin> set calls)"
proof -
  have live: "allLive timerManager1"
    by (simp add: allLive_def timerManager1_eval)
  have r: "requiresHardware timerManager1 30 HardwareResourceTimer"
    by (simp add: requiresHardware_def timerManager1_eval timerManager0_def
                  DeviceManager_init_def mockPlugin_def)
  have d: "devicesOfPlugin timerManager1 30 = [1]" "devicesOfPlugin timerManager1 32 = []"
    by (simp_all add: devicesOfPlugin_def ownerPlugin_def timerManager1_eval timerManager0_def
                      DeviceManager_init_def supportedDevices_value_def mockClass_def)
  show ?thesis
    using live r d C7_timerEvent [OF live]
    by auto
qed

text \<open>
  C7 as stated fails: plugin 32 is loaded and requires the Timer resource, the timer runs
  because plugin 30 has a device, and the tick calls guhTimer on plugin 30 only; plugin
  32, which owns no configured device, is not called.
\<close>

theorem C7_counterexample:
  "requiresHardware timerManager1 32 HardwareResourceTimer
   \<and> pluginTimerActive timerManager1
   \<and> timerEvent timerManager1 = Some [GuhTimer 30]
   \<and> count_list [GuhTimer 30] (GuhTimer 32) = 0"
  by (simp add: timerEvent_timerManager1)
     (simp add: requiresHardware_def timerManager1_eval timerManager0_def
                DeviceManager_init_def mockPlugin_def)

text \<open>With two configured devices of plugin 30, one tick calls guhTimer on it twice.\<close>

lemma timerEvent_two_devices_example:
  "configuredDevices timerManager2 = [1, 2]
   \<and> timerEvent timerManager2 = Some [GuhTimer 30, GuhTimer 30]"
  by (simp add: timerManager2_def timerManager1_eval stateAfter_def timerManager0_def
                DeviceManager_init_def
                addConfiguredDevice_def addConfiguredDeviceInternal_def findDeviceClass_def
                mockClass_def mockPlugin_def isNullUuid_def requireAll_default_def
                verifyParams_def paramTypeN_def isNull_def allocDevice_def Device_new_def
                setupDevice_def initialStates_def timerRegister_def
                connectStateValueChanged_def storeConfiguredDevices_def storeDevice_def
                Let_def timerEvent_def supportedDevices_value_def)

subsection \<open>Radio frames\<close>

lemma radio433_configured_targets:
  assumes "list_all (\<lambda>ptr. case ownerPlugin s ptr of
                         None \<Rightarrow> False
                       | Some pluginId \<Rightarrow> devicePlugins s pluginId \<noteq> None) ptrs"
    and "distinct acc"
  shows "\<exists>targets. radio433_configured s ptrs acc = Some targets \<and> distinct targets
           \<and> set targets = set acc \<union>
                {pluginId. requiresHardware s pluginId HardwareResourceRadio433
                           \<and> (\<exists>ptr \<in> set ptrs. ownerPlugin s ptr = Some pluginId)}"
  using assms
proof (induction ptrs arbitrary: acc)
  case Nil
  then show ?case by simp
next
  case (Cons ptr ptrs)
  from Cons.prems(1) obtain device plugin where
    d: "heap s ptr = Some device"
       "devicePlugins s (dcPluginId (supportedDevices_value s (deviceClassId device))) = Some plugin"
    by (auto simp: ownerPlugin_def split: option.splits)
  let ?pid = "dcPluginId (supportedDevices_value s (deviceClassId device))"
  let ?acc = "if HardwareResourceRadio433 \<in> requiredHardware plugin \<and> ?pid \<notin> set acc
              then acc @ [?pid] else acc"
  have step: "radio433_configured s (ptr # ptrs) acc = radio433_configured s ptrs ?acc"
    using d by (simp add: Let_def)
  have "distinct ?acc" using Cons.prems(2) by simp
  from Cons.IH [OF _ this] Cons.prems(1) obtain targets where
    t: "radio433_configured s ptrs ?acc = Some targets" "distinct targets"
       "set targets = set ?acc \<union>
                {pluginId. requiresHardware s pluginId HardwareResourceRadio433
                           \<and> (\<exists>ptr \<in> set ptrs. ownerPlugin s ptr = Some pluginId)}"
    by auto
  have o: "ownerPlugin s ptr = Some ?pid" using d by (simp add: ownerPlugin_def)
  have "set targets = set acc \<union>
                {pluginId. requiresHardware s pluginId HardwareResourceRadio433
                           \<and> (\<exists>p \<in> set (ptr # ptrs). ownerPlugin s p = Some pluginId)}"
    unfolding t(3) using o d(2) by (auto simp: requiresHardware_def)
  then show ?case using step t(1,2) by simp
qed

lemma radio433_discovering_targets:
  assumes "list_all (\<lambda>pluginId. devicePlugins s pluginId \<noteq> None) pids"
    and "distinct acc"
  shows "\<exists>targets. radio433_discovering s pids acc = Some targets \<and> distinct targets
           \<and> set targets = set acc \<union>
                {pluginId. requiresHardware s pluginId HardwareResourceRadio433
                           \<and> pluginId \<in> set pids}"
  using assms
proof (induction pids arbitrary: acc)
  case Nil
  then show ?case by simp
next
  case (Cons pid pids)
  from Cons.prems(1) obtain plugin where d: "devicePlugins s pid = Some plugin" by auto
  let ?acc = "if HardwareResourceRadio433 \<in> requiredHardware plugin \<and> pid \<notin> set acc
              then acc @ [pid] else acc"
  have step: "radio433_discovering s (pid # pids) acc = radio433_discovering s pids ?acc"
    using d by simp
  have "distinct ?acc" using Cons.prems(2) by simp
  from Cons.IH [OF _ this] Cons.prems(1) obtain targets where
    t: "radio433_discovering s pids ?acc = Some targets" "distinct targets"
       "set targets = set ?acc \<union>
                {pluginId. requiresHardware s pluginId HardwareResourceRadio433
                           \<and> pluginId \<in> set pids}"
    by auto
  have "set targets = set acc \<union>
                {pluginId. requiresHardware s pluginId HardwareResourceRadio433
                           \<and> pluginId \<in> set (pid # pids)}"
    unfolding t(3) using d by (auto simp: requiresHardware_def)
  then show ?case using step t(1,2) by simp
qed

text \<open>When no plugin pointer is null, the frame goes exactly once to each interested
  plugin and to no other.\<close>

lemma radio433SignalReceived_fanout:
  assumes "pluginsResolved s"
  shows "\<exists>targets. radio433SignalReceived s rawData
                      = Some (map (\<lambda>pluginId. RadioData pluginId rawData) targets)
           \<and> distinct targets
           \<and> set targets =
                {pluginId. requiresHardware s pluginId HardwareResourceRadio433
                           \<and> (devicesOfPlugin s pluginId \<noteq> []
                               \<or> pluginId \<in> set (discoveringPlugins s))}"
proof -
  from assms obtain t1 where
    t1: "radio433_configured s (configuredDevices s) [] = Some t1" "distinct t1"
        "set t1 = {pluginId. requiresHardware s pluginId HardwareResourceRadio433
                     \<and> (\<exists>ptr \<in> set (configuredDevices s). ownerPlugin s ptr = Some pluginId)}"
    using radio433_configured_targets [of s "configuredDevices s" "[]"]
    by (auto simp: pluginsResolved_def)
  from assms t1(2) obtain t2 where
    t2: "radio433_discovering s (discoveringPlugins s) t1 = Some t2" "distinct t2"
        "set t2 = set t1 \<union> {pluginId. requiresHardware s pluginId HardwareResourceRadio433
                     \<and> pluginId \<in> set (discoveringPlugins s)}"
    using radio433_discovering_targets [of s "discoveringPlugins s" t1]
    by (auto simp: pluginsResolved_def)
  have "set t2 = {pluginId. requiresHardware s pluginId HardwareResourceRadio433
                           \<and> (devicesOfPlugin s pluginId \<noteq> []
                               \<or> pluginId \<in> set (discoveringPlugins s))}"
    unfolding t2(3) t1(3) by (auto simp: devicesOfPlugin_def filter_empty_conv)
  moreover have "radio433SignalReceived s rawData
                   = Some (map (\<lambda>pluginId. RadioData pluginId rawData) t2)"
    using t1(1) t2(1) by (simp add: radio433SignalReceived_def)
  ultimately show ?thesis using t2(2) by blast
qed

text \<open>
  C8.  A raw 433 MHz frame should reach, exactly once, every plugin that requires
  Radio433 and owns a configured device or is discovering, and no other plugin.  After
  loading the stored devices 7 (its class 99 and plugin 39 are not installed) and 8
  (class 10 of the radio plugin 30), both are configured and plugin 30 is interested;
  \<open>radio433SignalReceived\<close> dereferences the null plugin pointer of device 7 and delivers
  nothing, whereas \<open>timerEvent\<close>, which tests the pointer, returns.
\<close>

theorem C8_radio433_stale_device_crash:
  "\<exists>s1. loadConfiguredDevices staleManager = Some s1
      \<and> configuredDevices s1 = [1, 2]
      \<and> map_option deviceClassId (heap s1 1) = Some 99
      \<and> devicesOfPlugin s1 30 = [2]
      \<and> requiresHardware s1 30 HardwareResourceRadio433
      \<and> radio433SignalReceived s1 [320, 960, 320, 960] = None
      \<and> timerEvent s1 = Some []"
  by (simp add: loadConfiguredDevices_def staleManager_def DeviceManager_init_def
                allocDevice_def Device_new_def storedParams_def setupDevice_def
                findDeviceClass_def defaultDeviceClass_def mockClass_def radioPlugin_def
                mockPlugin_def initialStates_def connectStateValueChanged_def Let_def
                devicesOfPlugin_def ownerPlugin_def supportedDevices_value_def
                requiresHardware_def radio433SignalReceived_def timerEvent_def)

subsection \<open>The timer invariant over all runs\<close>

lemma requiresHardware_cong:
  "devicePlugins s' = devicePlugins s \<Longrightarrow> requiresHardware s' = requiresHardware s"
  by (intro ext) (simp add: requiresHardware_def)

lemma findDeviceClass_eq:
  "supportedDevices s' = supportedDevices s \<Longrightarrow> findDeviceClass s' = findDeviceClass s"
  by (intro ext) (simp add: findDeviceClass_def)

lemma setupDone_cong:
  "heap s' = heap s \<Longrightarrow> setupDone s' = setupDone s"
  by (intro ext) (simp add: setupDone_def)

lemma classPluginTimer_cong:
  assumes "heap s' = heap s" "supportedDevices s' = supportedDevices s"
    "devicePlugins s' = devicePlugins s"
  shows "classPluginTimer s' = classPluginTimer s"
  unfolding classPluginTimer_def assms(1)
    requiresHardware_cong [OF assms(3)] findDeviceClass_eq [OF assms(2)] ..

lemma devicePluginTimer_cong:
  assumes "heap s' = heap s" "devicePlugins s' = devicePlugins s"
  shows "devicePluginTimer s' = devicePluginTimer s"
  unfolding devicePluginTimer_def assms(1) requiresHardware_cong [OF assms(2)] ..

lemma timerInv_sameCore:
  assumes "sameCore s s'"
  shows "timerInv s' = timerInv s"
proof -
  have e: "supportedDevices s' = supportedDevices s" "devicePlugins s' = devicePlugins s"
    "heap s' = heap s" "configuredDevices s' = configuredDevices s"
    "pluginTimerUsers s' = pluginTimerUsers s"
    "pluginTimerInterval s' = pluginTimerInterval s"
    "pluginTimerActive s' = pluginTimerActive s"
    using assms by (simp_all add: sameCore_def)
  show ?thesis
    unfolding timerInv_def e(4-7) setupDone_cong [OF e(3)]
      classPluginTimer_cong [OF e(3) e(1) e(2)] devicePluginTimer_cong [OF e(3) e(2)] ..
qed

lemma ptrsFresh_sameCore:
  "sameCore s s' \<Longrightarrow> ptrsFresh s' = ptrsFresh s"
  by (simp add: sameCore_def ptrsFresh_def)

lemma setupDevice_effect:
  assumes "setupDevice s ptr = Some (st, s')" and "heap s ptr = Some d"
  shows "supportedDevices s' = supportedDevices s \<and> devicePlugins s' = devicePlugins s
       \<and> nextPtr s' = nextPtr s \<and> configuredDevices s' = configuredDevices s
       \<and> pluginTimerInterval s' = pluginTimerInterval s
       \<and> (\<exists>d'. heap s' = (heap s)(ptr \<mapsto> d') \<and> deviceClassId d' = deviceClassId d
              \<and> devicePluginId d' = devicePluginId d
              \<and> setupComplete d' = (st = DeviceSetupStatusSuccess \<or> setupComplete d))
       \<and> (if st = DeviceSetupStatusSuccess
              \<and> requiresHardware s (dcPluginId (findDeviceClass s (deviceClassId d)))
                   HardwareResourceTimer
           then pluginTimerUsers s' = pluginTimerUsers s @ [ptr] \<and> pluginTimerActive s'
                \<and> pendingTimerShots s'
                    = pendingTimerShots s + (if pluginTimerActive s then 0 else 1)
           else pluginTimerUsers s' = pluginTimerUsers s
                \<and> pluginTimerActive s' = pluginTimerActive s
                \<and> pendingTimerShots s' = pendingTimerShots s)"
proof (cases "devicePlugins s (dcPluginId (findDeviceClass s (deviceClassId d)))")
  case None
  then have "st = DeviceSetupStatusFailure" "s' = s"
    using assms by (auto simp: setupDevice_def Let_def)
  then show ?thesis using assms(2) None
    by (auto simp: requiresHardware_def fun_upd_idem_iff intro!: exI [of _ d])
next
  case (Some plugin)
  show ?thesis
  proof (cases "st = DeviceSetupStatusSuccess")
    case False
    then show ?thesis using assms Some
      by (auto simp: setupDevice_def Let_def requiresHardware_def split: if_splits)
  next
    case True
    then show ?thesis using assms Some
      by (auto simp: setupDevice_def Let_def requiresHardware_def timerRegister_def
                     connectStateValueChanged_def split: if_splits)
  qed
qed


lemma ptr_preds_other:
  assumes "heap s' p = heap s p" "supportedDevices s' = supportedDevices s"
    "devicePlugins s' = devicePlugins s"
  shows "setupDone s' p = setupDone s p \<and> classPluginTimer s' p = classPluginTimer s p
       \<and> devicePluginTimer s' p = devicePluginTimer s p"
  unfolding setupDone_def classPluginTimer_def devicePluginTimer_def assms(1)
    requiresHardware_cong [OF assms(3)] findDeviceClass_eq [OF assms(2)] by simp

lemma timerInv_extend:
  assumes inv: "timerInv s"
    and nu: "ptr \<notin> set (pluginTimerUsers s)"
    and iv: "pluginTimerInterval s' = pluginTimerInterval s"
    and cf: "configuredDevices s' = configuredDevices s @ [ptr]
             \<or> configuredDevices s' = configuredDevices s"
    and other: "\<And>p. p \<noteq> ptr \<Longrightarrow> setupDone s' p = setupDone s p
                  \<and> classPluginTimer s' p = classPluginTimer s p
                  \<and> devicePluginTimer s' p = devicePluginTimer s p"
    and users: "(pluginTimerUsers s' = pluginTimerUsers s @ [ptr] \<and> pluginTimerActive s'
                 \<and> ptr \<in> set (configuredDevices s') \<and> setupDone s' ptr
                 \<and> (classPluginTimer s' ptr \<or> devicePluginTimer s' ptr))
              \<or> (pluginTimerUsers s' = pluginTimerUsers s
                 \<and> pluginTimerActive s' = pluginTimerActive s
                 \<and> (ptr \<in> set (configuredDevices s')
                      \<longrightarrow> \<not> (setupDone s' ptr \<and> classPluginTimer s' ptr
                               \<and> devicePluginTimer s' ptr)))"
  shows "timerInv s'"
proof -
  have i1: "pluginTimerInterval s' = 15000" using inv iv by (simp add: timerInv_def)
  have i2: "pluginTimerActive s' = (pluginTimerUsers s' \<noteq> [])"
    using inv users by (auto simp: timerInv_def)
  have old: "p \<in> set (configuredDevices s) \<and> setupDone s p
             \<and> (classPluginTimer s p \<or> devicePluginTimer s p)"
    if "p \<in> set (pluginTimerUsers s)" for p
    using inv that unfolding timerInv_def by blast
  have old2: "p \<in> set (pluginTimerUsers s)"
    if "p \<in> set (configuredDevices s)" "setupDone s p" "classPluginTimer s p"
       "devicePluginTimer s p" for p
    using inv that unfolding timerInv_def by blast
  have sub: "set (configuredDevices s) \<subseteq> set (configuredDevices s')"
    and sup: "set (configuredDevices s') \<subseteq> insert ptr (set (configuredDevices s))"
    using cf by auto
  have usub: "set (pluginTimerUsers s) \<subseteq> set (pluginTimerUsers s')"
    and usup: "set (pluginTimerUsers s') \<subseteq> insert ptr (set (pluginTimerUsers s))"
    using users by auto
  have i3: "p \<in> set (configuredDevices s') \<and> setupDone s' p
             \<and> (classPluginTimer s' p \<or> devicePluginTimer s' p)"
    if "p \<in> set (pluginTimerUsers s')" for p
  proof (cases "p \<in> set (pluginTimerUsers s)")
    case True
    then have "p \<noteq> ptr" using nu by auto
    then show ?thesis using old [OF True] other [of p] sub by auto
  next
    case False
    then have "p = ptr" "pluginTimerUsers s' \<noteq> pluginTimerUsers s" using that usup by auto
    then show ?thesis using users by auto
  qed
  have i4: "p \<in> set (pluginTimerUsers s')"
    if "p \<in> set (configuredDevices s')" "setupDone s' p" "classPluginTimer s' p"
       "devicePluginTimer s' p" for p
  proof (cases "p = ptr")
    case True
    then show ?thesis using that users by auto
  next
    case False
    then have "p \<in> set (configuredDevices s)" using that(1) sup by auto
    then have "p \<in> set (pluginTimerUsers s)"
      using old2 [of p] other [OF False] that by auto
    then show ?thesis using usub by auto
  qed
  show ?thesis unfolding timerInv_def using i1 i2 i3 i4 by blast
qed


lemma allLive_sameCore:
  "sameCore s s' \<Longrightarrow> allLive s' = allLive s"
  by (simp add: sameCore_def allLive_def)

lemma connInv_sameCore:
  "sameCore s s' \<Longrightarrow> connInv s' = connInv s"
  by (simp add: sameCore_def connInv_def setupDone_def)

lemma Inv0_sameCore:
  assumes "sameCore s s'"
  shows "Inv0 s' = Inv0 s"
proof -
  have "deleteLaterQueue s' = deleteLaterQueue s" using assms by (simp add: sameCore_def)
  then show ?thesis
    using assms
    by (simp add: Inv0_def timerInv_sameCore ptrsFresh_sameCore allLive_sameCore
                  connInv_sameCore)
qed

lemma count_list_removeAll:
  "count_list (removeAll x xs) p = (if p = x then 0 else count_list xs p)"
  by (induction xs) auto

lemma timerUsers_fresh:
  assumes "Inv0 s"
  shows "nextPtr s \<notin> set (pluginTimerUsers s)" "nextPtr s \<notin> set (configuredDevices s)"
    "heap s (nextPtr s) = None"
proof -
  show c: "nextPtr s \<notin> set (configuredDevices s)"
    using assms by (auto simp: Inv0_def ptrsFresh_def)
  show "nextPtr s \<notin> set (pluginTimerUsers s)"
    using assms c by (auto simp: Inv0_def timerInv_def)
  show "heap s (nextPtr s) = None"
    using assms by (auto simp: Inv0_def ptrsFresh_def)
qed

lemma setupDevice_fields:
  assumes "setupDevice s ptr = Some (st, s')"
  shows "supportedDevices s' = supportedDevices s" "devicePlugins s' = devicePlugins s"
    "nextPtr s' = nextPtr s" "configuredDevices s' = configuredDevices s"
    "pluginTimerInterval s' = pluginTimerInterval s"
    "deleteLaterQueue s' = deleteLaterQueue s" "settings s' = settings s"
  using assms
  by (auto simp: setupDevice_def Let_def timerRegister_def connectStateValueChanged_def
           split: option.splits if_splits)

lemma setupDevice_conns:
  assumes "setupDevice s ptr = Some (st, s')"
  shows "stateConnections s' =
           (if st = DeviceSetupStatusSuccess then stateConnections s @ [ptr]
            else stateConnections s)"
  using assms
  by (auto simp: setupDevice_def Let_def timerRegister_def connectStateValueChanged_def
           split: option.splits if_splits)

lemma setupDevice_heap_upd:
  assumes "setupDevice s ptr = Some (st, s')" and "heap s ptr = Some d"
  shows "\<exists>d'. heap s' = (heap s)(ptr \<mapsto> d') \<and> deviceClassId d' = deviceClassId d
              \<and> devicePluginId d' = devicePluginId d
              \<and> setupComplete d' = (st = DeviceSetupStatusSuccess \<or> setupComplete d)"
  using setupDevice_effect [OF assms] by blast

lemma setupDevice_timer_reg:
  assumes "setupDevice s ptr = Some (st, s')" and "heap s ptr = Some d"
    and "st = DeviceSetupStatusSuccess"
    and "requiresHardware s (dcPluginId (findDeviceClass s (deviceClassId d)))
                   HardwareResourceTimer"
  shows "pluginTimerUsers s' = pluginTimerUsers s @ [ptr]" "pluginTimerActive s'"
    "pendingTimerShots s' = pendingTimerShots s + (if pluginTimerActive s then 0 else 1)"
  using setupDevice_effect [OF assms(1,2)] assms(3,4) by simp_all

lemma setupDevice_timer_noreg:
  assumes "setupDevice s ptr = Some (st, s')" and "heap s ptr = Some d"
    and "\<not> (st = DeviceSetupStatusSuccess
           \<and> requiresHardware s (dcPluginId (findDeviceClass s (deviceClassId d)))
                   HardwareResourceTimer)"
  shows "pluginTimerUsers s' = pluginTimerUsers s" "pluginTimerActive s' = pluginTimerActive s"
    "pendingTimerShots s' = pendingTimerShots s"
  using setupDevice_effect [OF assms(1,2)] assms(3) by simp_all


lemma fresh_setup:
  assumes inv: "Inv0 s" and nc: "\<not> setupComplete dev"
    and s1: "s1 = s\<lparr>heap := (heap s)(nextPtr s \<mapsto> dev), nextPtr := Suc (nextPtr s)\<rparr>"
    and su: "setupDevice s1 (nextPtr s) = Some (st, s2)"
    and tgt: "supportedDevices t = supportedDevices s2" "devicePlugins t = devicePlugins s2"
      "nextPtr t = nextPtr s2" "pluginTimerUsers t = pluginTimerUsers s2"
      "pluginTimerInterval t = pluginTimerInterval s2"
      "pluginTimerActive t = pluginTimerActive s2"
      "deleteLaterQueue t = deleteLaterQueue s2"
    and conns: "stateConnections t = stateConnections s2
              \<or> (stateConnections t = removeAll (nextPtr s) (stateConnections s2)
                  \<and> heap t (nextPtr s) = None)"
    and cases: "(heap t = heap s2 \<and> configuredDevices t = configuredDevices s2 @ [nextPtr s])
              \<or> (st \<noteq> DeviceSetupStatusSuccess \<and> heap t = heap s2
                  \<and> configuredDevices t = configuredDevices s2)
              \<or> (st \<noteq> DeviceSetupStatusSuccess \<and> heap t = (heap s2)(nextPtr s := None)
                  \<and> configuredDevices t = configuredDevices s2)"
  shows "Inv0 t"
proof -
  define ptr where "ptr = nextPtr s"
  have h1: "heap s1 ptr = Some dev" by (simp add: s1 ptr_def)
  have su': "setupDevice s1 ptr = Some (st, s2)" using su by (simp add: ptr_def)
  have s1f: "supportedDevices s1 = supportedDevices s" "devicePlugins s1 = devicePlugins s"
    "configuredDevices s1 = configuredDevices s" "pluginTimerUsers s1 = pluginTimerUsers s"
    "pluginTimerInterval s1 = pluginTimerInterval s" "pluginTimerActive s1 = pluginTimerActive s"
    "nextPtr s1 = Suc ptr"
    by (simp_all add: s1 ptr_def)
  have s1h: "heap s1 p = heap s p" if "p \<noteq> ptr" for p using that by (simp add: s1 ptr_def)
  obtain d' where
    d': "heap s2 = (heap s1)(ptr \<mapsto> d')" "deviceClassId d' = deviceClassId dev"
        "devicePluginId d' = devicePluginId dev"
        "setupComplete d' = (st = DeviceSetupStatusSuccess)"
    using setupDevice_heap_upd [OF su' h1] nc by blast
  note f2 = setupDevice_fields [OF su']
  have rq: "requiresHardware s1 = requiresHardware s" "findDeviceClass s1 = findDeviceClass s"
    using requiresHardware_cong [OF s1f(2)] findDeviceClass_eq [OF s1f(1)] by simp_all
  have tq: "requiresHardware t = requiresHardware s" "findDeviceClass t = findDeviceClass s"
  proof -
    have "devicePlugins t = devicePlugins s" using tgt(2) f2(2) s1f(2) by simp
    then show "requiresHardware t = requiresHardware s" by (rule requiresHardware_cong)
    have "supportedDevices t = supportedDevices s" using tgt(1) f2(1) s1f(1) by simp
    then show "findDeviceClass t = findDeviceClass s" by (rule findDeviceClass_eq)
  qed
  define reg where "reg = (st = DeviceSetupStatusSuccess
              \<and> requiresHardware s (dcPluginId (findDeviceClass s (deviceClassId dev)))
                   HardwareResourceTimer)"
  have ti: "timerInv s" and pf: "ptrsFresh s" using inv by (simp_all add: Inv0_def)
  have fresh: "ptr \<notin> set (pluginTimerUsers s)" "ptr \<notin> set (configuredDevices s)"
    using timerUsers_fresh [OF inv] by (simp_all add: ptr_def)
  have hto: "heap t p = heap s p" if "p \<noteq> ptr" for p
  proof -
    have "heap t p = heap s2 p" using cases that by (auto simp: ptr_def)
    also have "\<dots> = heap s1 p" using d'(1) that by simp
    finally show ?thesis using s1h [OF that] by simp
  qed
  have other: "setupDone t p = setupDone s p \<and> classPluginTimer t p = classPluginTimer s p
                  \<and> devicePluginTimer t p = devicePluginTimer s p" if "p \<noteq> ptr" for p
    unfolding setupDone_def classPluginTimer_def devicePluginTimer_def tq hto [OF that]
    by simp
  have h2: "heap s2 ptr = Some d'" using d'(1) by simp
  have tptr: "heap t ptr = Some d' \<or> (st \<noteq> DeviceSetupStatusSuccess \<and> heap t ptr = None)"
    using cases h2 by (auto simp: ptr_def)
  have sd: "st = DeviceSetupStatusSuccess" if "setupDone t ptr"
    using that tptr d'(4) by (auto simp: setupDone_def)
  have cpt: "requiresHardware s (dcPluginId (findDeviceClass s (deviceClassId dev)))
                   HardwareResourceTimer" if "classPluginTimer t ptr"
    using that tptr d'(2) unfolding classPluginTimer_def tq by auto
  have cf2: "configuredDevices s2 = configuredDevices s" using f2(4) s1f(3) by simp
  have cf: "configuredDevices t = configuredDevices s @ [ptr]
             \<or> configuredDevices t = configuredDevices s"
    using cases cf2 by (auto simp: ptr_def)
  have users: "(pluginTimerUsers t = pluginTimerUsers s @ [ptr] \<and> pluginTimerActive t
                 \<and> ptr \<in> set (configuredDevices t) \<and> setupDone t ptr
                 \<and> (classPluginTimer t ptr \<or> devicePluginTimer t ptr))
              \<or> (pluginTimerUsers t = pluginTimerUsers s
                 \<and> pluginTimerActive t = pluginTimerActive s
                 \<and> (ptr \<in> set (configuredDevices t)
                      \<longrightarrow> \<not> (setupDone t ptr \<and> classPluginTimer t ptr
                               \<and> devicePluginTimer t ptr)))"
  proof (cases reg)
    case True
    then have st: "st = DeviceSetupStatusSuccess"
      and rh: "requiresHardware s1 (dcPluginId (findDeviceClass s1 (deviceClassId dev)))
                   HardwareResourceTimer"
      unfolding rq by (simp_all add: reg_def)
    have ht: "heap t ptr = Some d'" using tptr st by simp
    have ct: "ptr \<in> set (configuredDevices t)" using cases st by (auto simp: ptr_def)
    have "setupDone t ptr" using ht d'(4) st by (simp add: setupDone_def)
    moreover have "classPluginTimer t ptr"
      using ht True d'(2) unfolding classPluginTimer_def tq by (simp add: reg_def)
    moreover have "pluginTimerUsers t = pluginTimerUsers s @ [ptr]" "pluginTimerActive t"
      using setupDevice_timer_reg(1,2) [OF su' h1 st rh] tgt(4,6) s1f(4) by simp_all
    ultimately show ?thesis using ct by blast
  next
    case False
    then have nr: "\<not> (st = DeviceSetupStatusSuccess
           \<and> requiresHardware s1 (dcPluginId (findDeviceClass s1 (deviceClassId dev)))
                   HardwareResourceTimer)"
      unfolding rq by (simp add: reg_def)
    have "pluginTimerUsers t = pluginTimerUsers s"
      "pluginTimerActive t = pluginTimerActive s"
      using setupDevice_timer_noreg(1,2) [OF su' h1 nr] tgt(4,6) s1f(4,6) by simp_all
    moreover have "\<not> (setupDone t ptr \<and> classPluginTimer t ptr)"
      using sd cpt False by (auto simp: reg_def)
    ultimately show ?thesis by blast
  qed
  have iv: "pluginTimerInterval t = pluginTimerInterval s" using tgt(5) f2(5) s1f(5) by simp
  have "timerInv t"
    using timerInv_extend [OF ti fresh(1) iv cf other users] .
  moreover have "ptrsFresh t"
  proof -
    have nt: "nextPtr t = Suc ptr" using tgt(3) f2(3) s1f(7) by simp
    have a: "p < Suc ptr" if "heap t p \<noteq> None" for p
    proof (cases "p = ptr")
      case False
      then have "heap s p \<noteq> None" using hto [OF False] that by simp
      then have "p < nextPtr s" using pf unfolding ptrsFresh_def by blast
      then show ?thesis by (simp add: ptr_def)
    qed simp
    have b: "p < Suc ptr" if "p \<in> set (configuredDevices t)" for p
    proof (cases "p = ptr")
      case False
      then have "p \<in> set (configuredDevices s)" using cf that by auto
      then have "p < nextPtr s" using pf unfolding ptrsFresh_def by blast
      then show ?thesis by (simp add: ptr_def)
    qed simp
    show ?thesis unfolding ptrsFresh_def nt using a b by blast
  qed
  moreover have "allLive t"
  proof -
    have al: "allLive s" using inv by (simp add: Inv0_def)
    have "heap t p \<noteq> None" if "p \<in> set (configuredDevices t)" for p
    proof (cases "p = ptr")
      case True
      then have "configuredDevices t \<noteq> configuredDevices s" using that fresh(2) by auto
      then have "heap t = heap s2" using cases cf2 by auto
      then show ?thesis using True h2 by simp
    next
      case False
      then have "p \<in> set (configuredDevices s)" using cf that by auto
      then have "heap s p \<noteq> None" using al by (simp add: allLive_def list_all_iff)
      then show ?thesis using hto [OF False] by simp
    qed
    then show ?thesis by (simp add: allLive_def list_all_iff)
  qed
  moreover have "connInv t"
  proof -
    have ci: "connInv s" using inv by (simp add: Inv0_def)
    have c1: "stateConnections s1 = stateConnections s" by (simp add: s1)
    have c2: "stateConnections s2 =
                (if st = DeviceSetupStatusSuccess then stateConnections s @ [ptr]
                 else stateConnections s)"
      using setupDevice_conns [OF su'] c1 by simp
    have "\<not> setupDone s ptr"
      using timerUsers_fresh(3) [OF inv] by (simp add: setupDone_def ptr_def)
    then have c0: "count_list (stateConnections s) ptr = 0"
      using ci by (simp add: connInv_def)
    have "count_list (stateConnections t) p = (if setupDone t p then 1 else 0)" for p
    proof (cases "p = ptr")
      case False
      have "count_list (stateConnections t) p = count_list (stateConnections s) p"
        using conns c2 False by (auto simp: ptr_def count_list_removeAll)
      then show ?thesis using other [OF False] ci by (simp add: connInv_def)
    next
      case True
      show ?thesis
      proof (cases "st = DeviceSetupStatusSuccess")
        case ok: True
        then have ht: "heap t ptr = Some d'" using tptr by simp
        then have "stateConnections t = stateConnections s2"
          using conns by (auto simp: ptr_def)
        then have "count_list (stateConnections t) ptr = 1" using c2 c0 ok by simp
        moreover have "setupDone t ptr" using ht d'(4) ok by (simp add: setupDone_def)
        ultimately show ?thesis using True by simp
      next
        case no: False
        then have "count_list (stateConnections t) ptr = 0"
          using conns c2 c0 by (auto simp: ptr_def count_list_removeAll)
        moreover have "\<not> setupDone t ptr" using sd no by blast
        ultimately show ?thesis using True by simp
      qed
    qed
    then show ?thesis by (simp add: connInv_def)
  qed
  moreover have "deleteLaterQueue t = []"
    using inv tgt(7) f2(6) by (simp add: Inv0_def s1)
  ultimately show ?thesis by (simp add: Inv0_def)
qed

lemma fresh_setup_started:
  assumes s1: "s1 = s\<lparr>heap := (heap s)(nextPtr s \<mapsto> dev), nextPtr := Suc (nextPtr s)\<rparr>"
    and su: "setupDevice s1 (nextPtr s) = Some (st, s2)"
  shows "timerStarted s s2"
proof -
  have h1: "heap s1 (nextPtr s) = Some dev" by (simp add: s1)
  have e: "pluginTimerActive s1 = pluginTimerActive s" "pendingTimerShots s1 = pendingTimerShots s"
    by (simp_all add: s1)
  show ?thesis
  proof (cases "st = DeviceSetupStatusSuccess
           \<and> requiresHardware s1 (dcPluginId (findDeviceClass s1 (deviceClassId dev)))
                   HardwareResourceTimer")
    case True
    then show ?thesis
      using setupDevice_timer_reg(2,3) [OF su h1] e by (simp add: timerStarted_def)
  next
    case False
    then show ?thesis
      using setupDevice_timer_noreg(2,3) [OF su h1 False] e by (simp add: timerStarted_def)
  qed
qed

lemma timerStarted_refl [simp]: "timerStarted s s"
  by (simp add: timerStarted_def)

lemma timerStarted_trans:
  "timerStarted s s1 \<Longrightarrow> timerStarted s1 s2 \<Longrightarrow> timerStarted s s2"
  by (auto simp: timerStarted_def split: if_splits)

lemma timerStarted_sameTimer:
  "sameTimer s s' \<Longrightarrow> timerStarted s s'"
  by (simp add: timerStarted_def sameTimer_def)

lemma timerStarted_cong:
  "pluginTimerActive t = pluginTimerActive s' \<Longrightarrow> pendingTimerShots t = pendingTimerShots s'
     \<Longrightarrow> pluginTimerActive b = pluginTimerActive s \<Longrightarrow> pendingTimerShots b = pendingTimerShots s
     \<Longrightarrow> timerStarted b s' \<Longrightarrow> timerStarted s t"
  by (simp add: timerStarted_def)

lemma storeDevices_live:
  "storeDevices h ptrs st = Some st' \<Longrightarrow> ptr \<in> set ptrs \<Longrightarrow> h ptr \<noteq> None"
  by (induction ptrs arbitrary: st) (auto split: option.splits)

lemma storeConfiguredDevices_live:
  "storeConfiguredDevices s = Some s' \<Longrightarrow> ptr \<in> set (configuredDevices s) \<Longrightarrow> heap s ptr \<noteq> None"
  using storeDevices_live [of "heap s" "configuredDevices s" "settings s" _ ptr]
  by (auto simp: storeConfiguredDevices_def split: option.splits)

lemma addInternal_cases:
  assumes r: "addConfiguredDeviceInternal ops s cid params i = Some (err, s')"
  shows "s' = s
       \<or> (\<exists>dev st s2. \<not> setupComplete dev
            \<and> setupDevice (s\<lparr>heap := (heap s)(nextPtr s \<mapsto> dev), nextPtr := Suc (nextPtr s)\<rparr>)
                 (nextPtr s) = Some (st, s2)
            \<and> ((st = DeviceSetupStatusFailure \<and> s' = deleteDevice (nextPtr s) s2)
               \<or> (st = DeviceSetupStatusAsync \<and> s' = s2)
               \<or> (st = DeviceSetupStatusSuccess
                   \<and> storeConfiguredDevices
                        (s2\<lparr>configuredDevices := configuredDevices s2 @ [nextPtr s]\<rparr>)
                       = Some s'))
            \<and> pluginIdAgrees s (devicePluginId dev) (deviceClassId dev))"
proof -
  define dc where "dc = findDeviceClass s cid"
  obtain res eff where v: "verifyParams ops (dcParamTypes dc) params requireAll_default = (res, eff)"
    by (cases "verifyParams ops (dcParamTypes dc) params requireAll_default")
  define dev where "dev = (Device_new (dcPluginId dc) i cid)
                            \<lparr>deviceName := dcName dc, deviceParams := eff\<rparr>"
  define s1 where "s1 = s\<lparr>heap := (heap s)(nextPtr s \<mapsto> dev), nextPtr := Suc (nextPtr s)\<rparr>"
  have al: "allocDevice dev s = (nextPtr s, s1)" by (simp add: allocDevice_def s1_def)
  have nc: "\<not> setupComplete dev" by (simp add: dev_def Device_new_def)
  have da: "pluginIdAgrees s (devicePluginId dev) (deviceClassId dev)"
    by (simp add: dev_def dc_def Device_new_def pluginIdAgrees_def)
  note defs = addConfiguredDeviceInternal_def Let_def dc_def [symmetric] dev_def [symmetric]
  show ?thesis
  proof (cases "isNullUuid (dcId dc) \<or> dcSetupMethod dc \<noteq> SetupMethodJustAdd
                \<or> res \<noteq> DeviceErrorNoError")
    case True
    then show ?thesis using r v by (auto simp: defs split: if_splits)
  next
    case ok: False
    show ?thesis
    proof (cases "deviceIdInUse (heap s) (configuredDevices s) i")
      case None
      then show ?thesis using r v ok by (simp add: defs)
    next
      case (Some inUse)
      show ?thesis
      proof (cases "inUse \<or> devicePlugins s (dcPluginId dc) = None")
        case True
        then show ?thesis using r v ok Some by (auto simp: defs split: if_splits)
      next
        case False
        then obtain plugin where pl: "devicePlugins s (dcPluginId dc) = Some plugin" "\<not> inUse"
          by auto
        show ?thesis
        proof (cases "setupDevice s1 (nextPtr s)")
          case None
          then show ?thesis using r v ok Some pl al by (simp add: defs)
        next
          case su: (Some res2)
          obtain st s2 where res2: "res2 = (st, s2)" by (cases res2)
          have r': "(case st of
                       DeviceSetupStatusSuccess \<Rightarrow>
                         (case storeConfiguredDevices
                                 (s2\<lparr>configuredDevices := configuredDevices s2 @ [nextPtr s]\<rparr>) of
                            None \<Rightarrow> None | Some s3 \<Rightarrow> Some (DeviceErrorNoError, s3))
                     | DeviceSetupStatusFailure \<Rightarrow>
                         Some (DeviceErrorSetupFailed, deleteDevice (nextPtr s) s2)
                     | DeviceSetupStatusAsync \<Rightarrow> Some (DeviceErrorAsync, s2)) = Some (err, s')"
            using r v ok Some pl al su res2 by (simp add: defs)
          have "(st = DeviceSetupStatusFailure \<and> s' = deleteDevice (nextPtr s) s2)
               \<or> (st = DeviceSetupStatusAsync \<and> s' = s2)
               \<or> (st = DeviceSetupStatusSuccess
                   \<and> storeConfiguredDevices
                        (s2\<lparr>configuredDevices := configuredDevices s2 @ [nextPtr s]\<rparr>)
                       = Some s')"
            using r' by (cases st) (auto split: option.splits)
          then show ?thesis using nc da su res2 unfolding s1_def by blast
        qed
      qed
    qed
  qed
qed

lemma Inv0_addInternal:
  assumes inv: "Inv0 s"
    and r: "addConfiguredDeviceInternal ops s cid params i = Some (err, s')"
  shows "Inv0 s' \<and> timerStarted s s'"
proof -
  from addInternal_cases [OF r] consider
      (same) "s' = s"
    | (fresh) dev st s2 where "\<not> setupComplete dev"
        "setupDevice (s\<lparr>heap := (heap s)(nextPtr s \<mapsto> dev), nextPtr := Suc (nextPtr s)\<rparr>)
                 (nextPtr s) = Some (st, s2)"
        "(st = DeviceSetupStatusFailure \<and> s' = deleteDevice (nextPtr s) s2)
               \<or> (st = DeviceSetupStatusAsync \<and> s' = s2)
               \<or> (st = DeviceSetupStatusSuccess
                   \<and> storeConfiguredDevices
                        (s2\<lparr>configuredDevices := configuredDevices s2 @ [nextPtr s]\<rparr>)
                       = Some s')"
    by blast
  then show ?thesis
  proof cases
    case same
    then show ?thesis using inv by simp
  next
    case (fresh dev st s2)
    note nc = fresh(1) and su = fresh(2) and out = fresh(3)
  have st: "timerStarted s s2" using fresh_setup_started [OF refl su] .
  from out consider
      (f) "st = DeviceSetupStatusFailure" "s' = deleteDevice (nextPtr s) s2"
    | (a) "st = DeviceSetupStatusAsync" "s' = s2"
    | (k) "st = DeviceSetupStatusSuccess"
          "storeConfiguredDevices (s2\<lparr>configuredDevices := configuredDevices s2 @ [nextPtr s]\<rparr>)
             = Some s'"
    by blast
  then show ?thesis
  proof cases
    case f
    have "Inv0 s'"
      by (rule fresh_setup [OF inv nc refl su]) (simp_all add: f deleteDevice_def)
    moreover have "timerStarted s s'" using st by (simp add: f deleteDevice_def timerStarted_def)
    ultimately show ?thesis by simp
  next
    case a
    have "Inv0 s'"
      by (rule fresh_setup [OF inv nc refl su]) (simp_all add: a)
    then show ?thesis using st a by simp
  next
    case k
    from storeConfiguredDevices_frame [OF k(2)] obtain st' where
      s': "s' = s2\<lparr>configuredDevices := configuredDevices s2 @ [nextPtr s], settings := st'\<rparr>"
      by auto
    have "Inv0 s'"
      by (rule fresh_setup [OF inv nc refl su]) (simp_all add: s')
    moreover have "timerStarted s s'" using st by (simp add: s' timerStarted_def)
    ultimately show ?thesis by simp
  qed
  qed
qed

lemma sameCore_refl [simp]: "sameCore s s"
  by (simp add: sameCore_def)

lemma sameTimer_refl [simp]: "sameTimer s s"
  by (simp add: sameTimer_def)

lemma Inv0_add:
  assumes "Inv0 s" and "addConfiguredDevice ops s cid params i = Some (err, s')"
  shows "Inv0 s' \<and> timerStarted s s'"
proof (cases "dcValid (findDeviceClass s cid)
              \<and> CreateMethodUser \<in> dcCreateMethods (findDeviceClass s cid)")
  case True
  then have "addConfiguredDeviceInternal ops s cid params i = Some (err, s')"
    using assms(2) by (simp add: addConfiguredDevice_def Let_def)
  then show ?thesis using Inv0_addInternal [OF assms(1)] by blast
next
  case False
  then have "s' = s" using assms(2) by (auto simp: addConfiguredDevice_def Let_def split: if_splits)
  then show ?thesis using assms(1) by simp
qed

lemma Inv0_add_descriptor:
  assumes "Inv0 s" and "addConfiguredDevice_descriptor ops s cid did i = Some (err, s')"
  shows "Inv0 s' \<and> timerStarted s s'"
proof -
  define s1 where "s1 = s\<lparr>discoveredDevices := (discoveredDevices s)(did := None)\<rparr>"
  have sc: "sameCore s s1" "sameTimer s s1" by (simp_all add: s1_def sameCore_def sameTimer_def)
  have i1: "Inv0 s1" using Inv0_sameCore [OF sc(1)] assms(1) by simp
  have t1: "timerStarted s s1" using timerStarted_sameTimer [OF sc(2)] .
  from assms(2) consider "s' = s" | "s' = s1"
    | "addConfiguredDeviceInternal ops s1 cid (ddParams (discoveredDevices_value s did)) i
         = Some (err, s')"
    by (auto simp: addConfiguredDevice_descriptor_def Let_def s1_def split: if_splits)
  then show ?thesis
  proof cases
    case 1
    then show ?thesis using assms(1) by simp
  next
    case 2
    then show ?thesis using i1 t1 by simp
  next
    case 3
    then show ?thesis using Inv0_addInternal [OF i1 3] t1 timerStarted_trans by blast
  qed
qed

lemma takePairing_sameCore:
  "takePairing s tx = (s1, c, ps) \<Longrightarrow> sameCore s s1 \<and> sameTimer s s1"
  by (auto simp: takePairing_def sameCore_def sameTimer_def split: option.splits prod.splits)

lemma emit_sameCore [simp]: "sameCore s (emit sig s)" "sameTimer s (emit sig s)"
  by (simp_all add: emit_def sameCore_def sameTimer_def)

lemma sameCore_trans:
  "sameCore s s1 \<Longrightarrow> sameCore s1 s2 \<Longrightarrow> sameCore s s2"
  by (simp add: sameCore_def)

lemma sameTimer_trans:
  "sameTimer s s1 \<Longrightarrow> sameTimer s1 s2 \<Longrightarrow> sameTimer s s2"
  by (simp add: sameTimer_def)

lemma slotPairingFinished_cases:
  assumes r: "slotPairingFinished s tx status newId = Some s'"
  shows "(sameCore s s' \<and> sameTimer s s')
       \<or> (\<exists>b dev st s2. sameCore s b \<and> sameTimer s b \<and> \<not> setupComplete dev
            \<and> setupDevice (b\<lparr>heap := (heap b)(nextPtr b \<mapsto> dev), nextPtr := Suc (nextPtr b)\<rparr>)
                 (nextPtr b) = Some (st, s2)
            \<and> ((st = DeviceSetupStatusAsync \<and> s' = s2)
               \<or> (st \<noteq> DeviceSetupStatusAsync
                   \<and> (\<exists>s4. storeConfiguredDevices
                        ((if st = DeviceSetupStatusFailure
                          then deleteDevice (nextPtr b)
                                 (emit (SigDeviceSetupFinished (nextPtr b) DeviceErrorSetupFailed) s2)
                          else s2)\<lparr>configuredDevices := configuredDevices s2 @ [nextPtr b]\<rparr>)
                       = Some s4
                      \<and> s' = emit (SigDeviceSetupFinished (nextPtr b) DeviceErrorNoError) s4)))
            \<and> pluginIdAgrees b (devicePluginId dev) (deviceClassId dev))"
proof (cases "pairingsJustAdd s tx = None \<and> pairingsDiscovery s tx = None")
  case True
  then have "s' = s" using r by (simp add: slotPairingFinished_def)
  then show ?thesis by simp
next
  case known: False
  obtain s1 c ps where tp: "takePairing s tx = (s1, c, ps)" by (cases "takePairing s tx")
  note sc1 = takePairing_sameCore [OF tp]
  define dc where "dc = findDeviceClass s1 c"
  note defs = slotPairingFinished_def Let_def dc_def [symmetric]
  show ?thesis
  proof (cases "status \<noteq> DeviceSetupStatusSuccess \<or> devicePlugins s1 (dcPluginId dc) = None")
    case True
    then have "s' = emit (SigPairingFinished tx DeviceErrorSetupFailed 0) s1
             \<or> s' = emit (SigPairingFinished tx DeviceErrorPluginNotFound (dcPluginId dc)) s1"
      using r known tp by (auto simp: defs split: if_splits)
    then show ?thesis using sc1 emit_sameCore sameCore_trans sameTimer_trans by blast
  next
    case False
    then obtain plugin where pl: "devicePlugins s1 (dcPluginId dc) = Some plugin"
      and ok: "status = DeviceSetupStatusSuccess" by auto
    define b where "b = emit (SigPairingFinished tx DeviceErrorNoError newId) s1"
    define dev where "dev = (Device_new (dcPluginId dc) newId c)
                              \<lparr>deviceName := dcName dc, deviceParams := ps\<rparr>"
    define b1 where "b1 = b\<lparr>heap := (heap b)(nextPtr b \<mapsto> dev), nextPtr := Suc (nextPtr b)\<rparr>"
    have al: "allocDevice dev b = (nextPtr b, b1)" by (simp add: allocDevice_def b1_def)
    have nc: "\<not> setupComplete dev" by (simp add: dev_def Device_new_def)
    have da: "pluginIdAgrees b (devicePluginId dev) (deviceClassId dev)"
      by (simp add: dev_def dc_def b_def emit_def Device_new_def pluginIdAgrees_def
                    findDeviceClass_def)
    have scb: "sameCore s b" "sameTimer s b"
      using sc1 emit_sameCore sameCore_trans sameTimer_trans unfolding b_def by blast+
    show ?thesis
    proof (cases "setupDevice b1 (nextPtr b)")
      case None
      then show ?thesis using r known tp pl ok al
        by (simp add: defs b_def [symmetric] dev_def [symmetric])
    next
      case (Some res2)
      obtain st s2 where res2: "res2 = (st, s2)" by (cases res2)
      have r': "(case st of
                   DeviceSetupStatusAsync \<Rightarrow> Some s2
                 | _ \<Rightarrow>
                     (case storeConfiguredDevices
                             ((if st = DeviceSetupStatusFailure
                               then deleteDevice (nextPtr b)
                                      (emit (SigDeviceSetupFinished (nextPtr b)
                                               DeviceErrorSetupFailed) s2)
                               else s2)
                              \<lparr>configuredDevices := configuredDevices s2 @ [nextPtr b]\<rparr>) of
                        None \<Rightarrow> None
                      | Some s4 \<Rightarrow>
                          Some (emit (SigDeviceSetupFinished (nextPtr b) DeviceErrorNoError) s4)))
                = Some s'"
        using r known tp pl ok al Some res2
        by (simp add: defs b_def [symmetric] dev_def [symmetric])
      have "(st = DeviceSetupStatusAsync \<and> s' = s2)
               \<or> (st \<noteq> DeviceSetupStatusAsync
                   \<and> (\<exists>s4. storeConfiguredDevices
                        ((if st = DeviceSetupStatusFailure
                          then deleteDevice (nextPtr b)
                                 (emit (SigDeviceSetupFinished (nextPtr b) DeviceErrorSetupFailed) s2)
                          else s2)\<lparr>configuredDevices := configuredDevices s2 @ [nextPtr b]\<rparr>)
                       = Some s4
                      \<and> s' = emit (SigDeviceSetupFinished (nextPtr b) DeviceErrorNoError) s4))"
        using r' by (cases st) (auto split: option.splits)
      then show ?thesis using scb nc da Some res2 unfolding b1_def by blast
    qed
  qed
qed

lemma Inv0_timer_sameCore:
  assumes "Inv0 s" "sameCore s s'" "sameTimer s s'"
  shows "Inv0 s' \<and> timerStarted s s'"
  using assms Inv0_sameCore timerStarted_sameTimer by blast

lemma Inv0_slotPairingFinished:
  assumes inv: "Inv0 s" and r: "slotPairingFinished s tx status newId = Some s'"
  shows "Inv0 s' \<and> timerStarted s s'"
proof -
  from slotPairingFinished_cases [OF r] consider
      (same) "sameCore s s'" "sameTimer s s'"
    | (fresh) b dev st s2 where "sameCore s b" "sameTimer s b" "\<not> setupComplete dev"
        "setupDevice (b\<lparr>heap := (heap b)(nextPtr b \<mapsto> dev), nextPtr := Suc (nextPtr b)\<rparr>)
                 (nextPtr b) = Some (st, s2)"
        "(st = DeviceSetupStatusAsync \<and> s' = s2)
               \<or> (st \<noteq> DeviceSetupStatusAsync
                   \<and> (\<exists>s4. storeConfiguredDevices
                        ((if st = DeviceSetupStatusFailure
                          then deleteDevice (nextPtr b)
                                 (emit (SigDeviceSetupFinished (nextPtr b) DeviceErrorSetupFailed) s2)
                          else s2)\<lparr>configuredDevices := configuredDevices s2 @ [nextPtr b]\<rparr>)
                       = Some s4
                      \<and> s' = emit (SigDeviceSetupFinished (nextPtr b) DeviceErrorNoError) s4))"
    by blast
  then show ?thesis
  proof cases
    case same
    then show ?thesis using Inv0_timer_sameCore [OF inv] by simp
  next
    case (fresh b dev st s2)
    note nc = fresh(3) and su = fresh(4) and out = fresh(5)
    have ib: "Inv0 b" using Inv0_sameCore [OF fresh(1)] inv by simp
    have tb: "timerStarted s b" using timerStarted_sameTimer [OF fresh(2)] .
    have t2: "timerStarted b s2" using fresh_setup_started [OF refl su] .
    from out consider
        (a) "st = DeviceSetupStatusAsync" "s' = s2"
      | (k) s4 where "st \<noteq> DeviceSetupStatusAsync"
          "storeConfiguredDevices
                        ((if st = DeviceSetupStatusFailure
                          then deleteDevice (nextPtr b)
                                 (emit (SigDeviceSetupFinished (nextPtr b) DeviceErrorSetupFailed) s2)
                          else s2)\<lparr>configuredDevices := configuredDevices s2 @ [nextPtr b]\<rparr>)
                       = Some s4"
          "s' = emit (SigDeviceSetupFinished (nextPtr b) DeviceErrorNoError) s4"
      by blast
    then show ?thesis
    proof cases
      case a
      have "Inv0 s'"
        by (rule fresh_setup [OF ib nc refl su]) (simp_all add: a)
      then show ?thesis using tb t2 a timerStarted_trans by blast
    next
      case k
      have nf: "st \<noteq> DeviceSetupStatusFailure"
      proof
        assume f: "st = DeviceSetupStatusFailure"
        have "heap ((deleteDevice (nextPtr b)
                       (emit (SigDeviceSetupFinished (nextPtr b) DeviceErrorSetupFailed) s2))
                    \<lparr>configuredDevices := configuredDevices s2 @ [nextPtr b]\<rparr>) (nextPtr b) \<noteq> None"
          using storeConfiguredDevices_live [OF k(2) [unfolded f if_True], of "nextPtr b"]
          by simp
        then show False by (simp add: deleteDevice_def)
      qed
      then have st: "st = DeviceSetupStatusSuccess" using k(1) by (cases st) simp_all
      from storeConfiguredDevices_frame [OF k(2)] nf obtain st' where
        s4: "s4 = s2\<lparr>configuredDevices := configuredDevices s2 @ [nextPtr b], settings := st'\<rparr>"
        by auto
      have "Inv0 s'"
        by (rule fresh_setup [OF ib nc refl su]) (simp_all add: k(3) s4 emit_def)
      moreover have "timerStarted b s'" using t2 by (simp add: k(3) s4 emit_def timerStarted_def)
      ultimately show ?thesis using tb timerStarted_trans by blast
    qed
  qed
qed

lemma Inv0_load_loop:
  assumes "Inv0 s" and "loadConfiguredDevices_loop xs s = Some s'"
  shows "Inv0 s' \<and> timerStarted s s'"
  using assms
proof (induction xs arbitrary: s)
  case Nil
  then show ?case by simp
next
  case (Cons x xs)
  obtain i sd where x: "x = (i, sd)" by (cases x)
  define dev where "dev = (Device_new (sdPluginId sd) i (sdClassId sd))
                            \<lparr>deviceName := sdName sd, deviceParams := storedParams sd\<rparr>"
  have nc: "\<not> setupComplete dev" by (simp add: dev_def Device_new_def)
  define s1 where "s1 = s\<lparr>heap := (heap s)(nextPtr s \<mapsto> dev), nextPtr := Suc (nextPtr s)\<rparr>"
  have al: "allocDevice dev s = (nextPtr s, s1)" by (simp add: allocDevice_def s1_def)
  from Cons.prems(2) obtain st s2 where
    su: "setupDevice s1 (nextPtr s) = Some (st, s2)"
    and rest: "loadConfiguredDevices_loop xs
                 (s2\<lparr>configuredDevices := configuredDevices s2 @ [nextPtr s]\<rparr>) = Some s'"
    by (auto simp: x dev_def [symmetric] al split: option.splits)
  define t where "t = s2\<lparr>configuredDevices := configuredDevices s2 @ [nextPtr s]\<rparr>"
  have it: "Inv0 t"
    by (rule fresh_setup [OF Cons.prems(1) nc s1_def su]) (simp_all add: t_def)
  have "timerStarted s s2" using fresh_setup_started [OF s1_def su] .
  then have tt: "timerStarted s t" by (simp add: t_def timerStarted_def)
  from Cons.IH [OF it rest [folded t_def]] tt show ?case
    using timerStarted_trans by blast
qed

lemma Inv0_auto_loop:
  assumes "Inv0 s" and "autoDevicesAppeared_loop dc cid xs s = Some s'"
  shows "Inv0 s' \<and> timerStarted s s'"
  using assms
proof (induction xs arbitrary: s)
  case Nil
  then show ?case by simp
next
  case (Cons x xs)
  obtain descriptor newId where x: "x = (descriptor, newId)" by (cases x)
  define dev where "dev = (Device_new (dcPluginId dc) newId cid)
                            \<lparr>deviceName := dcName dc, deviceParams := ddParams descriptor\<rparr>"
  have nc: "\<not> setupComplete dev" by (simp add: dev_def Device_new_def)
  define s1 where "s1 = s\<lparr>heap := (heap s)(nextPtr s \<mapsto> dev), nextPtr := Suc (nextPtr s)\<rparr>"
  have al: "allocDevice dev s = (nextPtr s, s1)" by (simp add: allocDevice_def s1_def)
  from Cons.prems(2) obtain st s2 where
    su: "setupDevice s1 (nextPtr s) = Some (st, s2)"
    and rest: "(case st of
                  DeviceSetupStatusFailure \<Rightarrow>
                    autoDevicesAppeared_loop dc cid xs
                      (deleteDevice (nextPtr s)
                         (emit (SigDeviceSetupFinished (nextPtr s) DeviceErrorSetupFailed) s2))
                | DeviceSetupStatusAsync \<Rightarrow> autoDevicesAppeared_loop dc cid xs s2
                | DeviceSetupStatusSuccess \<Rightarrow>
                    (case storeConfiguredDevices
                            ((emit (SigDeviceSetupFinished (nextPtr s) DeviceErrorNoError) s2)
                               \<lparr>configuredDevices := configuredDevices s2 @ [nextPtr s]\<rparr>) of
                       None \<Rightarrow> None
                     | Some s3 \<Rightarrow> autoDevicesAppeared_loop dc cid xs s3)) = Some s'"
    by (auto simp: x dev_def [symmetric] al split: option.splits)
  have t2: "timerStarted s s2" using fresh_setup_started [OF s1_def su] .
  show ?case
  proof (cases st)
    case DeviceSetupStatusFailure
    define t where "t = deleteDevice (nextPtr s)
                         (emit (SigDeviceSetupFinished (nextPtr s) DeviceErrorSetupFailed) s2)"
    have it: "Inv0 t"
      by (rule fresh_setup [OF Cons.prems(1) nc s1_def su])
         (simp_all add: t_def deleteDevice_def emit_def DeviceSetupStatusFailure)
    have tt: "timerStarted s t" using t2 by (simp add: t_def deleteDevice_def emit_def timerStarted_def)
    have "autoDevicesAppeared_loop dc cid xs t = Some s'"
      using rest DeviceSetupStatusFailure by (simp add: t_def)
    from Cons.IH [OF it this] tt show ?thesis using timerStarted_trans by blast
  next
    case DeviceSetupStatusAsync
    have it: "Inv0 s2"
      by (rule fresh_setup [OF Cons.prems(1) nc s1_def su])
         (simp_all add: DeviceSetupStatusAsync)
    have "autoDevicesAppeared_loop dc cid xs s2 = Some s'"
      using rest DeviceSetupStatusAsync by simp
    from Cons.IH [OF it this] t2 show ?thesis using timerStarted_trans by blast
  next
    case DeviceSetupStatusSuccess
    then obtain s3 where
      sto: "storeConfiguredDevices
                            ((emit (SigDeviceSetupFinished (nextPtr s) DeviceErrorNoError) s2)
                               \<lparr>configuredDevices := configuredDevices s2 @ [nextPtr s]\<rparr>) = Some s3"
      and r3: "autoDevicesAppeared_loop dc cid xs s3 = Some s'"
      using rest by (auto split: option.splits)
    from storeConfiguredDevices_frame [OF sto] obtain st' where
      s3: "s3 = (emit (SigDeviceSetupFinished (nextPtr s) DeviceErrorNoError) s2)
                  \<lparr>configuredDevices := configuredDevices s2 @ [nextPtr s], settings := st'\<rparr>"
      by auto
    have it: "Inv0 s3"
      by (rule fresh_setup [OF Cons.prems(1) nc s1_def su]) (simp_all add: s3 emit_def)
    have tt: "timerStarted s s3" using t2 by (simp add: s3 emit_def timerStarted_def)
    from Cons.IH [OF it r3] tt show ?thesis using timerStarted_trans by blast
  qed
qed

lemma Inv0_load:
  "Inv0 s \<Longrightarrow> loadConfiguredDevices s = Some s' \<Longrightarrow> Inv0 s' \<and> timerStarted s s'"
  using Inv0_load_loop by (simp add: loadConfiguredDevices_def)

lemma Inv0_auto:
  assumes "Inv0 s" "autoDevicesAppeared s cid xs = Some s'"
  shows "Inv0 s' \<and> timerStarted s s'"
proof (cases "dcValid (findDeviceClass s cid)
              \<and> devicePlugins s (dcPluginId (findDeviceClass s cid)) \<noteq> None")
  case True
  then have "autoDevicesAppeared_loop (findDeviceClass s cid) cid xs s = Some s'"
    using assms(2) by (auto simp: autoDevicesAppeared_def Let_def)
  then show ?thesis using Inv0_auto_loop [OF assms(1)] by blast
next
  case False
  then have "s' = s" using assms(2)
    by (auto simp: autoDevicesAppeared_def Let_def split: if_splits option.splits)
  then show ?thesis using assms(1) by simp
qed

lemma Inv0_slotDeviceSetupFinished:
  assumes inv: "Inv0 s" and r: "slotDeviceSetupFinished s device' status = Some s'"
  shows "Inv0 s' \<and> timerStarted s s'"
proof (cases device')
  case None
  then have "s' = s" using r by (simp add: slotDeviceSetupFinished_def)
  then show ?thesis using inv by simp
next
  case (Some ptr)
  then obtain device where hd: "heap s ptr = Some device"
    using r by (auto simp: slotDeviceSetupFinished_def split: option.splits)
  note defs = slotDeviceSetupFinished_def Some hd
  show ?thesis
  proof (cases "setupComplete device \<or> status \<noteq> DeviceSetupStatusSuccess")
    case True
    then have "s' = s \<or> s' = emit (SigDeviceSetupFinished ptr DeviceErrorSetupFailed) s"
      using r by (cases status) (auto simp: defs split: if_splits)
    then show ?thesis using Inv0_timer_sameCore [OF inv] emit_sameCore inv by auto
  next
    case False
    then have nc: "\<not> setupComplete device" and ok: "status = DeviceSetupStatusSuccess"
      by simp_all
    define s1pre where "s1pre = (if ptr \<notin> set (configuredDevices s)
                        then storeConfiguredDevices
                               (s\<lparr>configuredDevices := configuredDevices s @ [ptr]\<rparr>)
                        else Some s)"
    from r nc ok obtain s1 plugin where
      s1: "s1pre = Some s1" and pl: "devicePlugins s1 (devicePluginId device) = Some plugin"
      and s': "s' = emit (SigDeviceSetupFinished ptr DeviceErrorNoError)
                  ((connectStateValueChanged ptr
                      (if HardwareResourceTimer \<in> requiredHardware plugin
                       then timerRegister ptr s1 else s1))
                   \<lparr>heap := (heap (connectStateValueChanged ptr
                                  (if HardwareResourceTimer \<in> requiredHardware plugin
                                   then timerRegister ptr s1 else s1)))
                            (ptr \<mapsto> device\<lparr>setupComplete := True\<rparr>)\<rparr>)"
      by (auto simp: defs Let_def s1pre_def [symmetric] split: option.splits)
    have s1f: "supportedDevices s1 = supportedDevices s" "devicePlugins s1 = devicePlugins s"
      "heap s1 = heap s" "nextPtr s1 = nextPtr s" "pluginTimerUsers s1 = pluginTimerUsers s"
      "pluginTimerInterval s1 = pluginTimerInterval s" "pluginTimerActive s1 = pluginTimerActive s"
      "pendingTimerShots s1 = pendingTimerShots s"
      "configuredDevices s1 = configuredDevices s @ [ptr] \<or> configuredDevices s1 = configuredDevices s"
      "ptr \<in> set (configuredDevices s1)"
      "stateConnections s1 = stateConnections s" "deleteLaterQueue s1 = deleteLaterQueue s"
      using s1 by (auto simp: s1pre_def storeConfiguredDevices_def split: if_splits option.splits)
    define reg where "reg = (HardwareResourceTimer \<in> requiredHardware plugin)"
    have f: "supportedDevices s' = supportedDevices s" "devicePlugins s' = devicePlugins s"
      "heap s' = (heap s)(ptr \<mapsto> device\<lparr>setupComplete := True\<rparr>)" "nextPtr s' = nextPtr s"
      "pluginTimerInterval s' = pluginTimerInterval s"
      "configuredDevices s' = configuredDevices s1"
      "pluginTimerUsers s' = (if reg then pluginTimerUsers s @ [ptr] else pluginTimerUsers s)"
      "pluginTimerActive s' = (if reg then True else pluginTimerActive s)"
      "pendingTimerShots s' = (if reg \<and> \<not> pluginTimerActive s
                               then Suc (pendingTimerShots s) else pendingTimerShots s)"
      "stateConnections s' = stateConnections s @ [ptr]"
      "deleteLaterQueue s' = deleteLaterQueue s"
      using s1f(1-8) s1f(11,12)
      by (simp_all add: s' emit_def connectStateValueChanged_def timerRegister_def reg_def Let_def)
    have ti: "timerInv s" and pf: "ptrsFresh s" using inv by (simp_all add: Inv0_def)
    have nsd: "\<not> setupDone s ptr" using hd nc by (simp add: setupDone_def)
    have nu: "ptr \<notin> set (pluginTimerUsers s)"
      using ti nsd unfolding timerInv_def by blast
    have tq: "requiresHardware s' = requiresHardware s" "findDeviceClass s' = findDeviceClass s"
      using requiresHardware_cong [OF f(2)] findDeviceClass_eq [OF f(1)] by simp_all
    have other: "setupDone s' p = setupDone s p \<and> classPluginTimer s' p = classPluginTimer s p
                  \<and> devicePluginTimer s' p = devicePluginTimer s p" if "p \<noteq> ptr" for p
    proof -
      have "heap s' p = heap s p" using f(3) that by simp
      then show ?thesis
        unfolding setupDone_def classPluginTimer_def devicePluginTimer_def tq by simp
    qed
    have cf: "configuredDevices s' = configuredDevices s @ [ptr]
             \<or> configuredDevices s' = configuredDevices s"
      using s1f(9) f(6) by simp
    have dpt: "devicePluginTimer s' ptr = reg"
      using pl s1f(2) unfolding devicePluginTimer_def tq
      by (simp add: f(3) requiresHardware_def reg_def)
    have sdn: "setupDone s' ptr" by (simp add: setupDone_def f(3))
    have users: "(pluginTimerUsers s' = pluginTimerUsers s @ [ptr] \<and> pluginTimerActive s'
                 \<and> ptr \<in> set (configuredDevices s') \<and> setupDone s' ptr
                 \<and> (classPluginTimer s' ptr \<or> devicePluginTimer s' ptr))
              \<or> (pluginTimerUsers s' = pluginTimerUsers s
                 \<and> pluginTimerActive s' = pluginTimerActive s
                 \<and> (ptr \<in> set (configuredDevices s')
                      \<longrightarrow> \<not> (setupDone s' ptr \<and> classPluginTimer s' ptr
                               \<and> devicePluginTimer s' ptr)))"
      using f(6,7,8) s1f(10) dpt sdn by (cases reg) simp_all
    have "timerInv s'"
      using timerInv_extend [OF ti nu f(5) cf other users] .
    moreover have "ptrsFresh s'"
    proof -
      have lt: "ptr < nextPtr s" using hd pf unfolding ptrsFresh_def by auto
      have a: "p < nextPtr s" if "heap s' p \<noteq> None" for p
        using that lt pf unfolding ptrsFresh_def f(3) by (cases "p = ptr") auto
      have b: "p < nextPtr s" if "p \<in> set (configuredDevices s')" for p
        using that cf lt pf unfolding ptrsFresh_def by auto
      show ?thesis unfolding ptrsFresh_def f(4) using a b by blast
    qed
    moreover have "timerStarted s s'"
      using f(8,9) by (cases reg) (auto simp: timerStarted_def)
    moreover have "allLive s'"
    proof -
      have al: "allLive s" using inv by (simp add: Inv0_def)
      have "heap s' p \<noteq> None" if "p \<in> set (configuredDevices s')" for p
      proof (cases "p = ptr")
        case True
        then show ?thesis by (simp add: f(3))
      next
        case False
        then have "p \<in> set (configuredDevices s)" using cf that by auto
        then have "heap s p \<noteq> None" using al by (simp add: allLive_def list_all_iff)
        then show ?thesis using False by (simp add: f(3))
      qed
      then show ?thesis by (simp add: allLive_def list_all_iff)
    qed
    moreover have "connInv s'"
    proof -
      have ci: "connInv s" using inv by (simp add: Inv0_def)
      have c0: "count_list (stateConnections s) ptr = 0"
        using ci nsd by (simp add: connInv_def)
      have "count_list (stateConnections s') p = (if setupDone s' p then 1 else 0)" for p
      proof (cases "p = ptr")
        case True
        then show ?thesis using c0 sdn by (simp add: f(10))
      next
        case False
        then show ?thesis using other [OF False] ci by (simp add: f(10) connInv_def)
      qed
      then show ?thesis by (simp add: connInv_def)
    qed
    moreover have "deleteLaterQueue s' = []" using inv by (simp add: f(11) Inv0_def)
    ultimately show ?thesis by (simp add: Inv0_def)
  qed
qed

lemma findConfiguredDevice_mem:
  "findConfiguredDevice h ptrs i = Some (Some ptr) \<Longrightarrow> ptr \<in> set ptrs"
  by (induction ptrs) (auto split: option.splits if_splits)

lemma Inv0_removeConfiguredDevice:
  assumes inv: "Inv0 s" and r: "removeConfiguredDevice s i = Some (err, s1)"
    and s': "s' = returnToEventLoop s1"
  shows "Inv0 s' \<and> (pluginTimerActive s' \<longrightarrow> pluginTimerActive s)
         \<and> pendingTimerShots s' = pendingTimerShots s"
proof (cases "findConfiguredDevice (heap s) (configuredDevices s) i")
  case None
  then show ?thesis using r by (simp add: removeConfiguredDevice_def)
next
  case (Some found)
  have q: "deleteLaterQueue s = []" using inv by (simp add: Inv0_def)
  show ?thesis
  proof (cases found)
    case None
    then have "s1 = s" using r Some by (simp add: removeConfiguredDevice_def)
    then have "sameCore s s'" "sameTimer s s'"
      using q by (simp_all add: s' returnToEventLoop_def sameCore_def sameTimer_def)
    then show ?thesis using inv Inv0_sameCore by (auto simp: sameTimer_def)
  next
    case ptr: (Some ptr)
    from r Some ptr obtain device plugin where
      hd: "heap s ptr = Some device" and pl: "devicePlugins s (devicePluginId device) = Some plugin"
      by (auto simp: removeConfiguredDevice_def split: option.splits)
    define users' where "users' = removeAll ptr (pluginTimerUsers s)"
    have f: "supportedDevices s' = supportedDevices s" "devicePlugins s' = devicePlugins s"
      "heap s' = (heap s)(ptr := None)" "nextPtr s' = nextPtr s"
      "pluginTimerInterval s' = pluginTimerInterval s"
      "configuredDevices s' = removeAll ptr (configuredDevices s)"
      "pluginTimerUsers s' = users'"
      "pluginTimerActive s' = (if users' = [] then False else pluginTimerActive s)"
      "pendingTimerShots s' = pendingTimerShots s"
      "stateConnections s' = removeAll ptr (stateConnections s)"
      "deleteLaterQueue s' = []"
      using r Some ptr hd pl q
      by (auto simp: removeConfiguredDevice_def Let_def deleteDevice_def deleteLater_def
                     returnToEventLoop_def s' users'_def)
    have ti: "timerInv s" and pf: "ptrsFresh s" using inv by (simp_all add: Inv0_def)
    have tq: "requiresHardware s' = requiresHardware s" "findDeviceClass s' = findDeviceClass s"
      using requiresHardware_cong [OF f(2)] findDeviceClass_eq [OF f(1)] by simp_all
    have other: "setupDone s' p = setupDone s p \<and> classPluginTimer s' p = classPluginTimer s p
                  \<and> devicePluginTimer s' p = devicePluginTimer s p" if "p \<noteq> ptr" for p
    proof -
      have "heap s' p = heap s p" using f(3) that by simp
      then show ?thesis
        unfolding setupDone_def classPluginTimer_def devicePluginTimer_def tq by simp
    qed
    have i1: "pluginTimerInterval s' = 15000" using ti f(5) by (simp add: timerInv_def)
    have act: "pluginTimerActive s = (pluginTimerUsers s \<noteq> [])"
      using ti by (simp add: timerInv_def)
    have i2: "pluginTimerActive s' = (pluginTimerUsers s' \<noteq> [])"
      unfolding f(7,8) using act by (auto simp: users'_def)
    have i3: "p \<in> set (configuredDevices s') \<and> setupDone s' p
             \<and> (classPluginTimer s' p \<or> devicePluginTimer s' p)"
      if "p \<in> set (pluginTimerUsers s')" for p
    proof -
      have p: "p \<noteq> ptr" "p \<in> set (pluginTimerUsers s)"
        using that unfolding f(7) users'_def by auto
      then have "p \<in> set (configuredDevices s) \<and> setupDone s p
             \<and> (classPluginTimer s p \<or> devicePluginTimer s p)"
        using ti unfolding timerInv_def by blast
      then show ?thesis using other [OF p(1)] p(1) unfolding f(6) by simp
    qed
    have i4: "p \<in> set (pluginTimerUsers s')"
      if "p \<in> set (configuredDevices s')" "setupDone s' p" "classPluginTimer s' p"
         "devicePluginTimer s' p" for p
    proof -
      have p: "p \<noteq> ptr" "p \<in> set (configuredDevices s)" using that(1) unfolding f(6) by auto
      then have "p \<in> set (pluginTimerUsers s)"
        using ti other [OF p(1)] that(2-4) unfolding timerInv_def by blast
      then show ?thesis using p(1) unfolding f(7) users'_def by simp
    qed
    have "timerInv s'" unfolding timerInv_def using i1 i2 i3 i4 by blast
    moreover have "ptrsFresh s'"
      using pf unfolding ptrsFresh_def f(3,4,6) by (auto split: if_splits)
    moreover have "allLive s'"
      using inv unfolding Inv0_def allLive_def list_all_iff f(3,6) by auto
    moreover have "connInv s'"
    proof -
      have ci: "connInv s" using inv by (simp add: Inv0_def)
      have "count_list (stateConnections s') p = (if setupDone s' p then 1 else 0)" for p
      proof (cases "p = ptr")
        case True
        then show ?thesis by (simp add: f(3,10) count_list_removeAll setupDone_def)
      next
        case False
        then show ?thesis
          using other [OF False] ci by (simp add: f(10) count_list_removeAll connInv_def)
      qed
      then show ?thesis by (simp add: connInv_def)
    qed
    ultimately show ?thesis using f(8,9,11) by (simp add: Inv0_def)
  qed
qed

lemma deliverStateValueChanged_sameCore:
  "deliverStateValueChanged cs ptr sid v s = Some s' \<Longrightarrow> sameCore s s' \<and> sameTimer s s'"
proof (induction cs arbitrary: s)
  case Nil
  then show ?case by (simp add: sameCore_def sameTimer_def)
next
  case (Cons c cs)
  show ?case
  proof (cases "c = ptr")
    case False
    then show ?thesis using Cons by simp
  next
    case True
    then obtain s1 where a: "slotDeviceStateValueChanged s (Some ptr) sid v = Some s1"
      and b: "deliverStateValueChanged cs ptr sid v s1 = Some s'"
      using Cons.prems by (auto split: option.splits)
    have "sameCore s s1 \<and> sameTimer s s1"
      using a
      by (auto simp: slotDeviceStateValueChanged_def sameCore_def sameTimer_def emit_def
               split: option.splits)
    then show ?thesis using Cons.IH [OF b] by (auto simp: sameCore_def sameTimer_def)
  qed
qed

lemma simple_steps:
  "discoverDevices ops s cid params = (err, s') \<Longrightarrow> sameCore s s' \<and> sameTimer s s'"
  "sameCore s (slotDevicesDiscovered s sender cid ds)
     \<and> sameTimer s (slotDevicesDiscovered s sender cid ds)"
  "pairDevice_params s tx cid params = (err, s') \<Longrightarrow> sameCore s s' \<and> sameTimer s s'"
  "pairDevice s tx cid did = (err, s') \<Longrightarrow> sameCore s s' \<and> sameTimer s s'"
  "confirmPairing s tx secret = (err, s') \<Longrightarrow> sameCore s s' \<and> sameTimer s s'"
  "slotDeviceStateValueChanged s sender' sid v = Some s' \<Longrightarrow> sameCore s s' \<and> sameTimer s s'"
  by (auto simp: discoverDevices_def slotDevicesDiscovered_def pairDevice_params_def
                 pairDevice_def confirmPairing_def slotDeviceStateValueChanged_def
                 sameCore_def sameTimer_def emit_def Let_def
           split: if_splits option.splits prod.splits SetupMethod.splits
                  DeviceSetupStatus.splits)

lemma Inv0_init: "Inv0 (DeviceManager_init classes plugins stored)"
  by (simp add: Inv0_def timerInv_def ptrsFresh_def allLive_def connInv_def setupDone_def
                DeviceManager_init_def)

lemma Inv0_step:
  assumes "Inv0 s" and "step ops s s'"
  shows "Inv0 s'
       \<and> (\<not> pluginTimerActive s \<and> pluginTimerActive s'
            \<longrightarrow> pendingTimerShots s' = Suc (pendingTimerShots s))"
proof -
  have started: "Inv0 t \<and> (\<not> pluginTimerActive s \<and> pluginTimerActive t
            \<longrightarrow> pendingTimerShots t = Suc (pendingTimerShots s))"
    if "Inv0 t \<and> timerStarted s t" for t
    using that by (simp add: timerStarted_def)
  have same: "Inv0 t \<and> (\<not> pluginTimerActive s \<and> pluginTimerActive t
            \<longrightarrow> pendingTimerShots t = Suc (pendingTimerShots s))"
    if "sameCore s t \<and> sameTimer s t" for t
    using that Inv0_timer_sameCore [OF assms(1)] started by blast
  from assms(2) show ?thesis
  proof cases
    case step_loadConfiguredDevices
    then show ?thesis using Inv0_load [OF assms(1)] started by blast
  next
    case (step_addConfiguredDevice deviceClassId' params id' err)
    then show ?thesis using Inv0_add [OF assms(1)] started by blast
  next
    case (step_addConfiguredDevice_descriptor deviceClassId' deviceDescriptorId id' err)
    then show ?thesis using Inv0_add_descriptor [OF assms(1)] started by blast
  next
    case (step_removeConfiguredDevice id' err s1)
    then show ?thesis using Inv0_removeConfiguredDevice [OF assms(1)] by blast
  next
    case (step_discoverDevices deviceClassId' params err)
    then show ?thesis using simple_steps(1) same by blast
  next
    case (step_slotDevicesDiscovered sender deviceClassId' deviceDescriptors)
    then show ?thesis using simple_steps(2) same by blast
  next
    case (step_pairDevice_params tx deviceClassId' params err)
    then show ?thesis using simple_steps(3) same by blast
  next
    case (step_pairDevice tx deviceClassId' deviceDescriptorId err)
    then show ?thesis using simple_steps(4) same by blast
  next
    case (step_confirmPairing tx secret err)
    then show ?thesis using simple_steps(5) same by blast
  next
    case (step_slotPairingFinished tx status newId)
    then show ?thesis using Inv0_slotPairingFinished [OF assms(1)] started by blast
  next
    case (step_slotDeviceSetupFinished device' status)
    then show ?thesis using Inv0_slotDeviceSetupFinished [OF assms(1)] started by blast
  next
    case (step_autoDevicesAppeared deviceClassId' deviceDescriptors)
    then show ?thesis using Inv0_auto [OF assms(1)] started by blast
  next
    case (step_slotDeviceStateValueChanged sender' stateTypeId' value')
    then show ?thesis using simple_steps(6) same by blast
  next
    case (step_Device_stateValueChanged ptr stateTypeId' value')
    then show ?thesis
      using deliverStateValueChanged_sameCore same by (simp add: Device_stateValueChanged_def)
  next
    case (step_timerShot n)
    have "sameCore s s'" by (simp add: step_timerShot(1) sameCore_def)
    then have "Inv0 s'" using Inv0_sameCore assms(1) by blast
    then show ?thesis by (simp add: step_timerShot(1))
  qed
qed

lemma reachable_Inv0: "reachable ops s0 s \<Longrightarrow> Inv0 s0 \<Longrightarrow> Inv0 s"
  by (induction rule: reachable.induct) (auto dest: Inv0_step)

text \<open>In every state that a run from the constructed manager reaches, the configured
  devices are live objects.\<close>

lemma reachable_allLive:
  "reachable ops (DeviceManager_init classes plugins stored) s \<Longrightarrow> allLive s"
  using reachable_Inv0 Inv0_init by (auto simp: Inv0_def)

subsection \<open>Plugin ids of devices and of their classes\<close>

lemma pluginIdAgrees_cong:
  assumes "supportedDevices s' = supportedDevices s"
  shows "pluginIdAgrees s' = pluginIdAgrees s"
  unfolding pluginIdAgrees_def findDeviceClass_eq [OF assms] ..

lemma heapAgrees_mono:
  assumes "heapAgrees s" and "supportedDevices s' = supportedDevices s"
    and "\<And>p d'. heap s' p = Some d' \<Longrightarrow>
           (\<exists>d. heap s p = Some d \<and> devicePluginId d' = devicePluginId d
                \<and> deviceClassId d' = deviceClassId d)
           \<or> pluginIdAgrees s (devicePluginId d') (deviceClassId d')"
  shows "heapAgrees s'"
proof -
  have "pluginIdAgrees s (devicePluginId d') (deviceClassId d')"
    if "heap s' p = Some d'" for p d'
    using assms(3) [OF that] assms(1) by (auto simp: heapAgrees_def)
  then show ?thesis unfolding heapAgrees_def pluginIdAgrees_cong [OF assms(2)] by blast
qed

lemma settingsAgree_cong:
  assumes "supportedDevices s' = supportedDevices s" and "settings s' = settings s"
  shows "settingsAgree s' = settingsAgree s"
  unfolding settingsAgree_def assms(2) pluginIdAgrees_cong [OF assms(1)] ..

lemma pluginsAgree_frame:
  assumes "pluginsAgree s" and "supportedDevices t = supportedDevices s"
    and "settings t = settings s"
    and "\<And>p. heap t p = heap s p \<or> heap t p = None"
  shows "pluginsAgree t"
proof -
  have "heapAgrees t"
  proof (rule heapAgrees_mono [OF _ assms(2)])
    show "heapAgrees s" using assms(1) by (simp add: pluginsAgree_def)
  next
    fix p d'
    assume "heap t p = Some d'"
    then have "heap s p = Some d'" using assms(4) [of p] by auto
    then show "(\<exists>d. heap s p = Some d \<and> devicePluginId d' = devicePluginId d
                   \<and> deviceClassId d' = deviceClassId d)
               \<or> pluginIdAgrees s (devicePluginId d') (deviceClassId d')"
      by simp
  qed
  moreover have "settingsAgree t"
    using assms(1) settingsAgree_cong [OF assms(2,3)] by (simp add: pluginsAgree_def)
  ultimately show ?thesis by (simp add: pluginsAgree_def)
qed

lemma pluginsAgree_sameCore:
  assumes "sameCore s s'"
  shows "pluginsAgree s' = pluginsAgree s"
proof -
  have e: "supportedDevices s' = supportedDevices s" "heap s' = heap s"
    "settings s' = settings s"
    using assms by (simp_all add: sameCore_def)
  show ?thesis
    unfolding pluginsAgree_def heapAgrees_def settingsAgree_cong [OF e(1,3)]
      pluginIdAgrees_cong [OF e(1)] e(2) ..
qed

lemma settings_update_agree:
  "list_all (\<lambda>(k, sd). Q (sdPluginId sd) (sdClassId sd)) st
     \<Longrightarrow> Q (sdPluginId v) (sdClassId v)
     \<Longrightarrow> list_all (\<lambda>(k, sd). Q (sdPluginId sd) (sdClassId sd)) (AList.update k v st)"
  by (induction st) auto

lemma storeDevices_agree:
  assumes "\<forall>ptr \<in> set ptrs. \<forall>d. h ptr = Some d \<longrightarrow> Q (devicePluginId d) (deviceClassId d)"
    and "list_all (\<lambda>(k, sd). Q (sdPluginId sd) (sdClassId sd)) st"
    and "storeDevices h ptrs st = Some st'"
  shows "list_all (\<lambda>(k, sd). Q (sdPluginId sd) (sdClassId sd)) st'"
  using assms
proof (induction ptrs arbitrary: st)
  case Nil
  then show ?case by simp
next
  case (Cons ptr ptrs)
  then obtain d where d: "h ptr = Some d"
    and r: "storeDevices h ptrs (storeDevice d st) = Some st'"
    by (auto split: option.splits)
  have "Q (devicePluginId d) (deviceClassId d)" using Cons.prems(1) d by simp
  then have a: "list_all (\<lambda>(k, sd). Q (sdPluginId sd) (sdClassId sd)) (storeDevice d st)"
    unfolding storeDevice_def using Cons.prems(2) by (intro settings_update_agree) simp_all
  have b: "\<forall>ptr \<in> set ptrs. \<forall>d. h ptr = Some d \<longrightarrow> Q (devicePluginId d) (deviceClassId d)"
    using Cons.prems(1) by simp
  show ?case using Cons.IH [OF b a r] .
qed

lemma storeConfiguredDevices_agree:
  assumes ag: "pluginsAgree s" and r: "storeConfiguredDevices s = Some s'"
  shows "pluginsAgree s'"
proof -
  from r obtain st' where
    st: "storeDevices (heap s) (configuredDevices s) (settings s) = Some st'"
    and s': "s' = s\<lparr>settings := st'\<rparr>"
    by (auto simp: storeConfiguredDevices_def split: option.splits)
  have sd: "supportedDevices s' = supportedDevices s" by (simp add: s')
  have h: "\<forall>ptr \<in> set (configuredDevices s). \<forall>d. heap s ptr = Some d
              \<longrightarrow> pluginIdAgrees s (devicePluginId d) (deviceClassId d)"
    using ag by (auto simp: pluginsAgree_def heapAgrees_def)
  have o: "list_all (\<lambda>(k, sd). pluginIdAgrees s (sdPluginId sd) (sdClassId sd)) (settings s)"
    using ag by (simp add: pluginsAgree_def settingsAgree_def)
  have "list_all (\<lambda>(k, sd). pluginIdAgrees s (sdPluginId sd) (sdClassId sd)) st'"
    using storeDevices_agree [OF h o st] .
  then have "settingsAgree s'"
    unfolding settingsAgree_def pluginIdAgrees_cong [OF sd] by (simp add: s')
  moreover have "heapAgrees s'"
    using ag unfolding pluginsAgree_def heapAgrees_def pluginIdAgrees_cong [OF sd]
    by (simp add: s')
  ultimately show ?thesis by (simp add: pluginsAgree_def)
qed

lemma fresh_setup_agree:
  assumes ag: "pluginsAgree s"
    and da: "pluginIdAgrees s (devicePluginId dev) (deviceClassId dev)"
    and s1: "s1 = s\<lparr>heap := (heap s)(nextPtr s \<mapsto> dev), nextPtr := Suc (nextPtr s)\<rparr>"
    and su: "setupDevice s1 (nextPtr s) = Some (st, s2)"
  shows "pluginsAgree s2"
proof -
  have h1: "heap s1 (nextPtr s) = Some dev" by (simp add: s1)
  obtain d' where d': "heap s2 = (heap s1)(nextPtr s \<mapsto> d')"
    "deviceClassId d' = deviceClassId dev" "devicePluginId d' = devicePluginId dev"
    using setupDevice_heap_upd [OF su h1] by blast
  note f = setupDevice_fields [OF su]
  have sd: "supportedDevices s2 = supportedDevices s" using f(1) by (simp add: s1)
  have se: "settings s2 = settings s" using f(7) by (simp add: s1)
  have "heapAgrees s2"
  proof (rule heapAgrees_mono [OF _ sd])
    show "heapAgrees s" using ag by (simp add: pluginsAgree_def)
  next
    fix p d''
    assume a: "heap s2 p = Some d''"
    show "(\<exists>d. heap s p = Some d \<and> devicePluginId d'' = devicePluginId d
                   \<and> deviceClassId d'' = deviceClassId d)
               \<or> pluginIdAgrees s (devicePluginId d'') (deviceClassId d'')"
    proof (cases "p = nextPtr s")
      case True
      then have "d'' = d'" using a d'(1) by simp
      then show ?thesis using da d'(2,3) by simp
    next
      case False
      then have "heap s p = Some d''" using a d'(1) by (simp add: s1)
      then show ?thesis by simp
    qed
  qed
  moreover have "settingsAgree s2"
    using ag settingsAgree_cong [OF sd se] by (simp add: pluginsAgree_def)
  ultimately show ?thesis by (simp add: pluginsAgree_def)
qed

lemma agree_addInternal:
  assumes ag: "pluginsAgree s"
    and r: "addConfiguredDeviceInternal ops s cid params i = Some (err, s')"
  shows "pluginsAgree s'"
proof -
  from addInternal_cases [OF r] consider
      (same) "s' = s"
    | (fresh) dev st s2 where
        "setupDevice (s\<lparr>heap := (heap s)(nextPtr s \<mapsto> dev), nextPtr := Suc (nextPtr s)\<rparr>)
                 (nextPtr s) = Some (st, s2)"
        "pluginIdAgrees s (devicePluginId dev) (deviceClassId dev)"
        "s' = deleteDevice (nextPtr s) s2 \<or> s' = s2
           \<or> storeConfiguredDevices
                (s2\<lparr>configuredDevices := configuredDevices s2 @ [nextPtr s]\<rparr>) = Some s'"
    by blast
  then show ?thesis
  proof cases
    case same
    then show ?thesis using ag by simp
  next
    case (fresh dev st s2)
    have a2: "pluginsAgree s2" using fresh_setup_agree [OF ag fresh(2) refl fresh(1)] .
    have a3: "pluginsAgree (deleteDevice (nextPtr s) s2)"
      by (rule pluginsAgree_frame [OF a2]) (simp_all add: deleteDevice_def)
    have "pluginsAgree (s2\<lparr>configuredDevices := configuredDevices s2 @ [nextPtr s]\<rparr>)"
      by (rule pluginsAgree_frame [OF a2]) simp_all
    then show ?thesis using fresh(3) a2 a3 storeConfiguredDevices_agree by blast
  qed
qed

lemma agree_add:
  assumes "pluginsAgree s" and "addConfiguredDevice ops s cid params i = Some (err, s')"
  shows "pluginsAgree s'"
proof (cases "dcValid (findDeviceClass s cid)
              \<and> CreateMethodUser \<in> dcCreateMethods (findDeviceClass s cid)")
  case True
  then have "addConfiguredDeviceInternal ops s cid params i = Some (err, s')"
    using assms(2) by (simp add: addConfiguredDevice_def Let_def)
  then show ?thesis using agree_addInternal [OF assms(1)] by blast
next
  case False
  then have "s' = s" using assms(2) by (auto simp: addConfiguredDevice_def Let_def split: if_splits)
  then show ?thesis using assms(1) by simp
qed

lemma agree_add_descriptor:
  assumes "pluginsAgree s"
    and "addConfiguredDevice_descriptor ops s cid did i = Some (err, s')"
  shows "pluginsAgree s'"
proof -
  define s1 where "s1 = s\<lparr>discoveredDevices := (discoveredDevices s)(did := None)\<rparr>"
  have "sameCore s s1" by (simp add: s1_def sameCore_def)
  then have a1: "pluginsAgree s1" using pluginsAgree_sameCore assms(1) by blast
  from assms(2) consider "s' = s" | "s' = s1"
    | "addConfiguredDeviceInternal ops s1 cid (ddParams (discoveredDevices_value s did)) i
         = Some (err, s')"
    by (auto simp: addConfiguredDevice_descriptor_def Let_def s1_def split: if_splits)
  then show ?thesis
  proof cases
    case 1
    then show ?thesis using assms(1) by simp
  next
    case 2
    then show ?thesis using a1 by simp
  next
    case 3
    then show ?thesis using agree_addInternal [OF a1] by blast
  qed
qed

lemma agree_slotPairingFinished:
  assumes ag: "pluginsAgree s" and r: "slotPairingFinished s tx status newId = Some s'"
  shows "pluginsAgree s'"
proof -
  from slotPairingFinished_cases [OF r] consider
      (same) "sameCore s s'"
    | (fresh) b dev st s2 where "sameCore s b"
        "setupDevice (b\<lparr>heap := (heap b)(nextPtr b \<mapsto> dev), nextPtr := Suc (nextPtr b)\<rparr>)
                 (nextPtr b) = Some (st, s2)"
        "pluginIdAgrees b (devicePluginId dev) (deviceClassId dev)"
        "s' = s2
         \<or> (\<exists>s4. storeConfiguredDevices
                        ((if st = DeviceSetupStatusFailure
                          then deleteDevice (nextPtr b)
                                 (emit (SigDeviceSetupFinished (nextPtr b) DeviceErrorSetupFailed) s2)
                          else s2)\<lparr>configuredDevices := configuredDevices s2 @ [nextPtr b]\<rparr>)
                       = Some s4
                      \<and> s' = emit (SigDeviceSetupFinished (nextPtr b) DeviceErrorNoError) s4)"
    by blast
  then show ?thesis
  proof cases
    case same
    then show ?thesis using pluginsAgree_sameCore ag by blast
  next
    case (fresh b dev st s2)
    have ab: "pluginsAgree b" using pluginsAgree_sameCore [OF fresh(1)] ag by simp
    have a2: "pluginsAgree s2" using fresh_setup_agree [OF ab fresh(3) refl fresh(2)] .
    define x where "x = (if st = DeviceSetupStatusFailure
                          then deleteDevice (nextPtr b)
                                 (emit (SigDeviceSetupFinished (nextPtr b) DeviceErrorSetupFailed) s2)
                          else s2)\<lparr>configuredDevices := configuredDevices s2 @ [nextPtr b]\<rparr>"
    have ax: "pluginsAgree x"
      by (rule pluginsAgree_frame [OF a2]) (simp_all add: x_def deleteDevice_def emit_def)
    from fresh(4) consider "s' = s2"
      | s4 where "storeConfiguredDevices x = Some s4"
          "s' = emit (SigDeviceSetupFinished (nextPtr b) DeviceErrorNoError) s4"
      unfolding x_def [symmetric] by blast
    then show ?thesis
    proof cases
      case 1
      then show ?thesis using a2 by simp
    next
      case 2
      have "pluginsAgree s4" using storeConfiguredDevices_agree [OF ax 2(1)] .
      then show ?thesis using pluginsAgree_sameCore [OF emit_sameCore(1)] 2(2) by simp
    qed
  qed
qed

lemma agree_load_loop:
  assumes "pluginsAgree s"
    and "list_all (\<lambda>(i, sd). pluginIdAgrees s (sdPluginId sd) (sdClassId sd)) xs"
    and "loadConfiguredDevices_loop xs s = Some s'"
  shows "pluginsAgree s'"
  using assms
proof (induction xs arbitrary: s)
  case Nil
  then show ?case by simp
next
  case (Cons x xs)
  obtain i sd where x: "x = (i, sd)" by (cases x)
  define dev where "dev = (Device_new (sdPluginId sd) i (sdClassId sd))
                            \<lparr>deviceName := sdName sd, deviceParams := storedParams sd\<rparr>"
  define s1 where "s1 = s\<lparr>heap := (heap s)(nextPtr s \<mapsto> dev), nextPtr := Suc (nextPtr s)\<rparr>"
  have al: "allocDevice dev s = (nextPtr s, s1)" by (simp add: allocDevice_def s1_def)
  from Cons.prems(3) obtain st s2 where
    su: "setupDevice s1 (nextPtr s) = Some (st, s2)"
    and rest: "loadConfiguredDevices_loop xs
                 (s2\<lparr>configuredDevices := configuredDevices s2 @ [nextPtr s]\<rparr>) = Some s'"
    by (auto simp: x dev_def [symmetric] al split: option.splits)
  define t where "t = s2\<lparr>configuredDevices := configuredDevices s2 @ [nextPtr s]\<rparr>"
  have da: "pluginIdAgrees s (devicePluginId dev) (deviceClassId dev)"
    using Cons.prems(2) by (simp add: x dev_def Device_new_def)
  have a2: "pluginsAgree s2" using fresh_setup_agree [OF Cons.prems(1) da s1_def su] .
  have at: "pluginsAgree t" by (rule pluginsAgree_frame [OF a2]) (simp_all add: t_def)
  have sd: "supportedDevices t = supportedDevices s"
    using setupDevice_fields(1) [OF su] by (simp add: t_def s1_def)
  have lt: "list_all (\<lambda>(i, sd). pluginIdAgrees t (sdPluginId sd) (sdClassId sd)) xs"
    unfolding pluginIdAgrees_cong [OF sd] using Cons.prems(2) by simp
  show ?case using Cons.IH [OF at lt rest [folded t_def]] .
qed

lemma agree_load:
  assumes "pluginsAgree s" and "loadConfiguredDevices s = Some s'"
  shows "pluginsAgree s'"
proof -
  have "list_all (\<lambda>(i, sd). pluginIdAgrees s (sdPluginId sd) (sdClassId sd)) (settings s)"
    using assms(1) by (simp add: pluginsAgree_def settingsAgree_def)
  then show ?thesis
    using agree_load_loop [OF assms(1)] assms(2) by (simp add: loadConfiguredDevices_def)
qed

lemma agree_auto_loop:
  assumes "pluginsAgree s" and "pluginIdAgrees s (dcPluginId dc) cid"
    and "autoDevicesAppeared_loop dc cid xs s = Some s'"
  shows "pluginsAgree s'"
  using assms
proof (induction xs arbitrary: s)
  case Nil
  then show ?case by simp
next
  case (Cons x xs)
  obtain descriptor newId where x: "x = (descriptor, newId)" by (cases x)
  define dev where "dev = (Device_new (dcPluginId dc) newId cid)
                            \<lparr>deviceName := dcName dc, deviceParams := ddParams descriptor\<rparr>"
  define s1 where "s1 = s\<lparr>heap := (heap s)(nextPtr s \<mapsto> dev), nextPtr := Suc (nextPtr s)\<rparr>"
  have al: "allocDevice dev s = (nextPtr s, s1)" by (simp add: allocDevice_def s1_def)
  from Cons.prems(3) obtain st s2 where
    su: "setupDevice s1 (nextPtr s) = Some (st, s2)"
    and rest: "(case st of
                  DeviceSetupStatusFailure \<Rightarrow>
                    autoDevicesAppeared_loop dc cid xs
                      (deleteDevice (nextPtr s)
                         (emit (SigDeviceSetupFinished (nextPtr s) DeviceErrorSetupFailed) s2))
                | DeviceSetupStatusAsync \<Rightarrow> autoDevicesAppeared_loop dc cid xs s2
                | DeviceSetupStatusSuccess \<Rightarrow>
                    (case storeConfiguredDevices
                            ((emit (SigDeviceSetupFinished (nextPtr s) DeviceErrorNoError) s2)
                               \<lparr>configuredDevices := configuredDevices s2 @ [nextPtr s]\<rparr>) of
                       None \<Rightarrow> None
                     | Some s3 \<Rightarrow> autoDevicesAppeared_loop dc cid xs s3)) = Some s'"
    by (auto simp: x dev_def [symmetric] al split: option.splits)
  have da: "pluginIdAgrees s (devicePluginId dev) (deviceClassId dev)"
    using Cons.prems(2) by (simp add: dev_def Device_new_def)
  have a2: "pluginsAgree s2" using fresh_setup_agree [OF Cons.prems(1) da s1_def su] .
  have sd2: "supportedDevices s2 = supportedDevices s"
    using setupDevice_fields(1) [OF su] by (simp add: s1_def)
  have next_agree: "pluginsAgree s'"
    if "pluginsAgree t" "supportedDevices t = supportedDevices s"
       "autoDevicesAppeared_loop dc cid xs t = Some s'" for t
  proof -
    have "pluginIdAgrees t (dcPluginId dc) cid"
      unfolding pluginIdAgrees_cong [OF that(2)] using Cons.prems(2) .
    then show ?thesis using Cons.IH [OF that(1) _ that(3)] by simp
  qed
  show ?case
  proof (cases st)
    case DeviceSetupStatusFailure
    define t where "t = deleteDevice (nextPtr s)
                         (emit (SigDeviceSetupFinished (nextPtr s) DeviceErrorSetupFailed) s2)"
    have at: "pluginsAgree t"
      by (rule pluginsAgree_frame [OF a2]) (simp_all add: t_def deleteDevice_def emit_def)
    have st: "supportedDevices t = supportedDevices s"
      using sd2 by (simp add: t_def deleteDevice_def emit_def)
    have "autoDevicesAppeared_loop dc cid xs t = Some s'"
      using rest DeviceSetupStatusFailure by (simp add: t_def)
    then show ?thesis using next_agree [OF at st] by simp
  next
    case DeviceSetupStatusAsync
    have "autoDevicesAppeared_loop dc cid xs s2 = Some s'"
      using rest DeviceSetupStatusAsync by simp
    then show ?thesis using next_agree [OF a2 sd2] by simp
  next
    case DeviceSetupStatusSuccess
    define x2 where "x2 = (emit (SigDeviceSetupFinished (nextPtr s) DeviceErrorNoError) s2)
                               \<lparr>configuredDevices := configuredDevices s2 @ [nextPtr s]\<rparr>"
    from DeviceSetupStatusSuccess obtain s3 where
      sto: "storeConfiguredDevices x2 = Some s3"
      and r3: "autoDevicesAppeared_loop dc cid xs s3 = Some s'"
      using rest by (auto simp: x2_def split: option.splits)
    have ax: "pluginsAgree x2"
      by (rule pluginsAgree_frame [OF a2]) (simp_all add: x2_def emit_def)
    have a3: "pluginsAgree s3" using storeConfiguredDevices_agree [OF ax sto] .
    have "supportedDevices s3 = supportedDevices s"
      using storeConfiguredDevices_frame [OF sto] sd2 by (auto simp: x2_def emit_def)
    then show ?thesis using next_agree [OF a3 _ r3] by simp
  qed
qed

lemma agree_auto:
  assumes "pluginsAgree s" and "autoDevicesAppeared s cid xs = Some s'"
  shows "pluginsAgree s'"
proof (cases "dcValid (findDeviceClass s cid)
              \<and> devicePlugins s (dcPluginId (findDeviceClass s cid)) \<noteq> None")
  case True
  then have "autoDevicesAppeared_loop (findDeviceClass s cid) cid xs s = Some s'"
    using assms(2) by (auto simp: autoDevicesAppeared_def Let_def)
  moreover have "pluginIdAgrees s (dcPluginId (findDeviceClass s cid)) cid"
    by (simp add: pluginIdAgrees_def)
  ultimately show ?thesis using agree_auto_loop [OF assms(1)] by blast
next
  case False
  then have "s' = s" using assms(2)
    by (auto simp: autoDevicesAppeared_def Let_def split: if_splits option.splits)
  then show ?thesis using assms(1) by simp
qed

lemma agree_slotDeviceSetupFinished:
  assumes ag: "pluginsAgree s" and r: "slotDeviceSetupFinished s device' status = Some s'"
  shows "pluginsAgree s'"
proof (cases device')
  case None
  then have "s' = s" using r by (simp add: slotDeviceSetupFinished_def)
  then show ?thesis using ag by simp
next
  case (Some ptr)
  then obtain device where hd: "heap s ptr = Some device"
    using r by (auto simp: slotDeviceSetupFinished_def split: option.splits)
  note defs = slotDeviceSetupFinished_def Some hd
  show ?thesis
  proof (cases "setupComplete device \<or> status \<noteq> DeviceSetupStatusSuccess")
    case True
    then have "s' = s \<or> s' = emit (SigDeviceSetupFinished ptr DeviceErrorSetupFailed) s"
      using r by (cases status) (auto simp: defs split: if_splits)
    then show ?thesis using pluginsAgree_sameCore [OF emit_sameCore(1)] ag by auto
  next
    case False
    then have nc: "\<not> setupComplete device" and ok: "status = DeviceSetupStatusSuccess"
      by simp_all
    define x where "x = s\<lparr>configuredDevices := configuredDevices s @ [ptr]\<rparr>"
    define s1pre where "s1pre = (if ptr \<notin> set (configuredDevices s)
                        then storeConfiguredDevices
                               (s\<lparr>configuredDevices := configuredDevices s @ [ptr]\<rparr>)
                        else Some s)"
    from r nc ok obtain s1 plugin where
      s1: "s1pre = Some s1" and pl: "devicePlugins s1 (devicePluginId device) = Some plugin"
      and s': "s' = emit (SigDeviceSetupFinished ptr DeviceErrorNoError)
                  ((connectStateValueChanged ptr
                      (if HardwareResourceTimer \<in> requiredHardware plugin
                       then timerRegister ptr s1 else s1))
                   \<lparr>heap := (heap (connectStateValueChanged ptr
                                  (if HardwareResourceTimer \<in> requiredHardware plugin
                                   then timerRegister ptr s1 else s1)))
                            (ptr \<mapsto> device\<lparr>setupComplete := True\<rparr>)\<rparr>)"
      by (auto simp: defs Let_def s1pre_def [symmetric] split: option.splits)
    have ax: "pluginsAgree x" by (rule pluginsAgree_frame [OF ag]) (simp_all add: x_def)
    have a1: "pluginsAgree s1"
      using s1 ag storeConfiguredDevices_agree [OF ax]
      by (auto simp: s1pre_def x_def split: if_splits)
    have h1: "heap s1 = heap s"
      using s1 by (auto simp: s1pre_def x_def storeConfiguredDevices_def
                        split: if_splits option.splits)
    have f: "supportedDevices s' = supportedDevices s1" "settings s' = settings s1"
      "heap s' = (heap s1)(ptr \<mapsto> device\<lparr>setupComplete := True\<rparr>)"
      by (simp_all add: s' emit_def connectStateValueChanged_def timerRegister_def Let_def)
    have "heapAgrees s'"
    proof (rule heapAgrees_mono [OF _ f(1)])
      show "heapAgrees s1" using a1 by (simp add: pluginsAgree_def)
    next
      fix p d'
      assume a: "heap s' p = Some d'"
      show "(\<exists>d. heap s1 p = Some d \<and> devicePluginId d' = devicePluginId d
                   \<and> deviceClassId d' = deviceClassId d)
               \<or> pluginIdAgrees s1 (devicePluginId d') (deviceClassId d')"
        using a hd unfolding f(3) h1 by (cases "p = ptr") auto
    qed
    moreover have "settingsAgree s'"
      using a1 settingsAgree_cong [OF f(1,2)] by (simp add: pluginsAgree_def)
    ultimately show ?thesis by (simp add: pluginsAgree_def)
  qed
qed

lemma fold_deleteDevice_fields:
  "supportedDevices (fold deleteDevice q s) = supportedDevices s
   \<and> settings (fold deleteDevice q s) = settings s
   \<and> (heap (fold deleteDevice q s) p = heap s p \<or> heap (fold deleteDevice q s) p = None)"
proof (induction q arbitrary: s)
  case Nil
  then show ?case by simp
next
  case (Cons a q)
  from Cons [of "deleteDevice a s"] show ?case
    by (cases "p = a") (auto simp: deleteDevice_def)
qed

lemma agree_returnToEventLoop:
  assumes "pluginsAgree s"
  shows "pluginsAgree (returnToEventLoop s)"
  by (rule pluginsAgree_frame [OF assms])
     (simp_all add: returnToEventLoop_def fold_deleteDevice_fields)

lemma agree_removeConfiguredDevice:
  assumes ag: "pluginsAgree s" and r: "removeConfiguredDevice s i = Some (err, s1)"
  shows "pluginsAgree s1"
proof -
  have f: "supportedDevices s1 = supportedDevices s" "heap s1 = heap s"
    "settings s1 = settings s \<or> settings s1 = AList.delete i (settings s)"
    using r
    by (auto simp: removeConfiguredDevice_def Let_def deleteLater_def
             split: option.splits if_splits)
  have "heapAgrees s1"
    using ag unfolding pluginsAgree_def heapAgrees_def pluginIdAgrees_cong [OF f(1)] f(2)
    by simp
  moreover have "settingsAgree s1"
    using ag f(3) unfolding pluginsAgree_def settingsAgree_def pluginIdAgrees_cong [OF f(1)]
    by (auto simp: AList.delete_eq list_all_iff)
  ultimately show ?thesis by (simp add: pluginsAgree_def)
qed

lemma agree_step:
  assumes "pluginsAgree s" and "step ops s s'"
  shows "pluginsAgree s'"
proof -
  have same: "pluginsAgree t" if "sameCore s t \<and> sameTimer s t" for t
    using that pluginsAgree_sameCore assms(1) by blast
  from assms(2) show ?thesis
  proof cases
    case step_loadConfiguredDevices
    then show ?thesis using agree_load [OF assms(1)] by blast
  next
    case (step_addConfiguredDevice deviceClassId' params id' err)
    then show ?thesis using agree_add [OF assms(1)] by blast
  next
    case (step_addConfiguredDevice_descriptor deviceClassId' deviceDescriptorId id' err)
    then show ?thesis using agree_add_descriptor [OF assms(1)] by blast
  next
    case (step_removeConfiguredDevice id' err s1)
    then show ?thesis
      using agree_removeConfiguredDevice [OF assms(1)] agree_returnToEventLoop by blast
  next
    case (step_discoverDevices deviceClassId' params err)
    then show ?thesis using simple_steps(1) same by blast
  next
    case (step_slotDevicesDiscovered sender deviceClassId' deviceDescriptors)
    then show ?thesis using simple_steps(2) same by blast
  next
    case (step_pairDevice_params tx deviceClassId' params err)
    then show ?thesis using simple_steps(3) same by blast
  next
    case (step_pairDevice tx deviceClassId' deviceDescriptorId err)
    then show ?thesis using simple_steps(4) same by blast
  next
    case (step_confirmPairing tx secret err)
    then show ?thesis using simple_steps(5) same by blast
  next
    case (step_slotPairingFinished tx status newId)
    then show ?thesis using agree_slotPairingFinished [OF assms(1)] by blast
  next
    case (step_slotDeviceSetupFinished device' status)
    then show ?thesis using agree_slotDeviceSetupFinished [OF assms(1)] by blast
  next
    case (step_autoDevicesAppeared deviceClassId' deviceDescriptors)
    then show ?thesis using agree_auto [OF assms(1)] by blast
  next
    case (step_slotDeviceStateValueChanged sender' stateTypeId' value')
    then show ?thesis using simple_steps(6) same by blast
  next
    case (step_Device_stateValueChanged ptr stateTypeId' value')
    then show ?thesis
      using deliverStateValueChanged_sameCore same by (simp add: Device_stateValueChanged_def)
  next
    case (step_timerShot n)
    have "sameCore s s'" by (simp add: step_timerShot(1) sameCore_def)
    then show ?thesis using pluginsAgree_sameCore assms(1) by blast
  qed
qed

lemma reachable_agree: "reachable ops s0 s \<Longrightarrow> pluginsAgree s0 \<Longrightarrow> pluginsAgree s"
  by (induction rule: reachable.induct) (auto dest: agree_step)

lemma timerInv_agree:
  assumes ti: "timerInv s" and ha: "heapAgrees s"
  shows "pluginTimerActive s = timerNeeded s"
    and "(ptr \<in> set (pluginTimerUsers s))
           = (ptr \<in> set (configuredDevices s) \<and> setupDone s ptr \<and> devicePluginTimer s ptr)"
proof -
  have eq: "classPluginTimer s p = devicePluginTimer s p" for p
    using ha
    by (auto simp: classPluginTimer_def devicePluginTimer_def heapAgrees_def
                   pluginIdAgrees_def split: option.splits)
  have u: "(p \<in> set (pluginTimerUsers s))
           = (p \<in> set (configuredDevices s) \<and> setupDone s p \<and> devicePluginTimer s p)" for p
    using ti unfolding timerInv_def eq by blast
  show "(ptr \<in> set (pluginTimerUsers s))
           = (ptr \<in> set (configuredDevices s) \<and> setupDone s ptr \<and> devicePluginTimer s ptr)"
    using u .
  have "pluginTimerActive s = (\<exists>p. p \<in> set (pluginTimerUsers s))"
    using ti by (cases "pluginTimerUsers s") (auto simp: timerInv_def)
  also have "\<dots> = timerNeeded s" unfolding u by (auto simp: timerNeeded_def list_ex_iff)
  finally show "pluginTimerActive s = timerNeeded s" .
qed

subsection \<open>State changes\<close>

text \<open>The slot, called with a live Device as sender, emits deviceStateChanged and then
  eventTriggered, and changes nothing else.\<close>

lemma slotDeviceStateValueChanged_emits:
  assumes "heap s ptr = Some device"
  shows "slotDeviceStateValueChanged s (Some ptr) stateTypeId' value'
           = Some (s\<lparr>emitted := emitted s @
                      [SigDeviceStateChanged ptr stateTypeId' value',
                       SigEventTriggered
                         \<lparr>eventTypeId = stateTypeId', eventDeviceId = deviceId device,
                          eventParams = [\<lparr>paramName = ''value'', paramValue = value'\<rparr>],
                          isStateChangeEvent = True\<rparr>]\<rparr>)"
  using assms by (simp add: slotDeviceStateValueChanged_def emit_def)

lemma deliverStateValueChanged_none:
  "count_list cs ptr = 0 \<Longrightarrow> deliverStateValueChanged cs ptr sid v s = Some s"
  by (induction cs) (auto split: if_splits)

lemma deliverStateValueChanged_once:
  assumes "count_list cs ptr = 1" and "heap s ptr = Some device"
  shows "deliverStateValueChanged cs ptr sid v s
           = slotDeviceStateValueChanged s (Some ptr) sid v"
  using assms(1)
proof (induction cs)
  case Nil
  then show ?case by simp
next
  case (Cons c cs)
  show ?case
  proof (cases "c = ptr")
    case True
    then have "count_list cs ptr = 0" using Cons.prems by simp
    then show ?thesis
      using True slotDeviceStateValueChanged_emits [OF assms(2), of sid v]
      by (simp add: deliverStateValueChanged_none)
  next
    case False
    then show ?thesis using Cons by simp
  qed
qed

text \<open>
  C9 (as amended).  In every state that a run from the constructed manager reaches, a
  state value change of a configured device whose setup is complete makes the manager
  emit deviceStateChanged(device, stateTypeId, value) and then eventTriggered(event),
  where the event has the stateTypeId as its eventTypeId, the device's id, the param list
  [("value", value)] and the flag of a state change event, and nothing else changes.  A
  state value change of a configured device whose setup is not complete reaches no slot:
  nothing is emitted.
\<close>

theorem C9_state_change_signals:
  assumes "reachable ops (DeviceManager_init classes plugins stored) s"
    and "ptr \<in> set (configuredDevices s)"
  shows "\<exists>device. heap s ptr = Some device
           \<and> Device_stateValueChanged s ptr stateTypeId' value'
               = Some (if setupComplete device
                       then s\<lparr>emitted := emitted s @
                                [SigDeviceStateChanged ptr stateTypeId' value',
                                 SigEventTriggered
                                   \<lparr>eventTypeId = stateTypeId', eventDeviceId = deviceId device,
                                    eventParams = [\<lparr>paramName = ''value'',
                                                    paramValue = value'\<rparr>],
                                    isStateChangeEvent = True\<rparr>]\<rparr>
                       else s)"
proof -
  have i: "Inv0 s" using reachable_Inv0 [OF assms(1) Inv0_init] .
  then have "allLive s" and ci: "connInv s" by (simp_all add: Inv0_def)
  then obtain device where hd: "heap s ptr = Some device"
    using assms(2) by (auto simp: allLive_def list_all_iff)
  have c: "count_list (stateConnections s) ptr = (if setupComplete device then 1 else 0)"
    using ci hd by (simp add: connInv_def setupDone_def)
  show ?thesis
  proof (cases "setupComplete device")
    case True
    then show ?thesis
      using hd c deliverStateValueChanged_once [of "stateConnections s" ptr s device]
        slotDeviceStateValueChanged_emits [OF hd]
      by (simp add: Device_stateValueChanged_def)
  next
    case False
    then show ?thesis
      using hd c deliverStateValueChanged_none [of "stateConnections s" ptr]
      by (simp add: Device_stateValueChanged_def)
  qed
qed

theorem C9_witness:
  "reachable intOps
     (DeviceManager_init [(10, mockClass)] [30 \<mapsto> mockPlugin, 32 \<mapsto> mockPlugin] [])
     timerManager1
   \<and> 1 \<in> set (configuredDevices timerManager1)
   \<and> (\<exists>s'. Device_stateValueChanged timerManager1 1 5 (VBool True) = Some s'
          \<and> emitted s' =
              [SigDeviceStateChanged 1 5 (VBool True),
               SigEventTriggered
                 \<lparr>eventTypeId = 5, eventDeviceId = 7,
                  eventParams = [\<lparr>paramName = ''value'', paramValue = VBool True\<rparr>],
                  isStateChangeEvent = True\<rparr>])"
proof -
  have "reachable intOps timerManager0 timerManager0" by (rule reachable_start)
  moreover have "step intOps timerManager0 timerManager1"
    using timerManager0_add by (rule step_addConfiguredDevice)
  ultimately have "reachable intOps timerManager0 timerManager1" by (rule reachable_step)
  then have r: "reachable intOps
     (DeviceManager_init [(10, mockClass)] [30 \<mapsto> mockPlugin, 32 \<mapsto> mockPlugin] [])
     timerManager1"
    by (simp add: timerManager0_def)
  have m: "1 \<in> set (configuredDevices timerManager1)" by (simp add: timerManager1_eval)
  have h: "heap timerManager1 1 =
             Some \<lparr>deviceId = 7, devicePluginId = 30, deviceClassId = 10,
                   deviceName = ''mock'',
                   deviceParams = [\<lparr>paramName = ''n'', paramValue = VInt 3\<rparr>],
                   deviceStates = [], setupComplete = True\<rparr>"
    "emitted timerManager1 = []"
    by (simp_all add: timerManager1_eval timerManager0_def DeviceManager_init_def)
  show ?thesis
    using r m h C9_state_change_signals [OF r m, of 5 "VBool True"] by auto
qed

text \<open>
  C9 as stated fails for a configured device whose setup did not complete: the stored
  device 8 is loaded, its plugin fails the setup, the device is retained as a configured
  device and its \<open>stateValueChanged\<close> signal is not connected; a state value change of
  the device emits nothing.
\<close>

theorem C9_counterexample:
  "\<exists>s1. loadConfiguredDevices failingManager = Some s1
      \<and> reachable intOps failingManager s1
      \<and> configuredDevices s1 = [1]
      \<and> map_option deviceId (heap s1 1) = Some 8
      \<and> stateConnections s1 = []
      \<and> emitted s1 = []
      \<and> (\<exists>s2. Device_stateValueChanged s1 1 5 (VBool True) = Some s2 \<and> emitted s2 = [])"
proof -
  obtain s1 where l: "loadConfiguredDevices failingManager = Some s1"
    and p: "configuredDevices s1 = [1]" "map_option deviceId (heap s1 1) = Some 8"
      "stateConnections s1 = []" "emitted s1 = []"
    by (simp add: loadConfiguredDevices_def failingManager_def DeviceManager_init_def
                  allocDevice_def Device_new_def storedParams_def setupDevice_def
                  findDeviceClass_def mockClass_def failingPlugin_def mockPlugin_def
                  initialStates_def Let_def)
  have "reachable intOps failingManager failingManager" by (rule reachable_start)
  then have "reachable intOps failingManager s1"
    using step_loadConfiguredDevices [OF l] by (rule reachable_step)
  moreover have "Device_stateValueChanged s1 1 5 (VBool True) = Some s1"
    by (simp add: Device_stateValueChanged_def p)
  ultimately show ?thesis using l p by blast
qed

subsection \<open>The timer\<close>

text \<open>
  C6 (as amended).  In every state that a run from the constructed manager reaches, the
  timer has the interval of 15000 ms and is active exactly when at least one device is
  registered as its user.  When every stored device of the settings the run starts from
  holds the plugin id of its DeviceClass, the registered devices are exactly the
  configured devices whose setup is complete and whose plugin requires the Timer
  resource, so the timer is active exactly when there is such a device.  For other
  settings a registered device is a configured device with complete setup for which the
  plugin of its class or the plugin whose id it holds requires the Timer resource, and a
  configured device with complete setup is registered when both do.  In every step, when
  the first device is registered the timer starts and one immediate single shot of
  \<open>timerEvent\<close> is queued, and when the last one is removed the timer stops.
\<close>

theorem C6_timer_runs_iff_users:
  assumes "reachable ops (DeviceManager_init classes plugins stored) s"
  shows "timerInv s
       \<and> (pluginsAgree (DeviceManager_init classes plugins stored) \<longrightarrow>
            pluginsAgree s
            \<and> pluginTimerActive s = timerNeeded s
            \<and> (\<forall>ptr. (ptr \<in> set (pluginTimerUsers s))
                      = (ptr \<in> set (configuredDevices s) \<and> setupDone s ptr
                         \<and> devicePluginTimer s ptr)))
       \<and> (\<forall>s'. step ops s s' \<longrightarrow>
            timerInv s'
            \<and> (pluginTimerUsers s = [] \<and> pluginTimerUsers s' \<noteq> []
                 \<longrightarrow> \<not> pluginTimerActive s \<and> pluginTimerActive s'
                     \<and> pendingTimerShots s' = Suc (pendingTimerShots s))
            \<and> (pluginTimerUsers s \<noteq> [] \<and> pluginTimerUsers s' = []
                 \<longrightarrow> pluginTimerActive s \<and> \<not> pluginTimerActive s'))"
proof -
  have i: "Inv0 s" using reachable_Inv0 [OF assms Inv0_init] .
  then have t: "timerInv s" by (simp add: Inv0_def)
  have g: "pluginsAgree s
            \<and> pluginTimerActive s = timerNeeded s
            \<and> (\<forall>ptr. (ptr \<in> set (pluginTimerUsers s))
                      = (ptr \<in> set (configuredDevices s) \<and> setupDone s ptr
                         \<and> devicePluginTimer s ptr))"
    if "pluginsAgree (DeviceManager_init classes plugins stored)"
  proof -
    have a: "pluginsAgree s" using reachable_agree [OF assms that] .
    then have "heapAgrees s" by (simp add: pluginsAgree_def)
    then show ?thesis using a timerInv_agree [OF t] by blast
  qed
  have "timerInv s'
            \<and> (pluginTimerUsers s = [] \<and> pluginTimerUsers s' \<noteq> []
                 \<longrightarrow> \<not> pluginTimerActive s \<and> pluginTimerActive s'
                     \<and> pendingTimerShots s' = Suc (pendingTimerShots s))
            \<and> (pluginTimerUsers s \<noteq> [] \<and> pluginTimerUsers s' = []
                 \<longrightarrow> pluginTimerActive s \<and> \<not> pluginTimerActive s')"
    if "step ops s s'" for s'
  proof -
    from Inv0_step [OF i that] have
      t': "timerInv s'"
      and k: "\<not> pluginTimerActive s \<and> pluginTimerActive s'
            \<longrightarrow> pendingTimerShots s' = Suc (pendingTimerShots s)"
      by (simp_all add: Inv0_def)
    have a: "pluginTimerActive s = (pluginTimerUsers s \<noteq> [])"
      "pluginTimerActive s' = (pluginTimerUsers s' \<noteq> [])"
      using t t' by (simp_all add: timerInv_def)
    show ?thesis using t' k a by blast
  qed
  then show ?thesis using t g by blast
qed

lemma timerManager1_remove:
  "\<exists>s2. removeConfiguredDevice timerManager1 7 = Some (DeviceErrorNoError, s2)
        \<and> heap s2 1 \<noteq> None \<and> stateConnections s2 = [1]
        \<and> pluginTimerUsers (returnToEventLoop s2) = []
        \<and> configuredDevices (returnToEventLoop s2) = []
        \<and> heap (returnToEventLoop s2) 1 = None
        \<and> stateConnections (returnToEventLoop s2) = []"
  unfolding timerManager1_eval
  by (simp add: timerManager0_def DeviceManager_init_def removeConfiguredDevice_def
                mockPlugin_def deleteDevice_def deleteLater_def returnToEventLoop_def Let_def)

theorem C6_witness:
  "reachable intOps timerManager0 timerManager0 \<and> pluginsAgree timerManager0
   \<and> pluginTimerUsers timerManager0 = []
   \<and> \<not> pluginTimerActive timerManager0 \<and> \<not> timerNeeded timerManager0
   \<and> step intOps timerManager0 timerManager1
   \<and> pluginTimerInterval timerManager1 = 15000
   \<and> pluginTimerUsers timerManager1 = [1] \<and> pluginTimerActive timerManager1
   \<and> timerNeeded timerManager1
   \<and> pendingTimerShots timerManager1 = Suc (pendingTimerShots timerManager0)
   \<and> (\<exists>s2. removeConfiguredDevice timerManager1 7 = Some (DeviceErrorNoError, s2)
          \<and> step intOps timerManager1 (returnToEventLoop s2)
          \<and> pluginTimerUsers (returnToEventLoop s2) = []
          \<and> \<not> pluginTimerActive (returnToEventLoop s2))"
proof -
  define s0 where
    "s0 = DeviceManager_init [(10, mockClass)] [30 \<mapsto> mockPlugin, 32 \<mapsto> mockPlugin] []"
  have e0: "timerManager0 = s0" by (simp add: s0_def timerManager0_def)
  have r0: "reachable intOps s0 timerManager0" unfolding e0 by (rule reachable_start)
  have ag: "pluginsAgree s0"
    by (simp add: s0_def pluginsAgree_def heapAgrees_def settingsAgree_def
                  DeviceManager_init_def)
  have s01: "step intOps timerManager0 timerManager1"
    using timerManager0_add by (rule step_addConfiguredDevice)
  have r1: "reachable intOps s0 timerManager1" using r0 s01 by (rule reachable_step)
  have u0: "pluginTimerUsers timerManager0 = []" "\<not> pluginTimerActive timerManager0"
    by (simp_all add: timerManager0_def DeviceManager_init_def)
  have u1: "pluginTimerUsers timerManager1 = [1]" by (simp add: timerManager1_eval)
  obtain s2 where s2: "removeConfiguredDevice timerManager1 7 = Some (DeviceErrorNoError, s2)"
    "pluginTimerUsers (returnToEventLoop s2) = []"
    using timerManager1_remove by blast
  have s12: "step intOps timerManager1 (returnToEventLoop s2)"
    using s2(1) by (rule step_removeConfiguredDevice)
  note a = C6_timer_runs_iff_users [OF r0 [unfolded s0_def]]
    and b = C6_timer_runs_iff_users [OF r1 [unfolded s0_def]]
  have ag': "pluginsAgree
               (DeviceManager_init [(10, mockClass)] [30 \<mapsto> mockPlugin, 32 \<mapsto> mockPlugin] [])"
    using ag by (simp add: s0_def)
  have "pluginTimerActive timerManager1
        \<and> pendingTimerShots timerManager1 = Suc (pendingTimerShots timerManager0)"
    using a s01 u0 u1 by auto
  moreover have "pluginTimerInterval timerManager1 = 15000"
    using b by (simp add: timerInv_def)
  moreover have "\<not> pluginTimerActive (returnToEventLoop s2)" using b s12 u1 s2(2) by auto
  moreover have "\<not> timerNeeded timerManager0" using a ag' u0(2) by simp
  moreover have "timerNeeded timerManager1" using b ag' calculation(1) by simp
  moreover have "pluginsAgree timerManager0" using ag e0 by simp
  ultimately show ?thesis using r0 [unfolded s0_def [symmetric] e0 [symmetric]] u0 s01 u1 s2 s12
    by (simp add: e0 [symmetric] s0_def [symmetric])
qed

text \<open>
  C6 as stated fails for a configured device whose setup did not complete: the stored
  device 8 of class 10 is loaded, plugin 30 requires the Timer resource and fails the
  setup; the device is retained as a configured device and the timer is not started.
\<close>

theorem C6_counterexample:
  "\<exists>s1. loadConfiguredDevices failingManager = Some s1
      \<and> reachable intOps failingManager s1
      \<and> pluginsAgree failingManager
      \<and> configuredDevices s1 = [1]
      \<and> map_option devicePluginId (heap s1 1) = Some 30
      \<and> ownerPlugin s1 1 = Some 30
      \<and> requiresHardware s1 30 HardwareResourceTimer
      \<and> \<not> pluginTimerActive s1"
proof -
  obtain s1 where l: "loadConfiguredDevices failingManager = Some s1"
    and p: "configuredDevices s1 = [1]" "map_option devicePluginId (heap s1 1) = Some 30"
      "ownerPlugin s1 1 = Some 30" "requiresHardware s1 30 HardwareResourceTimer"
      "\<not> pluginTimerActive s1"
    by (simp add: loadConfiguredDevices_def failingManager_def DeviceManager_init_def
                  allocDevice_def Device_new_def storedParams_def setupDevice_def
                  findDeviceClass_def mockClass_def failingPlugin_def mockPlugin_def
                  initialStates_def Let_def ownerPlugin_def supportedDevices_value_def
                  requiresHardware_def)
  have "reachable intOps failingManager failingManager" by (rule reachable_start)
  then have "reachable intOps failingManager s1"
    using step_loadConfiguredDevices [OF l] by (rule reachable_step)
  moreover have "pluginsAgree failingManager"
    by (simp add: pluginsAgree_def heapAgrees_def settingsAgree_def pluginIdAgrees_def
                  failingManager_def DeviceManager_init_def findDeviceClass_def mockClass_def)
  ultimately show ?thesis using l p by blast
qed

end
